theory Spec2Isabelle
  imports Complex_Main
begin

section \<open>Values, exceptions and the state of a run\<close>

text \<open>
  The repository is one Jupyter notebook, \<^verbatim>\<open>Tour de SciKit-Learn.ipynb\<close>, whose code cells call
  scikit-learn, pandas, numpy and matplotlib. The notebook is embedded cell by cell: a cell is a
  function on the state of the Python session, built from one combinator per Python construct
  that the notebook uses. The libraries are not part of the repository; a parameter of type
  \<open>lib\<close> stands for them (which operations raise, and what the arrays they return hold).

  The names of the notebook's global namespace.
\<close>

datatype (plugins only:) var =
    v_time | v_np | v_plt | v_mse | v_r2_score | v_classification_report | v_cv
  | v_load_boston | v_load_iris | v_load_diabetes | v_load_digits | v_load_linnerud
  | v_boston | v_iris | v_diabetes | v_digits | v_linnerud
  | v_pd | v_scatter_matrix | v_radviz | v_df | v_cmap | v_colors | v_fig | v_random
  | v_LinearRegression | v_Perceptron | v_KNeighborsRegressor | v_DecisionTreeRegressor
  | v_RandomForestRegressor | v_AdaBoostRegressor | v_SVR | v_Ridge | v_Lasso
  | v_model | v_expected | v_predicted
  | v_LogisticRegression | v_LDA | v_GaussianNB | v_KNeighborsClassifier
  | v_DecisionTreeClassifier | v_SVC | v_RandomForestClassifier
  | v_splits | v_X_train | v_X_test | v_y_train | v_y_test | v_kernels | v_kernel
  | v_make_circles | v_make_moons | v_make_blobs | v_StandardScaler
  | v_N | v_circles | v_moons | v_blobs | v_noise | v_axe | v_idx | v_dataset | v_X | v_y
  | v_warnings | v_MiniBatchKMeans | v_AffinityPropagation
  | v_predictions | v_centers | v_center_colors

text \<open>
  Python values. \<open>VRef k\<close> is the object returned by operation number \<open>k\<close> of the run (an
  estimator, a dataset, an array, a figure): the notebook never looks inside such an object, it
  only passes it on. \<open>VAttr v a\<close> is \<open>v.a\<close> and \<open>VItem v i\<close> is \<open>v[i]\<close> for such an object.
  \<open>VArr k xs\<close> is a numpy array built by operation \<open>k\<close> from elements \<open>xs\<close> that the notebook
  itself supplied. Float literals are kept as the decimal fraction they denote.
\<close>

datatype val =
    VNone
  | VBool bool
  | VInt int
  | VNum rat
  | VStr string
  | VTuple "val list"
  | VList "val list"
  | VDict "(val \<times> val) list"
  | VSlice val val
  | VMod string
  | VSym string string
  | VRef nat
  | VArr nat "val list"
  | VAttr val string
  | VItem val val
  | VFmt string val

datatype exn =
    NameError var
  | KeyError val
  | IndexError
  | ValueError
  | LibraryError nat string

text \<open>
  The axes that pyplot's plotting functions draw on: none yet, a figure without axes, the
  single axes that fills a figure, or cell \<open>i\<close> of an \<open>r\<close> by \<open>c\<close> grid in a figure.
\<close>

datatype axes = NoFigure | NoAxes nat | WholeFigure nat | GridCell nat int int int

text \<open>
  What a run does that can be observed from outside the Python session, in order. Every entry
  carries its number in the run and the number of the notebook cell that performed it; a call
  also records the callee, the positional and the keyword arguments, and the axes that were
  current when it was made.
\<close>

datatype event =
    Magic nat nat string
  | Imported nat nat string "string list"
  | Called nat nat val "val list" "(string \<times> val) list" axes
  | Printed nat nat "val list"

fun ev_id :: "event \<Rightarrow> nat" where
  "ev_id (Magic k c t) = k"
| "ev_id (Imported k c m ns) = k"
| "ev_id (Called k c f args kw ax) = k"
| "ev_id (Printed k c vs) = k"

fun ev_cell :: "event \<Rightarrow> nat" where
  "ev_cell (Magic k c t) = c"
| "ev_cell (Imported k c m ns) = c"
| "ev_cell (Called k c f args kw ax) = c"
| "ev_cell (Printed k c vs) = c"

text \<open>
  The libraries: \<open>raises L k\<close> names the exception that operation \<open>k\<close> raises inside the library,
  if any, and \<open>elems_of L v\<close> lists what iterating over the library object \<open>v\<close> yields.
\<close>

record lib =
  raises :: "nat \<Rightarrow> string option"
  elems_of :: "val \<Rightarrow> val list"

text \<open>
  The state of a run: the global namespace, the cell being executed, the number of operations
  performed so far and their log, the exceptions raised, the warnings filter, pyplot's figure
  counter and current axes, and the libraries. A run of the notebook has \<open>dry = False\<close>: the
  first exception stops it. With \<open>dry = True\<close> exceptions are recorded and execution goes on,
  which lists everything the notebook would do when nothing fails.
\<close>

record nb =
  env :: "var \<rightharpoonup> val"
  cell :: nat
  nops :: nat
  trace :: "event list"
  raised :: "exn list"
  warn_filter :: "val list"
  nfigs :: nat
  cur_axes :: axes
  library :: lib
  dry :: bool

type_synonym 'a act = "nb \<Rightarrow> 'a \<times> nb"
type_synonym expr = "val act"
type_synonym stmt = "nb \<Rightarrow> nb"

section \<open>Exceptions\<close>

text \<open>
  The notebook has no \<^verbatim>\<open>try\<close> statement, so the embedding has no combinator that catches: once an
  exception is raised in a run, every construct below does nothing.
\<close>

fun stopped :: "bool \<Rightarrow> exn list \<Rightarrow> bool" where
  "stopped True es = False"
| "stopped False [] = False"
| "stopped False (e # es) = True"

definition halted :: "nb \<Rightarrow> bool" where
  "halted s = stopped (dry s) (raised s)"

fun unless :: "bool \<Rightarrow> 'a \<Rightarrow> 'a act \<Rightarrow> 'a act" where
  "unless True d m s = (d, s)"
| "unless False d m s = m s"

fun skip_if :: "bool \<Rightarrow> stmt \<Rightarrow> stmt" where
  "skip_if True c s = s"
| "skip_if False c s = c s"

definition raising :: "exn list \<Rightarrow> stmt" where
  "raising es s = s\<lparr>raised := raised s @ es\<rparr>"

definition lib_exn :: "lib \<Rightarrow> nat \<Rightarrow> exn list" where
  "lib_exn L k = (case raises L k of None \<Rightarrow> [] | Some n \<Rightarrow> [LibraryError k n])"

text \<open>An operation handled by a library is logged, and raises if the library says so.\<close>

definition lib_op :: "(nat \<Rightarrow> nat \<Rightarrow> event) \<Rightarrow> stmt" where
  "lib_op ev s =
     s\<lparr>nops := nops s + 1, trace := trace s @ [ev (nops s) (cell s)],
       raised := raised s @ lib_exn (library s) (nops s)\<rparr>"

fun elems :: "lib \<Rightarrow> val \<Rightarrow> val list" where
  "elems L (VTuple xs) = xs"
| "elems L (VList xs) = xs"
| "elems L (VArr k xs) = xs"
| "elems L (VStr cs) = map (\<lambda>c. VStr [c]) cs"
| "elems L v = elems_of L v"

section \<open>Expressions\<close>

fun looked_up :: "var \<Rightarrow> val option \<Rightarrow> expr" where
  "looked_up x (Some v) s = (v, s)"
| "looked_up x None s = (VNone, raising [NameError x] s)"

definition name :: "var \<Rightarrow> expr" where
  "name x s = unless (halted s) VNone (looked_up x (env s x)) s"

definition lit :: "val \<Rightarrow> expr" where
  "lit v s = (v, s)"

definition attr :: "expr \<Rightarrow> string \<Rightarrow> expr" where
  "attr e a s = (case e s of (v, s1) \<Rightarrow> (VAttr v a, s1))"

fun eval_all :: "expr list \<Rightarrow> val list act" where
  "eval_all [] s = ([], s)"
| "eval_all (e # es) s =
     (case e s of (v, s1) \<Rightarrow> (case eval_all es s1 of (vs, s2) \<Rightarrow> (v # vs, s2)))"

fun eval_kw :: "(string \<times> expr) list \<Rightarrow> (string \<times> val) list act" where
  "eval_kw [] s = ([], s)"
| "eval_kw ((k, e) # es) s =
     (case e s of (v, s1) \<Rightarrow> (case eval_kw es s1 of (vs, s2) \<Rightarrow> ((k, v) # vs, s2)))"

definition tuple :: "expr list \<Rightarrow> expr" where
  "tuple es s = (case eval_all es s of (vs, s1) \<Rightarrow> (VTuple vs, s1))"

definition list :: "expr list \<Rightarrow> expr" where
  "list es s = (case eval_all es s of (vs, s1) \<Rightarrow> (VList vs, s1))"

text \<open>\<open>fmt f e\<close> is the Python expression \<^verbatim>\<open>f % e\<close> for a string literal \<open>f\<close>.\<close>

definition fmt :: "string \<Rightarrow> expr \<Rightarrow> expr" where
  "fmt f e s = (case e s of (v, s1) \<Rightarrow> (VFmt f v, s1))"

fun add_val :: "val \<Rightarrow> val \<Rightarrow> val" where
  "add_val (VInt a) (VInt b) = VInt (a + b)"
| "add_val a b = VNone"

definition add :: "expr \<Rightarrow> expr \<Rightarrow> expr" where
  "add e1 e2 s = (case e1 s of (a, s1) \<Rightarrow> case e2 s1 of (b, s2) \<Rightarrow> (add_val a b, s2))"

fun mul_val :: "val \<Rightarrow> val \<Rightarrow> val" where
  "mul_val (VList xs) (VInt n) = VList (concat (replicate (nat n) xs))"
| "mul_val (VInt a) (VInt b) = VInt (a * b)"
| "mul_val a b = VNone"

definition mul :: "expr \<Rightarrow> expr \<Rightarrow> expr" where
  "mul e1 e2 s = (case e1 s of (a, s1) \<Rightarrow> case e2 s1 of (b, s2) \<Rightarrow> (mul_val a b, s2))"

definition ne :: "expr \<Rightarrow> expr \<Rightarrow> expr" where
  "ne e1 e2 s = (case e1 s of (a, s1) \<Rightarrow> case e2 s1 of (b, s2) \<Rightarrow> (VBool (a \<noteq> b), s2))"

definition len :: "expr \<Rightarrow> expr" where
  "len e s = (case e s of (v, s1) \<Rightarrow> (VInt (int (length (elems (library s1) v))), s1))"

fun numbered :: "int \<Rightarrow> val list \<Rightarrow> val list" where
  "numbered i [] = []"
| "numbered i (x # xs) = VTuple [VInt i, x] # numbered (i + 1) xs"

definition enumerate :: "expr \<Rightarrow> expr" where
  "enumerate e s = (case e s of (v, s1) \<Rightarrow> (VList (numbered 0 (elems (library s1) v)), s1))"

definition slice :: "expr \<Rightarrow> expr \<Rightarrow> expr" where
  "slice e1 e2 s = (case e1 s of (a, s1) \<Rightarrow> case e2 s1 of (b, s2) \<Rightarrow> (VSlice a b, s2))"

text \<open>
  Subscripting. A dictionary raises \<^verbatim>\<open>KeyError\<close> for a missing key. An array of \<open>n\<close> elements
  accepts the indices from \<open>-n\<close> to \<open>n - 1\<close>, also when an array of indices selects several
  elements at once, and raises \<^verbatim>\<open>IndexError\<close> otherwise. \<open>getitem\<close> returns the value together
  with the exception raised, if any. Subscripting a library object is left to the library.
\<close>

fun in_range :: "nat \<Rightarrow> val \<Rightarrow> bool" where
  "in_range n (VInt i) = (- int n \<le> i \<and> i < int n)"
| "in_range n v = False"

fun pick :: "val list \<Rightarrow> val \<Rightarrow> val" where
  "pick xs (VInt i) =
     (if in_range (length xs) (VInt i)
      then xs ! nat (if i < 0 then i + int (length xs) else i) else VNone)"
| "pick xs v = VNone"

definition index_errors :: "val list \<Rightarrow> val list \<Rightarrow> exn list" where
  "index_errors xs is = (if list_all (in_range (length xs)) is then [] else [IndexError])"

fun dict_get :: "val \<Rightarrow> val option \<Rightarrow> val \<times> exn list" where
  "dict_get i None = (VNone, [KeyError i])"
| "dict_get i (Some v) = (v, [])"

fun getitem :: "lib \<Rightarrow> val \<Rightarrow> val \<Rightarrow> val \<times> exn list" where
  "getitem L (VDict kvs) i = dict_get i (map_of kvs i)"
| "getitem L (VArr k xs) (VInt i) = (pick xs (VInt i), index_errors xs [VInt i])"
| "getitem L (VArr k xs) (VSlice VNone (VInt n)) =
     (VArr k (if 0 \<le> n then take (nat n) xs else take (length xs - nat (- n)) xs), [])"
| "getitem L (VArr k xs) i = (VArr k (map (pick xs) (elems L i)), index_errors xs (elems L i))"
| "getitem L c i = (VItem c i, [])"

definition result :: "val \<Rightarrow> expr" where
  "result v s = unless (halted s) VNone (lit v) s"

fun settle :: "val \<times> exn list \<Rightarrow> expr" where
  "settle (v, es) s = result v (raising es s)"

definition subscr :: "expr \<Rightarrow> expr \<Rightarrow> expr" where
  "subscr ec ei s =
     (case ec s of (c, s1) \<Rightarrow>
      case ei s1 of (i, s2) \<Rightarrow>
        unless (halted s2) VNone (settle (getitem (library s2) c i)) s2)"

text \<open>
  A list comprehension \<^verbatim>\<open>[body for x in e]\<close>; its variable is local to it (Python 3), so the
  body is a function of the element.
\<close>

definition list_comp :: "expr \<Rightarrow> (val \<Rightarrow> expr) \<Rightarrow> expr" where
  "list_comp e body s =
     (case e s of (v, s1) \<Rightarrow>
        unless (halted s1) VNone (list (map body (elems (library s1) v))) s1)"

section \<open>What the notebook relies on from the libraries\<close>

text \<open>
  A call returns a fresh library object, except that \<^verbatim>\<open>numpy.array\<close> and \<^verbatim>\<open>numpy.hstack\<close> of lists
  written in the notebook return the array of those elements, and \<^verbatim>\<open>tolist\<close> of such an array
  returns its elements.
\<close>

fun arr_elems :: "val \<Rightarrow> val list" where
  "arr_elems (VArr k xs) = xs"
| "arr_elems (VList xs) = xs"
| "arr_elems v = [v]"

fun numpy_result :: "nat \<Rightarrow> string \<Rightarrow> val list \<Rightarrow> val" where
  "numpy_result k f [VList xs] =
     (if f = ''array'' then VArr k xs
      else if f = ''hstack'' then VArr k (concat (map arr_elems xs))
      else VRef k)"
| "numpy_result k f args = VRef k"

fun lib_result :: "nat \<Rightarrow> val \<Rightarrow> val list \<Rightarrow> val" where
  "lib_result k (VAttr (VMod m) a) args = (if m = ''numpy'' then numpy_result k a args else VRef k)"
| "lib_result k (VAttr (VArr j xs) a) args = (if a = ''tolist'' then VList xs else VRef k)"
| "lib_result k f args = VRef k"

text \<open>
  pyplot keeps a current figure and current axes. \<^verbatim>\<open>figure\<close> opens a new figure, \<^verbatim>\<open>subplots\<close> a
  new figure with one axes, \<^verbatim>\<open>subplot(r, c, i)\<close> makes cell \<open>i\<close> of the grid of the current figure
  the current axes, \<^verbatim>\<open>show\<close> displays and closes the figures (the inline backend), and every
  other pyplot function works on the current axes, creating them when there are none.
\<close>

fun fig_of :: "axes \<Rightarrow> nat \<Rightarrow> nat" where
  "fig_of NoFigure n = n + 1"
| "fig_of (NoAxes g) n = g"
| "fig_of (WholeFigure g) n = g"
| "fig_of (GridCell g r c i) n = g"

fun axes_of :: "axes \<Rightarrow> nat \<Rightarrow> axes" where
  "axes_of NoFigure n = WholeFigure (n + 1)"
| "axes_of (NoAxes g) n = WholeFigure g"
| "axes_of a n = a"

definition plt_figure :: stmt where
  "plt_figure s = s\<lparr>nfigs := nfigs s + 1, cur_axes := NoAxes (nfigs s + 1)\<rparr>"

definition plt_subplots :: stmt where
  "plt_subplots s = s\<lparr>nfigs := nfigs s + 1, cur_axes := WholeFigure (nfigs s + 1)\<rparr>"

fun plt_subplot :: "val list \<Rightarrow> stmt" where
  "plt_subplot [VInt r, VInt c, VInt i] s =
     s\<lparr>nfigs := max (nfigs s) (fig_of (cur_axes s) (nfigs s)),
       cur_axes := GridCell (fig_of (cur_axes s) (nfigs s)) r c i\<rparr>"
| "plt_subplot args s = s"

definition plt_show :: stmt where
  "plt_show s = s\<lparr>cur_axes := NoFigure\<rparr>"

definition plt_gca :: stmt where
  "plt_gca s = s\<lparr>nfigs := max (nfigs s) (fig_of (cur_axes s) (nfigs s)),
                 cur_axes := axes_of (cur_axes s) (nfigs s)\<rparr>"

definition pyplot_effect :: "string \<Rightarrow> val list \<Rightarrow> stmt" where
  "pyplot_effect f args =
     (if f = ''figure'' then plt_figure
      else if f = ''subplots'' then plt_subplots
      else if f = ''subplot'' then plt_subplot args
      else if f = ''show'' then plt_show
      else plt_gca)"

text \<open>\<^verbatim>\<open>warnings.filterwarnings\<close> puts its action in front of the list of warning filters.\<close>

definition filterwarnings :: "val list \<Rightarrow> stmt" where
  "filterwarnings args s = s\<lparr>warn_filter := args @ warn_filter s\<rparr>"

definition module_effect :: "string \<Rightarrow> string \<Rightarrow> val list \<Rightarrow> stmt" where
  "module_effect m f args =
     (if m = ''warnings'' \<and> f = ''filterwarnings'' then filterwarnings args
      else if m = ''matplotlib.pyplot'' then pyplot_effect f args
      else (\<lambda>s. s))"

fun lib_effect :: "val \<Rightarrow> val list \<Rightarrow> stmt" where
  "lib_effect (VAttr (VMod m) f) args s = module_effect m f args s"
| "lib_effect f args s = s"

section \<open>Calls\<close>

text \<open>
  A call evaluates the callee, the positional arguments and the keyword arguments, in this
  order, and hands over to the library.
\<close>

definition answer :: "nat \<Rightarrow> val \<Rightarrow> val list \<Rightarrow> expr" where
  "answer k f args s = (lib_result k f args, lib_effect f args s)"

definition returned :: "nat \<Rightarrow> val \<Rightarrow> val list \<Rightarrow> expr" where
  "returned k f args s = unless (halted s) VNone (answer k f args) s"

definition perform :: "val \<Rightarrow> val list \<Rightarrow> (string \<times> val) list \<Rightarrow> expr" where
  "perform f args kw s =
     returned (nops s) f args (lib_op (\<lambda>k c. Called k c f args kw (cur_axes s)) s)"

definition call :: "expr \<Rightarrow> expr list \<Rightarrow> (string \<times> expr) list \<Rightarrow> expr" where
  "call ef eargs ekw s =
     (case ef s of (f, s1) \<Rightarrow>
      case eval_all eargs s1 of (args, s2) \<Rightarrow>
      case eval_kw ekw s2 of (kw, s3) \<Rightarrow>
        unless (halted s3) VNone (perform f args kw) s3)"

section \<open>Statements\<close>

definition bind :: "var \<Rightarrow> val \<Rightarrow> stmt" where
  "bind x v s = s\<lparr>env := (env s)(x \<mapsto> v)\<rparr>"

definition store :: "var \<Rightarrow> val \<Rightarrow> stmt" where
  "store x v s = skip_if (halted s) (bind x v) s"

fun store_all :: "(var \<times> val) list \<Rightarrow> stmt" where
  "store_all [] s = s"
| "store_all ((x, v) # xvs) s = store_all xvs (store x v s)"

definition assign :: "var \<Rightarrow> expr \<Rightarrow> stmt" where
  "assign x e s = (case e s of (v, s1) \<Rightarrow> store x v s1)"

text \<open>
  Assignment to several targets: a tuple or a list must have as many elements as there are
  targets (\<^verbatim>\<open>ValueError\<close> otherwise); the parts of a library object \<open>v\<close> are \<open>v[0]\<close>, \<open>v[1]\<close>, ...
\<close>

fun parts :: "val \<Rightarrow> int \<Rightarrow> var list \<Rightarrow> (var \<times> val) list" where
  "parts v i [] = []"
| "parts v i (x # xs) = (x, VItem v (VInt i)) # parts v (i + 1) xs"

definition spread :: "var list \<Rightarrow> val list \<Rightarrow> stmt" where
  "spread xs vs =
     (if length vs = length xs then store_all (zip xs vs) else raising [ValueError])"

fun targets :: "var list \<Rightarrow> val \<Rightarrow> stmt" where
  "targets [x] v = store x v"
| "targets xs (VTuple vs) = spread xs vs"
| "targets xs (VList vs) = spread xs vs"
| "targets xs v = store_all (parts v 0 xs)"

definition bind_targets :: "var list \<Rightarrow> val \<Rightarrow> stmt" where
  "bind_targets xs v s = skip_if (halted s) (targets xs v) s"

definition unpack :: "var list \<Rightarrow> expr \<Rightarrow> stmt" where
  "unpack xs e s = (case e s of (v, s1) \<Rightarrow> bind_targets xs v s1)"

definition expr :: "expr \<Rightarrow> stmt" where
  "expr e s = snd (e s)"

text \<open>
  \<^verbatim>\<open>ob.a = e\<close> and \<^verbatim>\<open>ob[i] = e\<close> change a library object: the right-hand side is evaluated first,
  and the change is an operation of the library.
\<close>

definition mutate :: "val \<Rightarrow> string \<Rightarrow> val list \<Rightarrow> stmt" where
  "mutate ob m args s = lib_op (\<lambda>k c. Called k c (VAttr ob m) args [] (cur_axes s)) s"

definition set_attr :: "expr \<Rightarrow> string \<Rightarrow> expr \<Rightarrow> stmt" where
  "set_attr eo a ev s =
     (case ev s of (v, s1) \<Rightarrow>
      case eo s1 of (ob, s2) \<Rightarrow>
        skip_if (halted s2) (mutate ob ''__setattr__'' [VStr a, v]) s2)"

definition set_item :: "expr \<Rightarrow> expr \<Rightarrow> expr \<Rightarrow> stmt" where
  "set_item eo ei ev s =
     (case ev s of (v, s1) \<Rightarrow>
      case eo s1 of (ob, s2) \<Rightarrow>
      case ei s2 of (i, s3) \<Rightarrow>
        skip_if (halted s3) (mutate ob ''__setitem__'' [i, v]) s3)"

definition imported :: "string \<Rightarrow> string list \<Rightarrow> (var \<times> val) list \<Rightarrow> stmt" where
  "imported m ns xvs s = store_all xvs (lib_op (\<lambda>k c. Imported k c m ns) s)"

definition import_op :: "string \<Rightarrow> string list \<Rightarrow> (var \<times> val) list \<Rightarrow> stmt" where
  "import_op m ns xvs s = skip_if (halted s) (imported m ns xvs) s"

text \<open>\<^verbatim>\<open>import m as x\<close> and \<^verbatim>\<open>from m import n as x, ...\<close>\<close>

definition import_as :: "string \<Rightarrow> var \<Rightarrow> stmt" where
  "import_as m x = import_op m [] [(x, VMod m)]"

definition from_import :: "string \<Rightarrow> (string \<times> var) list \<Rightarrow> stmt" where
  "from_import m nxs = import_op m (map fst nxs) (map (\<lambda>(n, x). (x, VSym m n)) nxs)"

text \<open>An IPython line magic, \<^verbatim>\<open>%matplotlib inline\<close>.\<close>

definition magic :: "string \<Rightarrow> stmt" where
  "magic t s = skip_if (halted s) (lib_op (\<lambda>k c. Magic k c t)) s"

definition emit :: "val list \<Rightarrow> stmt" where
  "emit vs s = s\<lparr>nops := nops s + 1, trace := trace s @ [Printed (nops s) (cell s) vs]\<rparr>"

definition print :: "expr list \<Rightarrow> stmt" where
  "print es s = (case eval_all es s of (vs, s1) \<Rightarrow> skip_if (halted s1) (emit vs) s1)"

fun seq :: "stmt list \<Rightarrow> stmt" where
  "seq [] s = s"
| "seq (c # cs) s = seq cs (c s)"

fun for_loop :: "var list \<Rightarrow> val list \<Rightarrow> stmt \<Rightarrow> stmt" where
  "for_loop xs [] body s = s"
| "for_loop xs (v # vs) body s = for_loop xs vs body (body (bind_targets xs v s))"

definition for_in :: "var list \<Rightarrow> expr \<Rightarrow> stmt list \<Rightarrow> stmt" where
  "for_in xs e body s =
     (case e s of (v, s1) \<Rightarrow>
        skip_if (halted s1) (for_loop xs (elems (library s1) v) (seq body)) s1)"

definition if_else :: "expr \<Rightarrow> stmt list \<Rightarrow> stmt list \<Rightarrow> stmt" where
  "if_else e cs ds s =
     (case e s of (b, s1) \<Rightarrow>
        skip_if (halted s1) (if b = VBool True then seq cs else seq ds) s1)"

definition enter :: "nat \<Rightarrow> stmt" where
  "enter n s = s\<lparr>cell := n\<rparr>"

text \<open>
  A code cell; the number is the position of the cell in the notebook file. With the inline
  backend, which the first cell selects, the figures are displayed and closed when a cell ends.
\<close>

definition flush_figures :: stmt where
  "flush_figures s = skip_if (halted s) plt_show s"

definition code_cell :: "nat \<Rightarrow> stmt list \<Rightarrow> stmt" where
  "code_cell n cs s = skip_if (halted s) (seq (enter n # cs @ [flush_figures])) s"

definition init :: "lib \<Rightarrow> bool \<Rightarrow> nb" where
  "init L d = \<lparr>env = Map.empty, cell = 0, nops = 0, trace = [], raised = [],
               warn_filter = [], nfigs = 0, cur_axes = NoFigure, library = L, dry = d\<rparr>"

section \<open>The notebook, cell by cell\<close>

definition cell2 :: stmt where
  "cell2 = code_cell 2 [
     magic ''matplotlib inline'',
     import_as ''time'' v_time,
     import_as ''numpy'' v_np,
     import_as ''matplotlib.pyplot'' v_plt,
     from_import ''sklearn.metrics'' [(''mean_squared_error'', v_mse)],
     from_import ''sklearn.metrics'' [(''r2_score'', v_r2_score)],
     from_import ''sklearn.metrics'' [(''classification_report'', v_classification_report)],
     from_import ''sklearn'' [(''cross_validation'', v_cv)],
     from_import ''sklearn.datasets'' [(''load_boston'', v_load_boston)],
     from_import ''sklearn.datasets'' [(''load_iris'', v_load_iris)],
     from_import ''sklearn.datasets'' [(''load_diabetes'', v_load_diabetes)],
     from_import ''sklearn.datasets'' [(''load_digits'', v_load_digits)],
     from_import ''sklearn.datasets'' [(''load_linnerud'', v_load_linnerud)],
     assign v_boston (call (name v_load_boston) [] []),
     print [fmt ''Boston: %i samples %i features'' (attr (attr (name v_boston) ''data'') ''shape'')],
     assign v_iris (call (name v_load_iris) [] []),
     print [fmt ''Iris: %i samples %i features'' (attr (attr (name v_iris) ''data'') ''shape'')],
     assign v_diabetes (call (name v_load_diabetes) [] []),
     print [fmt ''Diabetes: %i samples %i features'' (attr (attr (name v_diabetes) ''data'') ''shape'')],
     assign v_digits (call (name v_load_digits) [] []),
     print [fmt ''Digits: %i samples %i features'' (attr (attr (name v_digits) ''data'') ''shape'')],
     assign v_linnerud (call (name v_load_linnerud) [] []),
     print [fmt ''Linnerud: %i samples %i features'' (attr (attr (name v_linnerud) ''data'') ''shape'')]
   ]"

definition cell4 :: stmt where
  "cell4 = code_cell 4 [
     import_as ''pandas'' v_pd,
     from_import ''pandas.tools.plotting'' [(''scatter_matrix'', v_scatter_matrix), (''radviz'', v_radviz)],
     assign v_df (call (attr (name v_pd) ''DataFrame'') [attr (name v_iris) ''data''] []),
     set_attr (name v_df) ''columns'' (attr (name v_iris) ''feature_names''),
     assign v_cmap (lit (VDict [(VInt 0, VStr ''r''), (VInt 1, VStr ''b''), (VInt 2, VStr ''g'')])),
     assign v_colors (list_comp (attr (name v_iris) ''target'') (\<lambda>t. subscr (name v_cmap) (lit t))),
     assign v_fig (call (name v_scatter_matrix) [name v_df] [(''alpha'', lit (VNum (4 / 10))), (''figsize'', lit (VTuple [VInt 16, VInt 10])), (''diagonal'', lit (VStr ''kde'')), (''color'', name v_colors)])
   ]"

definition cell5 :: stmt where
  "cell5 = code_cell 5 [
     expr (call (attr (name v_plt) ''figure'') [] [(''figsize'', lit (VTuple [VInt 12, VInt 12]))]),
     set_item (name v_df) (lit (VStr ''species'')) (list_comp (attr (name v_iris) ''target'') (\<lambda>idx. subscr (attr (name v_iris) ''target_names'') (lit idx))),
     expr (call (name v_radviz) [name v_df, lit (VStr ''species'')] [(''color'', lit (VList [VStr ''r'', VStr ''g'', VStr ''b'']))])
   ]"

definition cell6 :: stmt where
  "cell6 = code_cell 6 [
     assign v_df (call (attr (name v_pd) ''DataFrame'') [attr (name v_diabetes) ''data''] []),
     assign v_fig (call (name v_scatter_matrix) [name v_df] [(''alpha'', lit (VNum (2 / 10))), (''figsize'', lit (VTuple [VInt 16, VInt 10])), (''diagonal'', lit (VStr ''kde''))])
   ]"

definition cell7 :: stmt where
  "cell7 = code_cell 7 [
     import_as ''random'' v_random,
     expr (call (attr (name v_plt) ''figure'') [lit (VInt 1)] [(''figsize'', lit (VTuple [VInt 3, VInt 3]))]),
     expr (call (attr (name v_plt) ''imshow'') [subscr (attr (name v_digits) ''images'') (lit (VInt (- 1)))] [(''cmap'', attr (attr (name v_plt) ''cm'') ''gray_r''), (''interpolation'', lit (VStr ''nearest''))]),
     expr (call (attr (name v_plt) ''show'') [] [])
   ]"

definition cell10 :: stmt where
  "cell10 = code_cell 10 [
     from_import ''sklearn.linear_model'' [(''LinearRegression'', v_LinearRegression)],
     assign v_model (call (name v_LinearRegression) [] []),
     expr (call (attr (name v_model) ''fit'') [attr (name v_diabetes) ''data'', attr (name v_diabetes) ''target''] []),
     assign v_expected (attr (name v_diabetes) ''target''),
     assign v_predicted (call (attr (name v_model) ''predict'') [attr (name v_diabetes) ''data''] []),
     print [fmt ''Mean Squared Error: %0.3f'' (call (name v_mse) [name v_expected, name v_predicted] [])],
     print [fmt ''Coefficient of Determination: %0.3f'' (call (name v_r2_score) [name v_expected, name v_predicted] [])]
   ]"

definition cell12 :: stmt where
  "cell12 = code_cell 12 [
     from_import ''sklearn.linear_model'' [(''Perceptron'', v_Perceptron)],
     assign v_model (call (name v_Perceptron) [] []),
     expr (call (attr (name v_model) ''fit'') [attr (name v_diabetes) ''data'', attr (name v_diabetes) ''target''] []),
     assign v_expected (attr (name v_diabetes) ''target''),
     assign v_predicted (call (attr (name v_model) ''predict'') [attr (name v_diabetes) ''data''] []),
     print [fmt ''Mean Squared Error: %0.3f'' (call (name v_mse) [name v_expected, name v_predicted] [])],
     print [fmt ''Coefficient of Determination: %0.3f'' (call (name v_r2_score) [name v_expected, name v_predicted] [])]
   ]"

definition cell14 :: stmt where
  "cell14 = code_cell 14 [
     from_import ''sklearn.neighbors'' [(''KNeighborsRegressor'', v_KNeighborsRegressor)],
     assign v_model (call (name v_KNeighborsRegressor) [] []),
     expr (call (attr (name v_model) ''fit'') [attr (name v_diabetes) ''data'', attr (name v_diabetes) ''target''] []),
     assign v_expected (attr (name v_diabetes) ''target''),
     assign v_predicted (call (attr (name v_model) ''predict'') [attr (name v_diabetes) ''data''] []),
     print [fmt ''Mean Squared Error: %0.3f'' (call (name v_mse) [name v_expected, name v_predicted] [])],
     print [fmt ''Coefficient of Determination: %0.3f'' (call (name v_r2_score) [name v_expected, name v_predicted] [])]
   ]"

definition cell16 :: stmt where
  "cell16 = code_cell 16 [
     from_import ''sklearn.tree'' [(''DecisionTreeRegressor'', v_DecisionTreeRegressor)],
     assign v_model (call (name v_DecisionTreeRegressor) [] []),
     expr (call (attr (name v_model) ''fit'') [attr (name v_diabetes) ''data'', attr (name v_diabetes) ''target''] []),
     assign v_expected (attr (name v_diabetes) ''target''),
     assign v_predicted (call (attr (name v_model) ''predict'') [attr (name v_diabetes) ''data''] []),
     print [fmt ''Mean Squared Error: %0.3f'' (call (name v_mse) [name v_expected, name v_predicted] [])],
     print [fmt ''Coefficient of Determination: %0.3f'' (call (name v_r2_score) [name v_expected, name v_predicted] [])]
   ]"

definition cell18 :: stmt where
  "cell18 = code_cell 18 [
     from_import ''sklearn.ensemble'' [(''RandomForestRegressor'', v_RandomForestRegressor)],
     assign v_model (call (name v_RandomForestRegressor) [] []),
     expr (call (attr (name v_model) ''fit'') [attr (name v_diabetes) ''data'', attr (name v_diabetes) ''target''] []),
     assign v_expected (attr (name v_diabetes) ''target''),
     assign v_predicted (call (attr (name v_model) ''predict'') [attr (name v_diabetes) ''data''] []),
     print [fmt ''Mean Squared Error: %0.3f'' (call (name v_mse) [name v_expected, name v_predicted] [])],
     print [fmt ''Coefficient of Determination: %0.3f'' (call (name v_r2_score) [name v_expected, name v_predicted] [])]
   ]"

definition cell20 :: stmt where
  "cell20 = code_cell 20 [
     from_import ''sklearn.ensemble'' [(''AdaBoostRegressor'', v_AdaBoostRegressor)],
     assign v_model (call (name v_AdaBoostRegressor) [] []),
     expr (call (attr (name v_model) ''fit'') [attr (name v_diabetes) ''data'', attr (name v_diabetes) ''target''] []),
     assign v_expected (attr (name v_diabetes) ''target''),
     assign v_predicted (call (attr (name v_model) ''predict'') [attr (name v_diabetes) ''data''] []),
     print [fmt ''Mean Squared Error: %0.3f'' (call (name v_mse) [name v_expected, name v_predicted] [])],
     print [fmt ''Coefficient of Determination: %0.3f'' (call (name v_r2_score) [name v_expected, name v_predicted] [])]
   ]"

definition cell22 :: stmt where
  "cell22 = code_cell 22 [
     from_import ''sklearn.svm'' [(''SVR'', v_SVR)],
     assign v_model (call (name v_SVR) [] []),
     expr (call (attr (name v_model) ''fit'') [attr (name v_diabetes) ''data'', attr (name v_diabetes) ''target''] []),
     assign v_expected (attr (name v_diabetes) ''target''),
     assign v_predicted (call (attr (name v_model) ''predict'') [attr (name v_diabetes) ''data''] []),
     print [fmt ''Mean Squared Error: %0.3f'' (call (name v_mse) [name v_expected, name v_predicted] [])],
     print [fmt ''Coefficient of Determination: %0.3f'' (call (name v_r2_score) [name v_expected, name v_predicted] [])]
   ]"

definition cell24 :: stmt where
  "cell24 = code_cell 24 [
     from_import ''sklearn.linear_model'' [(''Ridge'', v_Ridge)],
     assign v_model (call (name v_Ridge) [] [(''alpha'', lit (VNum (1 / 10)))]),
     expr (call (attr (name v_model) ''fit'') [attr (name v_diabetes) ''data'', attr (name v_diabetes) ''target''] []),
     assign v_expected (attr (name v_diabetes) ''target''),
     assign v_predicted (call (attr (name v_model) ''predict'') [attr (name v_diabetes) ''data''] []),
     print [fmt ''Mean Squared Error: %0.3f'' (call (name v_mse) [name v_expected, name v_predicted] [])],
     print [fmt ''Coefficient of Determination: %0.3f'' (call (name v_r2_score) [name v_expected, name v_predicted] [])]
   ]"

definition cell26 :: stmt where
  "cell26 = code_cell 26 [
     from_import ''sklearn.linear_model'' [(''Lasso'', v_Lasso)],
     assign v_model (call (name v_Lasso) [] [(''alpha'', lit (VNum (1 / 10)))]),
     expr (call (attr (name v_model) ''fit'') [attr (name v_diabetes) ''data'', attr (name v_diabetes) ''target''] []),
     assign v_expected (attr (name v_diabetes) ''target''),
     assign v_predicted (call (attr (name v_model) ''predict'') [attr (name v_diabetes) ''data''] []),
     print [fmt ''Mean Squared Error: %0.3f'' (call (name v_mse) [name v_expected, name v_predicted] [])],
     print [fmt ''Coefficient of Determination: %0.3f'' (call (name v_r2_score) [name v_expected, name v_predicted] [])]
   ]"

definition cell29 :: stmt where
  "cell29 = code_cell 29 [
     from_import ''sklearn.linear_model'' [(''LogisticRegression'', v_LogisticRegression)],
     assign v_splits (call (attr (name v_cv) ''train_test_split'') [attr (name v_iris) ''data'', attr (name v_iris) ''target''] [(''test_size'', lit (VNum (2 / 10)))]),
     unpack [v_X_train, v_X_test, v_y_train, v_y_test] (name v_splits),
     assign v_model (call (name v_LogisticRegression) [] []),
     expr (call (attr (name v_model) ''fit'') [name v_X_train, name v_y_train] []),
     assign v_expected (name v_y_test),
     assign v_predicted (call (attr (name v_model) ''predict'') [name v_X_test] []),
     print [call (name v_classification_report) [name v_expected, name v_predicted] []]
   ]"

definition cell31 :: stmt where
  "cell31 = code_cell 31 [
     from_import ''sklearn.lda'' [(''LDA'', v_LDA)],
     assign v_splits (call (attr (name v_cv) ''train_test_split'') [attr (name v_digits) ''data'', attr (name v_digits) ''target''] [(''test_size'', lit (VNum (2 / 10)))]),
     unpack [v_X_train, v_X_test, v_y_train, v_y_test] (name v_splits),
     assign v_model (call (name v_LDA) [] []),
     expr (call (attr (name v_model) ''fit'') [name v_X_train, name v_y_train] []),
     assign v_expected (name v_y_test),
     assign v_predicted (call (attr (name v_model) ''predict'') [name v_X_test] []),
     print [call (name v_classification_report) [name v_expected, name v_predicted] []]
   ]"

definition cell33 :: stmt where
  "cell33 = code_cell 33 [
     from_import ''sklearn.naive_bayes'' [(''GaussianNB'', v_GaussianNB)],
     assign v_splits (call (attr (name v_cv) ''train_test_split'') [attr (name v_iris) ''data'', attr (name v_iris) ''target''] [(''test_size'', lit (VNum (2 / 10)))]),
     unpack [v_X_train, v_X_test, v_y_train, v_y_test] (name v_splits),
     assign v_model (call (name v_GaussianNB) [] []),
     expr (call (attr (name v_model) ''fit'') [name v_X_train, name v_y_train] []),
     assign v_expected (name v_y_test),
     assign v_predicted (call (attr (name v_model) ''predict'') [name v_X_test] []),
     print [call (name v_classification_report) [name v_expected, name v_predicted] []]
   ]"

definition cell35 :: stmt where
  "cell35 = code_cell 35 [
     from_import ''sklearn.neighbors'' [(''KNeighborsClassifier'', v_KNeighborsClassifier)],
     assign v_splits (call (attr (name v_cv) ''train_test_split'') [attr (name v_digits) ''data'', attr (name v_digits) ''target''] [(''test_size'', lit (VNum (2 / 10)))]),
     unpack [v_X_train, v_X_test, v_y_train, v_y_test] (name v_splits),
     assign v_model (call (name v_KNeighborsClassifier) [lit (VInt 20)] []),
     expr (call (attr (name v_model) ''fit'') [name v_X_train, name v_y_train] []),
     assign v_expected (name v_y_test),
     assign v_predicted (call (attr (name v_model) ''predict'') [name v_X_test] []),
     print [call (name v_classification_report) [name v_expected, name v_predicted] []]
   ]"

definition cell37 :: stmt where
  "cell37 = code_cell 37 [
     from_import ''sklearn.tree'' [(''DecisionTreeClassifier'', v_DecisionTreeClassifier)],
     assign v_splits (call (attr (name v_cv) ''train_test_split'') [attr (name v_iris) ''data'', attr (name v_iris) ''target''] [(''test_size'', lit (VNum (2 / 10)))]),
     unpack [v_X_train, v_X_test, v_y_train, v_y_test] (name v_splits),
     assign v_model (call (name v_DecisionTreeClassifier) [] []),
     expr (call (attr (name v_model) ''fit'') [name v_X_train, name v_y_train] []),
     assign v_expected (name v_y_test),
     assign v_predicted (call (attr (name v_model) ''predict'') [name v_X_test] []),
     print [call (name v_classification_report) [name v_expected, name v_predicted] []]
   ]"

definition cell39 :: stmt where
  "cell39 = code_cell 39 [
     from_import ''sklearn.svm'' [(''SVC'', v_SVC)],
     assign v_kernels (lit (VList [VStr ''linear'', VStr ''poly'', VStr ''rbf''])),
     assign v_splits (call (attr (name v_cv) ''train_test_split'') [attr (name v_digits) ''data'', attr (name v_digits) ''target''] [(''test_size'', lit (VNum (2 / 10)))]),
     unpack [v_X_train, v_X_test, v_y_train, v_y_test] (name v_splits),
     for_in [v_kernel] (name v_kernels) [
       if_else (ne (name v_kernel) (lit (VStr ''poly'')))
         [assign v_model (call (name v_SVC) [] [(''kernel'', name v_kernel)])]
         [assign v_model (call (name v_SVC) [] [(''kernel'', name v_kernel), (''degree'', lit (VInt 3))])],
       expr (call (attr (name v_model) ''fit'') [name v_X_train, name v_y_train] []),
       assign v_expected (name v_y_test),
       assign v_predicted (call (attr (name v_model) ''predict'') [name v_X_test] []),
       print [call (name v_classification_report) [name v_expected, name v_predicted] []]
     ]
   ]"

definition cell41 :: stmt where
  "cell41 = code_cell 41 [
     from_import ''sklearn.ensemble'' [(''RandomForestClassifier'', v_RandomForestClassifier)],
     assign v_splits (call (attr (name v_cv) ''train_test_split'') [attr (name v_digits) ''data'', attr (name v_digits) ''target''] [(''test_size'', lit (VNum (2 / 10)))]),
     unpack [v_X_train, v_X_test, v_y_train, v_y_test] (name v_splits),
     assign v_model (call (name v_RandomForestClassifier) [] []),
     expr (call (attr (name v_model) ''fit'') [name v_X_train, name v_y_train] []),
     assign v_expected (name v_y_test),
     assign v_predicted (call (attr (name v_model) ''predict'') [name v_X_test] []),
     print [call (name v_classification_report) [name v_expected, name v_predicted] []]
   ]"

definition cell44 :: stmt where
  "cell44 = code_cell 44 [
     from_import ''sklearn.datasets'' [(''make_circles'', v_make_circles)],
     from_import ''sklearn.datasets'' [(''make_moons'', v_make_moons)],
     from_import ''sklearn.datasets'' [(''make_blobs'', v_make_blobs)],
     from_import ''sklearn.preprocessing'' [(''StandardScaler'', v_StandardScaler)],
     assign v_N (lit (VInt 1000)),
     assign v_colors (call (attr (name v_np) ''array'') [list_comp (lit (VStr ''bgrcmykbgrcmykbgrcmykbgrcmyk'')) (\<lambda>x. lit x)] []),
     assign v_colors (call (attr (name v_np) ''hstack'') [mul (list [name v_colors]) (lit (VInt 20))] []),
     assign v_circles (call (name v_make_circles) [] [(''n_samples'', name v_N), (''factor'', lit (VNum (5 / 10))), (''noise'', lit (VNum (5 / 100)))]),
     assign v_moons (call (name v_make_moons) [] [(''n_samples'', name v_N), (''noise'', lit (VNum (8 / 100)))]),
     assign v_blobs (call (name v_make_blobs) [] [(''n_samples'', name v_N), (''random_state'', lit (VInt 9))]),
     assign v_noise (tuple [call (attr (attr (name v_np) ''random'') ''rand'') [name v_N, lit (VInt 2)] [], lit VNone]),
     unpack [v_fig, v_axe] (call (attr (name v_plt) ''subplots'') [] [(''figsize'', lit (VTuple [VInt 18, VInt 4]))]),
     for_in [v_idx, v_dataset] (enumerate (tuple [name v_circles, name v_moons, name v_blobs, name v_noise])) [
       unpack [v_X, v_y] (name v_dataset),
       assign v_X (call (attr (call (name v_StandardScaler) [] []) ''fit_transform'') [name v_X] []),
       expr (call (attr (name v_plt) ''subplot'') [lit (VInt 1), lit (VInt 4), add (name v_idx) (lit (VInt 1))] []),
       expr (call (attr (name v_plt) ''scatter'') [subscr (name v_X) (tuple [slice (lit VNone) (lit VNone), lit (VInt 0)]), subscr (name v_X) (tuple [slice (lit VNone) (lit VNone), lit (VInt 1)])] [(''marker'', lit (VStr ''.''))]),
       expr (call (attr (name v_plt) ''xticks'') [lit (VTuple [])] []),
       expr (call (attr (name v_plt) ''yticks'') [lit (VTuple [])] []),
       expr (call (attr (name v_plt) ''ylabel'') [lit (VStr ''$x_1$'')] []),
       expr (call (attr (name v_plt) ''xlabel'') [lit (VStr ''$x_0$'')] [])
     ],
     expr (call (attr (name v_plt) ''show'') [] [])
   ]"

definition cell46 :: stmt where
  "cell46 = code_cell 46 [
     import_as ''warnings'' v_warnings,
     expr (call (attr (name v_warnings) ''filterwarnings'') [lit (VStr ''ignore'')] [])
   ]"

definition cell47 :: stmt where
  "cell47 = code_cell 47 [
     from_import ''sklearn.cluster'' [(''MiniBatchKMeans'', v_MiniBatchKMeans)],
     unpack [v_fig, v_axe] (call (attr (name v_plt) ''subplots'') [] [(''figsize'', lit (VTuple [VInt 18, VInt 4]))]),
     for_in [v_idx, v_dataset] (enumerate (tuple [name v_circles, name v_moons, name v_blobs, name v_noise])) [
       unpack [v_X, v_y] (name v_dataset),
       assign v_X (call (attr (call (name v_StandardScaler) [] []) ''fit_transform'') [name v_X] []),
       assign v_model (call (name v_MiniBatchKMeans) [] [(''n_clusters'', lit (VInt 5))]),
       expr (call (attr (name v_model) ''fit'') [name v_X] []),
       assign v_predictions (call (attr (name v_model) ''predict'') [name v_X] []),
       assign v_centers (attr (name v_model) ''cluster_centers_''),
       assign v_center_colors (subscr (name v_colors) (slice (lit VNone) (len (name v_centers)))),
       expr (call (attr (name v_plt) ''scatter'') [subscr (name v_centers) (tuple [slice (lit VNone) (lit VNone), lit (VInt 0)]), subscr (name v_centers) (tuple [slice (lit VNone) (lit VNone), lit (VInt 1)])] [(''s'', lit (VInt 100)), (''c'', name v_center_colors)]),
       expr (call (attr (name v_plt) ''subplot'') [lit (VInt 1), lit (VInt 4), add (name v_idx) (lit (VInt 1))] []),
       expr (call (attr (name v_plt) ''scatter'') [subscr (name v_X) (tuple [slice (lit VNone) (lit VNone), lit (VInt 0)]), subscr (name v_X) (tuple [slice (lit VNone) (lit VNone), lit (VInt 1)])] [(''color'', call (attr (subscr (name v_colors) (name v_predictions)) ''tolist'') [] []), (''s'', lit (VInt 10))]),
       expr (call (attr (name v_plt) ''xticks'') [lit (VTuple [])] []),
       expr (call (attr (name v_plt) ''yticks'') [lit (VTuple [])] []),
       expr (call (attr (name v_plt) ''ylabel'') [lit (VStr ''$x_1$'')] []),
       expr (call (attr (name v_plt) ''xlabel'') [lit (VStr ''$x_0$'')] [])
     ],
     expr (call (attr (name v_plt) ''show'') [] [])
   ]"

definition cell49 :: stmt where
  "cell49 = code_cell 49 [
     from_import ''sklearn.cluster'' [(''AffinityPropagation'', v_AffinityPropagation)],
     unpack [v_fig, v_axe] (call (attr (name v_plt) ''subplots'') [] [(''figsize'', lit (VTuple [VInt 18, VInt 4]))]),
     for_in [v_idx, v_dataset] (enumerate (tuple [name v_circles, name v_moons, name v_blobs, name v_noise])) [
       unpack [v_X, v_y] (name v_dataset),
       assign v_X (call (attr (call (name v_StandardScaler) [] []) ''fit_transform'') [name v_X] []),
       assign v_model (call (name v_AffinityPropagation) [] [(''damping'', lit (VNum (92 / 100))), (''preference'', lit (VInt (- 200)))]),
       expr (call (attr (name v_model) ''fit'') [name v_X] []),
       assign v_predictions (call (attr (name v_model) ''predict'') [name v_X] []),
       assign v_centers (attr (name v_model) ''cluster_centers_''),
       assign v_center_colors (subscr (name v_colors) (slice (lit VNone) (len (name v_centers)))),
       expr (call (attr (name v_plt) ''scatter'') [subscr (name v_centers) (tuple [slice (lit VNone) (lit VNone), lit (VInt 0)]), subscr (name v_centers) (tuple [slice (lit VNone) (lit VNone), lit (VInt 1)])] [(''s'', lit (VInt 100)), (''c'', name v_center_colors)]),
       expr (call (attr (name v_plt) ''subplot'') [lit (VInt 1), lit (VInt 4), add (name v_idx) (lit (VInt 1))] []),
       expr (call (attr (name v_plt) ''scatter'') [subscr (name v_X) (tuple [slice (lit VNone) (lit VNone), lit (VInt 0)]), subscr (name v_X) (tuple [slice (lit VNone) (lit VNone), lit (VInt 1)])] [(''color'', call (attr (subscr (name v_colors) (name v_predictions)) ''tolist'') [] []), (''s'', lit (VInt 10))]),
       expr (call (attr (name v_plt) ''xticks'') [lit (VTuple [])] []),
       expr (call (attr (name v_plt) ''yticks'') [lit (VTuple [])] []),
       expr (call (attr (name v_plt) ''ylabel'') [lit (VStr ''$x_1$'')] []),
       expr (call (attr (name v_plt) ''xlabel'') [lit (VStr ''$x_0$'')] [])
     ],
     expr (call (attr (name v_plt) ''show'') [] [])
   ]"

definition cells :: "stmt list" where
  "cells = [cell2, cell4, cell5, cell6, cell7, cell10, cell12, cell14, cell16, cell18,
           cell20, cell22, cell24, cell26, cell29, cell31, cell33, cell35, cell37, cell39,
           cell41, cell44, cell46, cell47, cell49]"

definition notebook :: stmt where
  "notebook = seq cells"


section \<open>What the cells do when nothing stops the run\<close>

text \<open>
  The colours the clustering cells index: the 28 characters, stacked 20 times.
\<close>

definition palette :: "val list" where
  "palette = concat (replicate 20 (map (\<lambda>c. VStr [c]) ''bgrcmykbgrcmykbgrcmykbgrcmyk''))"

definition dict_values :: "(val \<times> val) list \<Rightarrow> val list \<Rightarrow> val list" where
  "dict_values kvs is = map (\<lambda>i. fst (dict_get i (map_of kvs i))) is"

definition key_errors :: "(val \<times> val) list \<Rightarrow> val list \<Rightarrow> exn list" where
  "key_errors kvs is = concat (map (\<lambda>i. snd (dict_get i (map_of kvs i))) is)"

text \<open>
  For every cell: the operations it performs, in order (\<open>seg\<close>), the exceptions they can
  raise, in order (\<open>excs\<close>), and the state it leaves (\<open>after\<close>). The lemmas \<open>after2\<close> to
  \<open>after49\<close> below derive the first two from the cells.
\<close>

definition seg2 :: "lib \<Rightarrow> event list" where
  "seg2 L = [
     Magic 0 2 ''matplotlib inline'',
     Imported 1 2 ''time'' [],
     Imported 2 2 ''numpy'' [],
     Imported 3 2 ''matplotlib.pyplot'' [],
     Imported 4 2 ''sklearn.metrics'' [''mean_squared_error''],
     Imported 5 2 ''sklearn.metrics'' [''r2_score''],
     Imported 6 2 ''sklearn.metrics'' [''classification_report''],
     Imported 7 2 ''sklearn'' [''cross_validation''],
     Imported 8 2 ''sklearn.datasets'' [''load_boston''],
     Imported 9 2 ''sklearn.datasets'' [''load_iris''],
     Imported 10 2 ''sklearn.datasets'' [''load_diabetes''],
     Imported 11 2 ''sklearn.datasets'' [''load_digits''],
     Imported 12 2 ''sklearn.datasets'' [''load_linnerud''],
     Called 13 2 (VSym ''sklearn.datasets'' ''load_boston'') [] [] NoFigure,
     Printed 14 2 [VFmt ''Boston: %i samples %i features'' (VAttr (VAttr (VRef 13) ''data'') ''shape'')],
     Called 15 2 (VSym ''sklearn.datasets'' ''load_iris'') [] [] NoFigure,
     Printed 16 2 [VFmt ''Iris: %i samples %i features'' (VAttr (VAttr (VRef 15) ''data'') ''shape'')],
     Called 17 2 (VSym ''sklearn.datasets'' ''load_diabetes'') [] [] NoFigure,
     Printed 18 2 [VFmt ''Diabetes: %i samples %i features'' (VAttr (VAttr (VRef 17) ''data'') ''shape'')],
     Called 19 2 (VSym ''sklearn.datasets'' ''load_digits'') [] [] NoFigure,
     Printed 20 2 [VFmt ''Digits: %i samples %i features'' (VAttr (VAttr (VRef 19) ''data'') ''shape'')],
     Called 21 2 (VSym ''sklearn.datasets'' ''load_linnerud'') [] [] NoFigure,
     Printed 22 2 [VFmt ''Linnerud: %i samples %i features'' (VAttr (VAttr (VRef 21) ''data'') ''shape'')]
   ]"

definition excs2 :: "lib \<Rightarrow> exn list" where
  "excs2 L =
     lib_exn L 0 @ lib_exn L 1 @ lib_exn L 2 @ lib_exn L 3 @ lib_exn L 4 @ lib_exn L 5 @
     lib_exn L 6 @ lib_exn L 7 @ lib_exn L 8 @ lib_exn L 9 @ lib_exn L 10 @ lib_exn L 11 @
     lib_exn L 12 @ lib_exn L 13 @ lib_exn L 15 @ lib_exn L 17 @ lib_exn L 19 @ lib_exn L 21"

definition seg4 :: "lib \<Rightarrow> event list" where
  "seg4 L = [
     Imported 23 4 ''pandas'' [],
     Imported 24 4 ''pandas.tools.plotting'' [''scatter_matrix'', ''radviz''],
     Called 25 4 (VAttr (VMod ''pandas'') ''DataFrame'') [VAttr (VRef 15) ''data''] [] NoFigure,
     Called 26 4 (VAttr (VRef 25) ''__setattr__'') [VStr ''columns'', VAttr (VRef 15) ''feature_names''] [] NoFigure,
     Called 27 4 (VSym ''pandas.tools.plotting'' ''scatter_matrix'') [VRef 25] [(''alpha'', VNum (4 / 10)), (''figsize'', VTuple [VInt 16, VInt 10]), (''diagonal'', VStr ''kde''), (''color'', VList (dict_values [(VInt 0, VStr ''r''), (VInt 1, VStr ''b''), (VInt 2, VStr ''g'')] (elems_of L (VAttr (VRef 15) ''target''))))] NoFigure
   ]"

definition excs4 :: "lib \<Rightarrow> exn list" where
  "excs4 L =
     lib_exn L 23 @ lib_exn L 24 @ lib_exn L 25 @ lib_exn L 26 @
     key_errors [(VInt 0, VStr ''r''), (VInt 1, VStr ''b''), (VInt 2, VStr ''g'')] (elems_of L (VAttr (VRef 15) ''target'')) @
     lib_exn L 27"

definition seg5 :: "lib \<Rightarrow> event list" where
  "seg5 L = [
     Called 28 5 (VAttr (VMod ''matplotlib.pyplot'') ''figure'') [] [(''figsize'', VTuple [VInt 12, VInt 12])] NoFigure,
     Called 29 5 (VAttr (VRef 25) ''__setitem__'') [VStr ''species'', VList (map (VItem (VAttr (VRef 15) ''target_names'')) (elems_of L (VAttr (VRef 15) ''target'')))] [] (NoAxes 1),
     Called 30 5 (VSym ''pandas.tools.plotting'' ''radviz'') [VRef 25, VStr ''species''] [(''color'', VList [VStr ''r'', VStr ''g'', VStr ''b''])] (NoAxes 1)
   ]"

definition excs5 :: "lib \<Rightarrow> exn list" where
  "excs5 L =
     lib_exn L 28 @ lib_exn L 29 @ lib_exn L 30"

definition seg6 :: "lib \<Rightarrow> event list" where
  "seg6 L = [
     Called 31 6 (VAttr (VMod ''pandas'') ''DataFrame'') [VAttr (VRef 17) ''data''] [] NoFigure,
     Called 32 6 (VSym ''pandas.tools.plotting'' ''scatter_matrix'') [VRef 31] [(''alpha'', VNum (2 / 10)), (''figsize'', VTuple [VInt 16, VInt 10]), (''diagonal'', VStr ''kde'')] NoFigure
   ]"

definition excs6 :: "lib \<Rightarrow> exn list" where
  "excs6 L =
     lib_exn L 31 @ lib_exn L 32"

definition seg7 :: "lib \<Rightarrow> event list" where
  "seg7 L = [
     Imported 33 7 ''random'' [],
     Called 34 7 (VAttr (VMod ''matplotlib.pyplot'') ''figure'') [VInt 1] [(''figsize'', VTuple [VInt 3, VInt 3])] NoFigure,
     Called 35 7 (VAttr (VMod ''matplotlib.pyplot'') ''imshow'') [VItem (VAttr (VRef 19) ''images'') (VInt (- 1))] [(''cmap'', VAttr (VAttr (VMod ''matplotlib.pyplot'') ''cm'') ''gray_r''), (''interpolation'', VStr ''nearest'')] (NoAxes 2),
     Called 36 7 (VAttr (VMod ''matplotlib.pyplot'') ''show'') [] [] (WholeFigure 2)
   ]"

definition excs7 :: "lib \<Rightarrow> exn list" where
  "excs7 L =
     lib_exn L 33 @ lib_exn L 34 @ lib_exn L 35 @ lib_exn L 36"

definition seg10 :: "lib \<Rightarrow> event list" where
  "seg10 L = [
     Imported 37 10 ''sklearn.linear_model'' [''LinearRegression''],
     Called 38 10 (VSym ''sklearn.linear_model'' ''LinearRegression'') [] [] NoFigure,
     Called 39 10 (VAttr (VRef 38) ''fit'') [VAttr (VRef 17) ''data'', VAttr (VRef 17) ''target''] [] NoFigure,
     Called 40 10 (VAttr (VRef 38) ''predict'') [VAttr (VRef 17) ''data''] [] NoFigure,
     Called 41 10 (VSym ''sklearn.metrics'' ''mean_squared_error'') [VAttr (VRef 17) ''target'', VRef 40] [] NoFigure,
     Printed 42 10 [VFmt ''Mean Squared Error: %0.3f'' (VRef 41)],
     Called 43 10 (VSym ''sklearn.metrics'' ''r2_score'') [VAttr (VRef 17) ''target'', VRef 40] [] NoFigure,
     Printed 44 10 [VFmt ''Coefficient of Determination: %0.3f'' (VRef 43)]
   ]"

definition excs10 :: "lib \<Rightarrow> exn list" where
  "excs10 L =
     lib_exn L 37 @ lib_exn L 38 @ lib_exn L 39 @ lib_exn L 40 @ lib_exn L 41 @ lib_exn L 43"

definition seg12 :: "lib \<Rightarrow> event list" where
  "seg12 L = [
     Imported 45 12 ''sklearn.linear_model'' [''Perceptron''],
     Called 46 12 (VSym ''sklearn.linear_model'' ''Perceptron'') [] [] NoFigure,
     Called 47 12 (VAttr (VRef 46) ''fit'') [VAttr (VRef 17) ''data'', VAttr (VRef 17) ''target''] [] NoFigure,
     Called 48 12 (VAttr (VRef 46) ''predict'') [VAttr (VRef 17) ''data''] [] NoFigure,
     Called 49 12 (VSym ''sklearn.metrics'' ''mean_squared_error'') [VAttr (VRef 17) ''target'', VRef 48] [] NoFigure,
     Printed 50 12 [VFmt ''Mean Squared Error: %0.3f'' (VRef 49)],
     Called 51 12 (VSym ''sklearn.metrics'' ''r2_score'') [VAttr (VRef 17) ''target'', VRef 48] [] NoFigure,
     Printed 52 12 [VFmt ''Coefficient of Determination: %0.3f'' (VRef 51)]
   ]"

definition excs12 :: "lib \<Rightarrow> exn list" where
  "excs12 L =
     lib_exn L 45 @ lib_exn L 46 @ lib_exn L 47 @ lib_exn L 48 @ lib_exn L 49 @ lib_exn L 51"

definition seg14 :: "lib \<Rightarrow> event list" where
  "seg14 L = [
     Imported 53 14 ''sklearn.neighbors'' [''KNeighborsRegressor''],
     Called 54 14 (VSym ''sklearn.neighbors'' ''KNeighborsRegressor'') [] [] NoFigure,
     Called 55 14 (VAttr (VRef 54) ''fit'') [VAttr (VRef 17) ''data'', VAttr (VRef 17) ''target''] [] NoFigure,
     Called 56 14 (VAttr (VRef 54) ''predict'') [VAttr (VRef 17) ''data''] [] NoFigure,
     Called 57 14 (VSym ''sklearn.metrics'' ''mean_squared_error'') [VAttr (VRef 17) ''target'', VRef 56] [] NoFigure,
     Printed 58 14 [VFmt ''Mean Squared Error: %0.3f'' (VRef 57)],
     Called 59 14 (VSym ''sklearn.metrics'' ''r2_score'') [VAttr (VRef 17) ''target'', VRef 56] [] NoFigure,
     Printed 60 14 [VFmt ''Coefficient of Determination: %0.3f'' (VRef 59)]
   ]"

definition excs14 :: "lib \<Rightarrow> exn list" where
  "excs14 L =
     lib_exn L 53 @ lib_exn L 54 @ lib_exn L 55 @ lib_exn L 56 @ lib_exn L 57 @ lib_exn L 59"

definition seg16 :: "lib \<Rightarrow> event list" where
  "seg16 L = [
     Imported 61 16 ''sklearn.tree'' [''DecisionTreeRegressor''],
     Called 62 16 (VSym ''sklearn.tree'' ''DecisionTreeRegressor'') [] [] NoFigure,
     Called 63 16 (VAttr (VRef 62) ''fit'') [VAttr (VRef 17) ''data'', VAttr (VRef 17) ''target''] [] NoFigure,
     Called 64 16 (VAttr (VRef 62) ''predict'') [VAttr (VRef 17) ''data''] [] NoFigure,
     Called 65 16 (VSym ''sklearn.metrics'' ''mean_squared_error'') [VAttr (VRef 17) ''target'', VRef 64] [] NoFigure,
     Printed 66 16 [VFmt ''Mean Squared Error: %0.3f'' (VRef 65)],
     Called 67 16 (VSym ''sklearn.metrics'' ''r2_score'') [VAttr (VRef 17) ''target'', VRef 64] [] NoFigure,
     Printed 68 16 [VFmt ''Coefficient of Determination: %0.3f'' (VRef 67)]
   ]"

definition excs16 :: "lib \<Rightarrow> exn list" where
  "excs16 L =
     lib_exn L 61 @ lib_exn L 62 @ lib_exn L 63 @ lib_exn L 64 @ lib_exn L 65 @ lib_exn L 67"

definition seg18 :: "lib \<Rightarrow> event list" where
  "seg18 L = [
     Imported 69 18 ''sklearn.ensemble'' [''RandomForestRegressor''],
     Called 70 18 (VSym ''sklearn.ensemble'' ''RandomForestRegressor'') [] [] NoFigure,
     Called 71 18 (VAttr (VRef 70) ''fit'') [VAttr (VRef 17) ''data'', VAttr (VRef 17) ''target''] [] NoFigure,
     Called 72 18 (VAttr (VRef 70) ''predict'') [VAttr (VRef 17) ''data''] [] NoFigure,
     Called 73 18 (VSym ''sklearn.metrics'' ''mean_squared_error'') [VAttr (VRef 17) ''target'', VRef 72] [] NoFigure,
     Printed 74 18 [VFmt ''Mean Squared Error: %0.3f'' (VRef 73)],
     Called 75 18 (VSym ''sklearn.metrics'' ''r2_score'') [VAttr (VRef 17) ''target'', VRef 72] [] NoFigure,
     Printed 76 18 [VFmt ''Coefficient of Determination: %0.3f'' (VRef 75)]
   ]"

definition excs18 :: "lib \<Rightarrow> exn list" where
  "excs18 L =
     lib_exn L 69 @ lib_exn L 70 @ lib_exn L 71 @ lib_exn L 72 @ lib_exn L 73 @ lib_exn L 75"

definition seg20 :: "lib \<Rightarrow> event list" where
  "seg20 L = [
     Imported 77 20 ''sklearn.ensemble'' [''AdaBoostRegressor''],
     Called 78 20 (VSym ''sklearn.ensemble'' ''AdaBoostRegressor'') [] [] NoFigure,
     Called 79 20 (VAttr (VRef 78) ''fit'') [VAttr (VRef 17) ''data'', VAttr (VRef 17) ''target''] [] NoFigure,
     Called 80 20 (VAttr (VRef 78) ''predict'') [VAttr (VRef 17) ''data''] [] NoFigure,
     Called 81 20 (VSym ''sklearn.metrics'' ''mean_squared_error'') [VAttr (VRef 17) ''target'', VRef 80] [] NoFigure,
     Printed 82 20 [VFmt ''Mean Squared Error: %0.3f'' (VRef 81)],
     Called 83 20 (VSym ''sklearn.metrics'' ''r2_score'') [VAttr (VRef 17) ''target'', VRef 80] [] NoFigure,
     Printed 84 20 [VFmt ''Coefficient of Determination: %0.3f'' (VRef 83)]
   ]"

definition excs20 :: "lib \<Rightarrow> exn list" where
  "excs20 L =
     lib_exn L 77 @ lib_exn L 78 @ lib_exn L 79 @ lib_exn L 80 @ lib_exn L 81 @ lib_exn L 83"

definition seg22 :: "lib \<Rightarrow> event list" where
  "seg22 L = [
     Imported 85 22 ''sklearn.svm'' [''SVR''],
     Called 86 22 (VSym ''sklearn.svm'' ''SVR'') [] [] NoFigure,
     Called 87 22 (VAttr (VRef 86) ''fit'') [VAttr (VRef 17) ''data'', VAttr (VRef 17) ''target''] [] NoFigure,
     Called 88 22 (VAttr (VRef 86) ''predict'') [VAttr (VRef 17) ''data''] [] NoFigure,
     Called 89 22 (VSym ''sklearn.metrics'' ''mean_squared_error'') [VAttr (VRef 17) ''target'', VRef 88] [] NoFigure,
     Printed 90 22 [VFmt ''Mean Squared Error: %0.3f'' (VRef 89)],
     Called 91 22 (VSym ''sklearn.metrics'' ''r2_score'') [VAttr (VRef 17) ''target'', VRef 88] [] NoFigure,
     Printed 92 22 [VFmt ''Coefficient of Determination: %0.3f'' (VRef 91)]
   ]"

definition excs22 :: "lib \<Rightarrow> exn list" where
  "excs22 L =
     lib_exn L 85 @ lib_exn L 86 @ lib_exn L 87 @ lib_exn L 88 @ lib_exn L 89 @ lib_exn L 91"

definition seg24 :: "lib \<Rightarrow> event list" where
  "seg24 L = [
     Imported 93 24 ''sklearn.linear_model'' [''Ridge''],
     Called 94 24 (VSym ''sklearn.linear_model'' ''Ridge'') [] [(''alpha'', VNum (1 / 10))] NoFigure,
     Called 95 24 (VAttr (VRef 94) ''fit'') [VAttr (VRef 17) ''data'', VAttr (VRef 17) ''target''] [] NoFigure,
     Called 96 24 (VAttr (VRef 94) ''predict'') [VAttr (VRef 17) ''data''] [] NoFigure,
     Called 97 24 (VSym ''sklearn.metrics'' ''mean_squared_error'') [VAttr (VRef 17) ''target'', VRef 96] [] NoFigure,
     Printed 98 24 [VFmt ''Mean Squared Error: %0.3f'' (VRef 97)],
     Called 99 24 (VSym ''sklearn.metrics'' ''r2_score'') [VAttr (VRef 17) ''target'', VRef 96] [] NoFigure,
     Printed 100 24 [VFmt ''Coefficient of Determination: %0.3f'' (VRef 99)]
   ]"

definition excs24 :: "lib \<Rightarrow> exn list" where
  "excs24 L =
     lib_exn L 93 @ lib_exn L 94 @ lib_exn L 95 @ lib_exn L 96 @ lib_exn L 97 @ lib_exn L 99"

definition seg26 :: "lib \<Rightarrow> event list" where
  "seg26 L = [
     Imported 101 26 ''sklearn.linear_model'' [''Lasso''],
     Called 102 26 (VSym ''sklearn.linear_model'' ''Lasso'') [] [(''alpha'', VNum (1 / 10))] NoFigure,
     Called 103 26 (VAttr (VRef 102) ''fit'') [VAttr (VRef 17) ''data'', VAttr (VRef 17) ''target''] [] NoFigure,
     Called 104 26 (VAttr (VRef 102) ''predict'') [VAttr (VRef 17) ''data''] [] NoFigure,
     Called 105 26 (VSym ''sklearn.metrics'' ''mean_squared_error'') [VAttr (VRef 17) ''target'', VRef 104] [] NoFigure,
     Printed 106 26 [VFmt ''Mean Squared Error: %0.3f'' (VRef 105)],
     Called 107 26 (VSym ''sklearn.metrics'' ''r2_score'') [VAttr (VRef 17) ''target'', VRef 104] [] NoFigure,
     Printed 108 26 [VFmt ''Coefficient of Determination: %0.3f'' (VRef 107)]
   ]"

definition excs26 :: "lib \<Rightarrow> exn list" where
  "excs26 L =
     lib_exn L 101 @ lib_exn L 102 @ lib_exn L 103 @ lib_exn L 104 @ lib_exn L 105 @ lib_exn L 107"

definition seg29 :: "lib \<Rightarrow> event list" where
  "seg29 L = [
     Imported 109 29 ''sklearn.linear_model'' [''LogisticRegression''],
     Called 110 29 (VAttr (VSym ''sklearn'' ''cross_validation'') ''train_test_split'') [VAttr (VRef 15) ''data'', VAttr (VRef 15) ''target''] [(''test_size'', VNum (2 / 10))] NoFigure,
     Called 111 29 (VSym ''sklearn.linear_model'' ''LogisticRegression'') [] [] NoFigure,
     Called 112 29 (VAttr (VRef 111) ''fit'') [VItem (VRef 110) (VInt 0), VItem (VRef 110) (VInt 2)] [] NoFigure,
     Called 113 29 (VAttr (VRef 111) ''predict'') [VItem (VRef 110) (VInt 1)] [] NoFigure,
     Called 114 29 (VSym ''sklearn.metrics'' ''classification_report'') [VItem (VRef 110) (VInt 3), VRef 113] [] NoFigure,
     Printed 115 29 [VRef 114]
   ]"

definition excs29 :: "lib \<Rightarrow> exn list" where
  "excs29 L =
     lib_exn L 109 @ lib_exn L 110 @ lib_exn L 111 @ lib_exn L 112 @ lib_exn L 113 @ lib_exn L 114"

definition seg31 :: "lib \<Rightarrow> event list" where
  "seg31 L = [
     Imported 116 31 ''sklearn.lda'' [''LDA''],
     Called 117 31 (VAttr (VSym ''sklearn'' ''cross_validation'') ''train_test_split'') [VAttr (VRef 19) ''data'', VAttr (VRef 19) ''target''] [(''test_size'', VNum (2 / 10))] NoFigure,
     Called 118 31 (VSym ''sklearn.lda'' ''LDA'') [] [] NoFigure,
     Called 119 31 (VAttr (VRef 118) ''fit'') [VItem (VRef 117) (VInt 0), VItem (VRef 117) (VInt 2)] [] NoFigure,
     Called 120 31 (VAttr (VRef 118) ''predict'') [VItem (VRef 117) (VInt 1)] [] NoFigure,
     Called 121 31 (VSym ''sklearn.metrics'' ''classification_report'') [VItem (VRef 117) (VInt 3), VRef 120] [] NoFigure,
     Printed 122 31 [VRef 121]
   ]"

definition excs31 :: "lib \<Rightarrow> exn list" where
  "excs31 L =
     lib_exn L 116 @ lib_exn L 117 @ lib_exn L 118 @ lib_exn L 119 @ lib_exn L 120 @ lib_exn L 121"

definition seg33 :: "lib \<Rightarrow> event list" where
  "seg33 L = [
     Imported 123 33 ''sklearn.naive_bayes'' [''GaussianNB''],
     Called 124 33 (VAttr (VSym ''sklearn'' ''cross_validation'') ''train_test_split'') [VAttr (VRef 15) ''data'', VAttr (VRef 15) ''target''] [(''test_size'', VNum (2 / 10))] NoFigure,
     Called 125 33 (VSym ''sklearn.naive_bayes'' ''GaussianNB'') [] [] NoFigure,
     Called 126 33 (VAttr (VRef 125) ''fit'') [VItem (VRef 124) (VInt 0), VItem (VRef 124) (VInt 2)] [] NoFigure,
     Called 127 33 (VAttr (VRef 125) ''predict'') [VItem (VRef 124) (VInt 1)] [] NoFigure,
     Called 128 33 (VSym ''sklearn.metrics'' ''classification_report'') [VItem (VRef 124) (VInt 3), VRef 127] [] NoFigure,
     Printed 129 33 [VRef 128]
   ]"

definition excs33 :: "lib \<Rightarrow> exn list" where
  "excs33 L =
     lib_exn L 123 @ lib_exn L 124 @ lib_exn L 125 @ lib_exn L 126 @ lib_exn L 127 @ lib_exn L 128"

definition seg35 :: "lib \<Rightarrow> event list" where
  "seg35 L = [
     Imported 130 35 ''sklearn.neighbors'' [''KNeighborsClassifier''],
     Called 131 35 (VAttr (VSym ''sklearn'' ''cross_validation'') ''train_test_split'') [VAttr (VRef 19) ''data'', VAttr (VRef 19) ''target''] [(''test_size'', VNum (2 / 10))] NoFigure,
     Called 132 35 (VSym ''sklearn.neighbors'' ''KNeighborsClassifier'') [VInt 20] [] NoFigure,
     Called 133 35 (VAttr (VRef 132) ''fit'') [VItem (VRef 131) (VInt 0), VItem (VRef 131) (VInt 2)] [] NoFigure,
     Called 134 35 (VAttr (VRef 132) ''predict'') [VItem (VRef 131) (VInt 1)] [] NoFigure,
     Called 135 35 (VSym ''sklearn.metrics'' ''classification_report'') [VItem (VRef 131) (VInt 3), VRef 134] [] NoFigure,
     Printed 136 35 [VRef 135]
   ]"

definition excs35 :: "lib \<Rightarrow> exn list" where
  "excs35 L =
     lib_exn L 130 @ lib_exn L 131 @ lib_exn L 132 @ lib_exn L 133 @ lib_exn L 134 @ lib_exn L 135"

definition seg37 :: "lib \<Rightarrow> event list" where
  "seg37 L = [
     Imported 137 37 ''sklearn.tree'' [''DecisionTreeClassifier''],
     Called 138 37 (VAttr (VSym ''sklearn'' ''cross_validation'') ''train_test_split'') [VAttr (VRef 15) ''data'', VAttr (VRef 15) ''target''] [(''test_size'', VNum (2 / 10))] NoFigure,
     Called 139 37 (VSym ''sklearn.tree'' ''DecisionTreeClassifier'') [] [] NoFigure,
     Called 140 37 (VAttr (VRef 139) ''fit'') [VItem (VRef 138) (VInt 0), VItem (VRef 138) (VInt 2)] [] NoFigure,
     Called 141 37 (VAttr (VRef 139) ''predict'') [VItem (VRef 138) (VInt 1)] [] NoFigure,
     Called 142 37 (VSym ''sklearn.metrics'' ''classification_report'') [VItem (VRef 138) (VInt 3), VRef 141] [] NoFigure,
     Printed 143 37 [VRef 142]
   ]"

definition excs37 :: "lib \<Rightarrow> exn list" where
  "excs37 L =
     lib_exn L 137 @ lib_exn L 138 @ lib_exn L 139 @ lib_exn L 140 @ lib_exn L 141 @ lib_exn L 142"

definition seg39 :: "lib \<Rightarrow> event list" where
  "seg39 L = [
     Imported 144 39 ''sklearn.svm'' [''SVC''],
     Called 145 39 (VAttr (VSym ''sklearn'' ''cross_validation'') ''train_test_split'') [VAttr (VRef 19) ''data'', VAttr (VRef 19) ''target''] [(''test_size'', VNum (2 / 10))] NoFigure,
     Called 146 39 (VSym ''sklearn.svm'' ''SVC'') [] [(''kernel'', VStr ''linear'')] NoFigure,
     Called 147 39 (VAttr (VRef 146) ''fit'') [VItem (VRef 145) (VInt 0), VItem (VRef 145) (VInt 2)] [] NoFigure,
     Called 148 39 (VAttr (VRef 146) ''predict'') [VItem (VRef 145) (VInt 1)] [] NoFigure,
     Called 149 39 (VSym ''sklearn.metrics'' ''classification_report'') [VItem (VRef 145) (VInt 3), VRef 148] [] NoFigure,
     Printed 150 39 [VRef 149],
     Called 151 39 (VSym ''sklearn.svm'' ''SVC'') [] [(''kernel'', VStr ''poly''), (''degree'', VInt 3)] NoFigure,
     Called 152 39 (VAttr (VRef 151) ''fit'') [VItem (VRef 145) (VInt 0), VItem (VRef 145) (VInt 2)] [] NoFigure,
     Called 153 39 (VAttr (VRef 151) ''predict'') [VItem (VRef 145) (VInt 1)] [] NoFigure,
     Called 154 39 (VSym ''sklearn.metrics'' ''classification_report'') [VItem (VRef 145) (VInt 3), VRef 153] [] NoFigure,
     Printed 155 39 [VRef 154],
     Called 156 39 (VSym ''sklearn.svm'' ''SVC'') [] [(''kernel'', VStr ''rbf'')] NoFigure,
     Called 157 39 (VAttr (VRef 156) ''fit'') [VItem (VRef 145) (VInt 0), VItem (VRef 145) (VInt 2)] [] NoFigure,
     Called 158 39 (VAttr (VRef 156) ''predict'') [VItem (VRef 145) (VInt 1)] [] NoFigure,
     Called 159 39 (VSym ''sklearn.metrics'' ''classification_report'') [VItem (VRef 145) (VInt 3), VRef 158] [] NoFigure,
     Printed 160 39 [VRef 159]
   ]"

definition excs39 :: "lib \<Rightarrow> exn list" where
  "excs39 L =
     lib_exn L 144 @ lib_exn L 145 @ lib_exn L 146 @ lib_exn L 147 @ lib_exn L 148 @
     lib_exn L 149 @ lib_exn L 151 @ lib_exn L 152 @ lib_exn L 153 @ lib_exn L 154 @
     lib_exn L 156 @ lib_exn L 157 @ lib_exn L 158 @ lib_exn L 159"

definition seg41 :: "lib \<Rightarrow> event list" where
  "seg41 L = [
     Imported 161 41 ''sklearn.ensemble'' [''RandomForestClassifier''],
     Called 162 41 (VAttr (VSym ''sklearn'' ''cross_validation'') ''train_test_split'') [VAttr (VRef 19) ''data'', VAttr (VRef 19) ''target''] [(''test_size'', VNum (2 / 10))] NoFigure,
     Called 163 41 (VSym ''sklearn.ensemble'' ''RandomForestClassifier'') [] [] NoFigure,
     Called 164 41 (VAttr (VRef 163) ''fit'') [VItem (VRef 162) (VInt 0), VItem (VRef 162) (VInt 2)] [] NoFigure,
     Called 165 41 (VAttr (VRef 163) ''predict'') [VItem (VRef 162) (VInt 1)] [] NoFigure,
     Called 166 41 (VSym ''sklearn.metrics'' ''classification_report'') [VItem (VRef 162) (VInt 3), VRef 165] [] NoFigure,
     Printed 167 41 [VRef 166]
   ]"

definition excs41 :: "lib \<Rightarrow> exn list" where
  "excs41 L =
     lib_exn L 161 @ lib_exn L 162 @ lib_exn L 163 @ lib_exn L 164 @ lib_exn L 165 @ lib_exn L 166"

definition seg44 :: "lib \<Rightarrow> event list" where
  "seg44 L = [
     Imported 168 44 ''sklearn.datasets'' [''make_circles''],
     Imported 169 44 ''sklearn.datasets'' [''make_moons''],
     Imported 170 44 ''sklearn.datasets'' [''make_blobs''],
     Imported 171 44 ''sklearn.preprocessing'' [''StandardScaler''],
     Called 172 44 (VAttr (VMod ''numpy'') ''array'') [VList (map (\<lambda>c. VStr [c]) ''bgrcmykbgrcmykbgrcmykbgrcmyk'')] [] NoFigure,
     Called 173 44 (VAttr (VMod ''numpy'') ''hstack'') [VList (concat (replicate 20 [VArr 172 ((map (\<lambda>c. VStr [c]) ''bgrcmykbgrcmykbgrcmykbgrcmyk''))]))] [] NoFigure,
     Called 174 44 (VSym ''sklearn.datasets'' ''make_circles'') [] [(''n_samples'', VInt 1000), (''factor'', VNum (5 / 10)), (''noise'', VNum (5 / 100))] NoFigure,
     Called 175 44 (VSym ''sklearn.datasets'' ''make_moons'') [] [(''n_samples'', VInt 1000), (''noise'', VNum (8 / 100))] NoFigure,
     Called 176 44 (VSym ''sklearn.datasets'' ''make_blobs'') [] [(''n_samples'', VInt 1000), (''random_state'', VInt 9)] NoFigure,
     Called 177 44 (VAttr (VAttr (VMod ''numpy'') ''random'') ''rand'') [VInt 1000, VInt 2] [] NoFigure,
     Called 178 44 (VAttr (VMod ''matplotlib.pyplot'') ''subplots'') [] [(''figsize'', VTuple [VInt 18, VInt 4])] NoFigure,
     Called 179 44 (VSym ''sklearn.preprocessing'' ''StandardScaler'') [] [] (WholeFigure 3),
     Called 180 44 (VAttr (VRef 179) ''fit_transform'') [VItem (VRef 174) (VInt 0)] [] (WholeFigure 3),
     Called 181 44 (VAttr (VMod ''matplotlib.pyplot'') ''subplot'') [VInt 1, VInt 4, VInt 1] [] (WholeFigure 3),
     Called 182 44 (VAttr (VMod ''matplotlib.pyplot'') ''scatter'') [VItem (VRef 180) (VTuple [VSlice VNone VNone, VInt 0]), VItem (VRef 180) (VTuple [VSlice VNone VNone, VInt 1])] [(''marker'', VStr ''.'')] (GridCell 3 1 4 1),
     Called 183 44 (VAttr (VMod ''matplotlib.pyplot'') ''xticks'') [VTuple []] [] (GridCell 3 1 4 1),
     Called 184 44 (VAttr (VMod ''matplotlib.pyplot'') ''yticks'') [VTuple []] [] (GridCell 3 1 4 1),
     Called 185 44 (VAttr (VMod ''matplotlib.pyplot'') ''ylabel'') [VStr ''$x_1$''] [] (GridCell 3 1 4 1),
     Called 186 44 (VAttr (VMod ''matplotlib.pyplot'') ''xlabel'') [VStr ''$x_0$''] [] (GridCell 3 1 4 1),
     Called 187 44 (VSym ''sklearn.preprocessing'' ''StandardScaler'') [] [] (GridCell 3 1 4 1),
     Called 188 44 (VAttr (VRef 187) ''fit_transform'') [VItem (VRef 175) (VInt 0)] [] (GridCell 3 1 4 1),
     Called 189 44 (VAttr (VMod ''matplotlib.pyplot'') ''subplot'') [VInt 1, VInt 4, VInt 2] [] (GridCell 3 1 4 1),
     Called 190 44 (VAttr (VMod ''matplotlib.pyplot'') ''scatter'') [VItem (VRef 188) (VTuple [VSlice VNone VNone, VInt 0]), VItem (VRef 188) (VTuple [VSlice VNone VNone, VInt 1])] [(''marker'', VStr ''.'')] (GridCell 3 1 4 2),
     Called 191 44 (VAttr (VMod ''matplotlib.pyplot'') ''xticks'') [VTuple []] [] (GridCell 3 1 4 2),
     Called 192 44 (VAttr (VMod ''matplotlib.pyplot'') ''yticks'') [VTuple []] [] (GridCell 3 1 4 2),
     Called 193 44 (VAttr (VMod ''matplotlib.pyplot'') ''ylabel'') [VStr ''$x_1$''] [] (GridCell 3 1 4 2),
     Called 194 44 (VAttr (VMod ''matplotlib.pyplot'') ''xlabel'') [VStr ''$x_0$''] [] (GridCell 3 1 4 2),
     Called 195 44 (VSym ''sklearn.preprocessing'' ''StandardScaler'') [] [] (GridCell 3 1 4 2),
     Called 196 44 (VAttr (VRef 195) ''fit_transform'') [VItem (VRef 176) (VInt 0)] [] (GridCell 3 1 4 2),
     Called 197 44 (VAttr (VMod ''matplotlib.pyplot'') ''subplot'') [VInt 1, VInt 4, VInt 3] [] (GridCell 3 1 4 2),
     Called 198 44 (VAttr (VMod ''matplotlib.pyplot'') ''scatter'') [VItem (VRef 196) (VTuple [VSlice VNone VNone, VInt 0]), VItem (VRef 196) (VTuple [VSlice VNone VNone, VInt 1])] [(''marker'', VStr ''.'')] (GridCell 3 1 4 3),
     Called 199 44 (VAttr (VMod ''matplotlib.pyplot'') ''xticks'') [VTuple []] [] (GridCell 3 1 4 3),
     Called 200 44 (VAttr (VMod ''matplotlib.pyplot'') ''yticks'') [VTuple []] [] (GridCell 3 1 4 3),
     Called 201 44 (VAttr (VMod ''matplotlib.pyplot'') ''ylabel'') [VStr ''$x_1$''] [] (GridCell 3 1 4 3),
     Called 202 44 (VAttr (VMod ''matplotlib.pyplot'') ''xlabel'') [VStr ''$x_0$''] [] (GridCell 3 1 4 3),
     Called 203 44 (VSym ''sklearn.preprocessing'' ''StandardScaler'') [] [] (GridCell 3 1 4 3),
     Called 204 44 (VAttr (VRef 203) ''fit_transform'') [VRef 177] [] (GridCell 3 1 4 3),
     Called 205 44 (VAttr (VMod ''matplotlib.pyplot'') ''subplot'') [VInt 1, VInt 4, VInt 4] [] (GridCell 3 1 4 3),
     Called 206 44 (VAttr (VMod ''matplotlib.pyplot'') ''scatter'') [VItem (VRef 204) (VTuple [VSlice VNone VNone, VInt 0]), VItem (VRef 204) (VTuple [VSlice VNone VNone, VInt 1])] [(''marker'', VStr ''.'')] (GridCell 3 1 4 4),
     Called 207 44 (VAttr (VMod ''matplotlib.pyplot'') ''xticks'') [VTuple []] [] (GridCell 3 1 4 4),
     Called 208 44 (VAttr (VMod ''matplotlib.pyplot'') ''yticks'') [VTuple []] [] (GridCell 3 1 4 4),
     Called 209 44 (VAttr (VMod ''matplotlib.pyplot'') ''ylabel'') [VStr ''$x_1$''] [] (GridCell 3 1 4 4),
     Called 210 44 (VAttr (VMod ''matplotlib.pyplot'') ''xlabel'') [VStr ''$x_0$''] [] (GridCell 3 1 4 4),
     Called 211 44 (VAttr (VMod ''matplotlib.pyplot'') ''show'') [] [] (GridCell 3 1 4 4)
   ]"

definition excs44 :: "lib \<Rightarrow> exn list" where
  "excs44 L =
     lib_exn L 168 @ lib_exn L 169 @ lib_exn L 170 @ lib_exn L 171 @ lib_exn L 172 @
     lib_exn L 173 @ lib_exn L 174 @ lib_exn L 175 @ lib_exn L 176 @ lib_exn L 177 @
     lib_exn L 178 @ lib_exn L 179 @ lib_exn L 180 @ lib_exn L 181 @ lib_exn L 182 @
     lib_exn L 183 @ lib_exn L 184 @ lib_exn L 185 @ lib_exn L 186 @ lib_exn L 187 @
     lib_exn L 188 @ lib_exn L 189 @ lib_exn L 190 @ lib_exn L 191 @ lib_exn L 192 @
     lib_exn L 193 @ lib_exn L 194 @ lib_exn L 195 @ lib_exn L 196 @ lib_exn L 197 @
     lib_exn L 198 @ lib_exn L 199 @ lib_exn L 200 @ lib_exn L 201 @ lib_exn L 202 @
     lib_exn L 203 @ lib_exn L 204 @ lib_exn L 205 @ lib_exn L 206 @ lib_exn L 207 @
     lib_exn L 208 @ lib_exn L 209 @ lib_exn L 210 @ lib_exn L 211"

definition seg46 :: "lib \<Rightarrow> event list" where
  "seg46 L = [
     Imported 212 46 ''warnings'' [],
     Called 213 46 (VAttr (VMod ''warnings'') ''filterwarnings'') [VStr ''ignore''] [] NoFigure
   ]"

definition excs46 :: "lib \<Rightarrow> exn list" where
  "excs46 L =
     lib_exn L 212 @ lib_exn L 213"

definition seg47 :: "lib \<Rightarrow> event list" where
  "seg47 L = [
     Imported 214 47 ''sklearn.cluster'' [''MiniBatchKMeans''],
     Called 215 47 (VAttr (VMod ''matplotlib.pyplot'') ''subplots'') [] [(''figsize'', VTuple [VInt 18, VInt 4])] NoFigure,
     Called 216 47 (VSym ''sklearn.preprocessing'' ''StandardScaler'') [] [] (WholeFigure 4),
     Called 217 47 (VAttr (VRef 216) ''fit_transform'') [VItem (VRef 174) (VInt 0)] [] (WholeFigure 4),
     Called 218 47 (VSym ''sklearn.cluster'' ''MiniBatchKMeans'') [] [(''n_clusters'', VInt 5)] (WholeFigure 4),
     Called 219 47 (VAttr (VRef 218) ''fit'') [VRef 217] [] (WholeFigure 4),
     Called 220 47 (VAttr (VRef 218) ''predict'') [VRef 217] [] (WholeFigure 4),
     Called 221 47 (VAttr (VMod ''matplotlib.pyplot'') ''scatter'') [VItem (VAttr (VRef 218) ''cluster_centers_'') (VTuple [VSlice VNone VNone, VInt 0]), VItem (VAttr (VRef 218) ''cluster_centers_'') (VTuple [VSlice VNone VNone, VInt 1])] [(''s'', VInt 100), (''c'', VArr 173 (take (length (elems_of L (VAttr (VRef 218) ''cluster_centers_''))) palette))] (WholeFigure 4),
     Called 222 47 (VAttr (VMod ''matplotlib.pyplot'') ''subplot'') [VInt 1, VInt 4, VInt 1] [] (WholeFigure 4),
     Called 223 47 (VAttr (VArr 173 (map (pick palette) (elems_of L (VRef 220)))) ''tolist'') [] [] (GridCell 4 1 4 1),
     Called 224 47 (VAttr (VMod ''matplotlib.pyplot'') ''scatter'') [VItem (VRef 217) (VTuple [VSlice VNone VNone, VInt 0]), VItem (VRef 217) (VTuple [VSlice VNone VNone, VInt 1])] [(''color'', VList (map (pick palette) (elems_of L (VRef 220)))), (''s'', VInt 10)] (GridCell 4 1 4 1),
     Called 225 47 (VAttr (VMod ''matplotlib.pyplot'') ''xticks'') [VTuple []] [] (GridCell 4 1 4 1),
     Called 226 47 (VAttr (VMod ''matplotlib.pyplot'') ''yticks'') [VTuple []] [] (GridCell 4 1 4 1),
     Called 227 47 (VAttr (VMod ''matplotlib.pyplot'') ''ylabel'') [VStr ''$x_1$''] [] (GridCell 4 1 4 1),
     Called 228 47 (VAttr (VMod ''matplotlib.pyplot'') ''xlabel'') [VStr ''$x_0$''] [] (GridCell 4 1 4 1),
     Called 229 47 (VSym ''sklearn.preprocessing'' ''StandardScaler'') [] [] (GridCell 4 1 4 1),
     Called 230 47 (VAttr (VRef 229) ''fit_transform'') [VItem (VRef 175) (VInt 0)] [] (GridCell 4 1 4 1),
     Called 231 47 (VSym ''sklearn.cluster'' ''MiniBatchKMeans'') [] [(''n_clusters'', VInt 5)] (GridCell 4 1 4 1),
     Called 232 47 (VAttr (VRef 231) ''fit'') [VRef 230] [] (GridCell 4 1 4 1),
     Called 233 47 (VAttr (VRef 231) ''predict'') [VRef 230] [] (GridCell 4 1 4 1),
     Called 234 47 (VAttr (VMod ''matplotlib.pyplot'') ''scatter'') [VItem (VAttr (VRef 231) ''cluster_centers_'') (VTuple [VSlice VNone VNone, VInt 0]), VItem (VAttr (VRef 231) ''cluster_centers_'') (VTuple [VSlice VNone VNone, VInt 1])] [(''s'', VInt 100), (''c'', VArr 173 (take (length (elems_of L (VAttr (VRef 231) ''cluster_centers_''))) palette))] (GridCell 4 1 4 1),
     Called 235 47 (VAttr (VMod ''matplotlib.pyplot'') ''subplot'') [VInt 1, VInt 4, VInt 2] [] (GridCell 4 1 4 1),
     Called 236 47 (VAttr (VArr 173 (map (pick palette) (elems_of L (VRef 233)))) ''tolist'') [] [] (GridCell 4 1 4 2),
     Called 237 47 (VAttr (VMod ''matplotlib.pyplot'') ''scatter'') [VItem (VRef 230) (VTuple [VSlice VNone VNone, VInt 0]), VItem (VRef 230) (VTuple [VSlice VNone VNone, VInt 1])] [(''color'', VList (map (pick palette) (elems_of L (VRef 233)))), (''s'', VInt 10)] (GridCell 4 1 4 2),
     Called 238 47 (VAttr (VMod ''matplotlib.pyplot'') ''xticks'') [VTuple []] [] (GridCell 4 1 4 2),
     Called 239 47 (VAttr (VMod ''matplotlib.pyplot'') ''yticks'') [VTuple []] [] (GridCell 4 1 4 2),
     Called 240 47 (VAttr (VMod ''matplotlib.pyplot'') ''ylabel'') [VStr ''$x_1$''] [] (GridCell 4 1 4 2),
     Called 241 47 (VAttr (VMod ''matplotlib.pyplot'') ''xlabel'') [VStr ''$x_0$''] [] (GridCell 4 1 4 2),
     Called 242 47 (VSym ''sklearn.preprocessing'' ''StandardScaler'') [] [] (GridCell 4 1 4 2),
     Called 243 47 (VAttr (VRef 242) ''fit_transform'') [VItem (VRef 176) (VInt 0)] [] (GridCell 4 1 4 2),
     Called 244 47 (VSym ''sklearn.cluster'' ''MiniBatchKMeans'') [] [(''n_clusters'', VInt 5)] (GridCell 4 1 4 2),
     Called 245 47 (VAttr (VRef 244) ''fit'') [VRef 243] [] (GridCell 4 1 4 2),
     Called 246 47 (VAttr (VRef 244) ''predict'') [VRef 243] [] (GridCell 4 1 4 2),
     Called 247 47 (VAttr (VMod ''matplotlib.pyplot'') ''scatter'') [VItem (VAttr (VRef 244) ''cluster_centers_'') (VTuple [VSlice VNone VNone, VInt 0]), VItem (VAttr (VRef 244) ''cluster_centers_'') (VTuple [VSlice VNone VNone, VInt 1])] [(''s'', VInt 100), (''c'', VArr 173 (take (length (elems_of L (VAttr (VRef 244) ''cluster_centers_''))) palette))] (GridCell 4 1 4 2),
     Called 248 47 (VAttr (VMod ''matplotlib.pyplot'') ''subplot'') [VInt 1, VInt 4, VInt 3] [] (GridCell 4 1 4 2),
     Called 249 47 (VAttr (VArr 173 (map (pick palette) (elems_of L (VRef 246)))) ''tolist'') [] [] (GridCell 4 1 4 3),
     Called 250 47 (VAttr (VMod ''matplotlib.pyplot'') ''scatter'') [VItem (VRef 243) (VTuple [VSlice VNone VNone, VInt 0]), VItem (VRef 243) (VTuple [VSlice VNone VNone, VInt 1])] [(''color'', VList (map (pick palette) (elems_of L (VRef 246)))), (''s'', VInt 10)] (GridCell 4 1 4 3),
     Called 251 47 (VAttr (VMod ''matplotlib.pyplot'') ''xticks'') [VTuple []] [] (GridCell 4 1 4 3),
     Called 252 47 (VAttr (VMod ''matplotlib.pyplot'') ''yticks'') [VTuple []] [] (GridCell 4 1 4 3),
     Called 253 47 (VAttr (VMod ''matplotlib.pyplot'') ''ylabel'') [VStr ''$x_1$''] [] (GridCell 4 1 4 3),
     Called 254 47 (VAttr (VMod ''matplotlib.pyplot'') ''xlabel'') [VStr ''$x_0$''] [] (GridCell 4 1 4 3),
     Called 255 47 (VSym ''sklearn.preprocessing'' ''StandardScaler'') [] [] (GridCell 4 1 4 3),
     Called 256 47 (VAttr (VRef 255) ''fit_transform'') [VRef 177] [] (GridCell 4 1 4 3),
     Called 257 47 (VSym ''sklearn.cluster'' ''MiniBatchKMeans'') [] [(''n_clusters'', VInt 5)] (GridCell 4 1 4 3),
     Called 258 47 (VAttr (VRef 257) ''fit'') [VRef 256] [] (GridCell 4 1 4 3),
     Called 259 47 (VAttr (VRef 257) ''predict'') [VRef 256] [] (GridCell 4 1 4 3),
     Called 260 47 (VAttr (VMod ''matplotlib.pyplot'') ''scatter'') [VItem (VAttr (VRef 257) ''cluster_centers_'') (VTuple [VSlice VNone VNone, VInt 0]), VItem (VAttr (VRef 257) ''cluster_centers_'') (VTuple [VSlice VNone VNone, VInt 1])] [(''s'', VInt 100), (''c'', VArr 173 (take (length (elems_of L (VAttr (VRef 257) ''cluster_centers_''))) palette))] (GridCell 4 1 4 3),
     Called 261 47 (VAttr (VMod ''matplotlib.pyplot'') ''subplot'') [VInt 1, VInt 4, VInt 4] [] (GridCell 4 1 4 3),
     Called 262 47 (VAttr (VArr 173 (map (pick palette) (elems_of L (VRef 259)))) ''tolist'') [] [] (GridCell 4 1 4 4),
     Called 263 47 (VAttr (VMod ''matplotlib.pyplot'') ''scatter'') [VItem (VRef 256) (VTuple [VSlice VNone VNone, VInt 0]), VItem (VRef 256) (VTuple [VSlice VNone VNone, VInt 1])] [(''color'', VList (map (pick palette) (elems_of L (VRef 259)))), (''s'', VInt 10)] (GridCell 4 1 4 4),
     Called 264 47 (VAttr (VMod ''matplotlib.pyplot'') ''xticks'') [VTuple []] [] (GridCell 4 1 4 4),
     Called 265 47 (VAttr (VMod ''matplotlib.pyplot'') ''yticks'') [VTuple []] [] (GridCell 4 1 4 4),
     Called 266 47 (VAttr (VMod ''matplotlib.pyplot'') ''ylabel'') [VStr ''$x_1$''] [] (GridCell 4 1 4 4),
     Called 267 47 (VAttr (VMod ''matplotlib.pyplot'') ''xlabel'') [VStr ''$x_0$''] [] (GridCell 4 1 4 4),
     Called 268 47 (VAttr (VMod ''matplotlib.pyplot'') ''show'') [] [] (GridCell 4 1 4 4)
   ]"

definition excs47 :: "lib \<Rightarrow> exn list" where
  "excs47 L =
     lib_exn L 214 @ lib_exn L 215 @ lib_exn L 216 @ lib_exn L 217 @ lib_exn L 218 @
     lib_exn L 219 @ lib_exn L 220 @ lib_exn L 221 @ lib_exn L 222 @
     index_errors palette (elems_of L (VRef 220)) @ lib_exn L 223 @ lib_exn L 224 @
     lib_exn L 225 @ lib_exn L 226 @ lib_exn L 227 @ lib_exn L 228 @ lib_exn L 229 @
     lib_exn L 230 @ lib_exn L 231 @ lib_exn L 232 @ lib_exn L 233 @ lib_exn L 234 @
     lib_exn L 235 @ index_errors palette (elems_of L (VRef 233)) @ lib_exn L 236 @
     lib_exn L 237 @ lib_exn L 238 @ lib_exn L 239 @ lib_exn L 240 @ lib_exn L 241 @
     lib_exn L 242 @ lib_exn L 243 @ lib_exn L 244 @ lib_exn L 245 @ lib_exn L 246 @
     lib_exn L 247 @ lib_exn L 248 @ index_errors palette (elems_of L (VRef 246)) @
     lib_exn L 249 @ lib_exn L 250 @ lib_exn L 251 @ lib_exn L 252 @ lib_exn L 253 @
     lib_exn L 254 @ lib_exn L 255 @ lib_exn L 256 @ lib_exn L 257 @ lib_exn L 258 @
     lib_exn L 259 @ lib_exn L 260 @ lib_exn L 261 @
     index_errors palette (elems_of L (VRef 259)) @ lib_exn L 262 @ lib_exn L 263 @
     lib_exn L 264 @ lib_exn L 265 @ lib_exn L 266 @ lib_exn L 267 @ lib_exn L 268"

definition seg49 :: "lib \<Rightarrow> event list" where
  "seg49 L = [
     Imported 269 49 ''sklearn.cluster'' [''AffinityPropagation''],
     Called 270 49 (VAttr (VMod ''matplotlib.pyplot'') ''subplots'') [] [(''figsize'', VTuple [VInt 18, VInt 4])] NoFigure,
     Called 271 49 (VSym ''sklearn.preprocessing'' ''StandardScaler'') [] [] (WholeFigure 5),
     Called 272 49 (VAttr (VRef 271) ''fit_transform'') [VItem (VRef 174) (VInt 0)] [] (WholeFigure 5),
     Called 273 49 (VSym ''sklearn.cluster'' ''AffinityPropagation'') [] [(''damping'', VNum (92 / 100)), (''preference'', VInt (- 200))] (WholeFigure 5),
     Called 274 49 (VAttr (VRef 273) ''fit'') [VRef 272] [] (WholeFigure 5),
     Called 275 49 (VAttr (VRef 273) ''predict'') [VRef 272] [] (WholeFigure 5),
     Called 276 49 (VAttr (VMod ''matplotlib.pyplot'') ''scatter'') [VItem (VAttr (VRef 273) ''cluster_centers_'') (VTuple [VSlice VNone VNone, VInt 0]), VItem (VAttr (VRef 273) ''cluster_centers_'') (VTuple [VSlice VNone VNone, VInt 1])] [(''s'', VInt 100), (''c'', VArr 173 (take (length (elems_of L (VAttr (VRef 273) ''cluster_centers_''))) palette))] (WholeFigure 5),
     Called 277 49 (VAttr (VMod ''matplotlib.pyplot'') ''subplot'') [VInt 1, VInt 4, VInt 1] [] (WholeFigure 5),
     Called 278 49 (VAttr (VArr 173 (map (pick palette) (elems_of L (VRef 275)))) ''tolist'') [] [] (GridCell 5 1 4 1),
     Called 279 49 (VAttr (VMod ''matplotlib.pyplot'') ''scatter'') [VItem (VRef 272) (VTuple [VSlice VNone VNone, VInt 0]), VItem (VRef 272) (VTuple [VSlice VNone VNone, VInt 1])] [(''color'', VList (map (pick palette) (elems_of L (VRef 275)))), (''s'', VInt 10)] (GridCell 5 1 4 1),
     Called 280 49 (VAttr (VMod ''matplotlib.pyplot'') ''xticks'') [VTuple []] [] (GridCell 5 1 4 1),
     Called 281 49 (VAttr (VMod ''matplotlib.pyplot'') ''yticks'') [VTuple []] [] (GridCell 5 1 4 1),
     Called 282 49 (VAttr (VMod ''matplotlib.pyplot'') ''ylabel'') [VStr ''$x_1$''] [] (GridCell 5 1 4 1),
     Called 283 49 (VAttr (VMod ''matplotlib.pyplot'') ''xlabel'') [VStr ''$x_0$''] [] (GridCell 5 1 4 1),
     Called 284 49 (VSym ''sklearn.preprocessing'' ''StandardScaler'') [] [] (GridCell 5 1 4 1),
     Called 285 49 (VAttr (VRef 284) ''fit_transform'') [VItem (VRef 175) (VInt 0)] [] (GridCell 5 1 4 1),
     Called 286 49 (VSym ''sklearn.cluster'' ''AffinityPropagation'') [] [(''damping'', VNum (92 / 100)), (''preference'', VInt (- 200))] (GridCell 5 1 4 1),
     Called 287 49 (VAttr (VRef 286) ''fit'') [VRef 285] [] (GridCell 5 1 4 1),
     Called 288 49 (VAttr (VRef 286) ''predict'') [VRef 285] [] (GridCell 5 1 4 1),
     Called 289 49 (VAttr (VMod ''matplotlib.pyplot'') ''scatter'') [VItem (VAttr (VRef 286) ''cluster_centers_'') (VTuple [VSlice VNone VNone, VInt 0]), VItem (VAttr (VRef 286) ''cluster_centers_'') (VTuple [VSlice VNone VNone, VInt 1])] [(''s'', VInt 100), (''c'', VArr 173 (take (length (elems_of L (VAttr (VRef 286) ''cluster_centers_''))) palette))] (GridCell 5 1 4 1),
     Called 290 49 (VAttr (VMod ''matplotlib.pyplot'') ''subplot'') [VInt 1, VInt 4, VInt 2] [] (GridCell 5 1 4 1),
     Called 291 49 (VAttr (VArr 173 (map (pick palette) (elems_of L (VRef 288)))) ''tolist'') [] [] (GridCell 5 1 4 2),
     Called 292 49 (VAttr (VMod ''matplotlib.pyplot'') ''scatter'') [VItem (VRef 285) (VTuple [VSlice VNone VNone, VInt 0]), VItem (VRef 285) (VTuple [VSlice VNone VNone, VInt 1])] [(''color'', VList (map (pick palette) (elems_of L (VRef 288)))), (''s'', VInt 10)] (GridCell 5 1 4 2),
     Called 293 49 (VAttr (VMod ''matplotlib.pyplot'') ''xticks'') [VTuple []] [] (GridCell 5 1 4 2),
     Called 294 49 (VAttr (VMod ''matplotlib.pyplot'') ''yticks'') [VTuple []] [] (GridCell 5 1 4 2),
     Called 295 49 (VAttr (VMod ''matplotlib.pyplot'') ''ylabel'') [VStr ''$x_1$''] [] (GridCell 5 1 4 2),
     Called 296 49 (VAttr (VMod ''matplotlib.pyplot'') ''xlabel'') [VStr ''$x_0$''] [] (GridCell 5 1 4 2),
     Called 297 49 (VSym ''sklearn.preprocessing'' ''StandardScaler'') [] [] (GridCell 5 1 4 2),
     Called 298 49 (VAttr (VRef 297) ''fit_transform'') [VItem (VRef 176) (VInt 0)] [] (GridCell 5 1 4 2),
     Called 299 49 (VSym ''sklearn.cluster'' ''AffinityPropagation'') [] [(''damping'', VNum (92 / 100)), (''preference'', VInt (- 200))] (GridCell 5 1 4 2),
     Called 300 49 (VAttr (VRef 299) ''fit'') [VRef 298] [] (GridCell 5 1 4 2),
     Called 301 49 (VAttr (VRef 299) ''predict'') [VRef 298] [] (GridCell 5 1 4 2),
     Called 302 49 (VAttr (VMod ''matplotlib.pyplot'') ''scatter'') [VItem (VAttr (VRef 299) ''cluster_centers_'') (VTuple [VSlice VNone VNone, VInt 0]), VItem (VAttr (VRef 299) ''cluster_centers_'') (VTuple [VSlice VNone VNone, VInt 1])] [(''s'', VInt 100), (''c'', VArr 173 (take (length (elems_of L (VAttr (VRef 299) ''cluster_centers_''))) palette))] (GridCell 5 1 4 2),
     Called 303 49 (VAttr (VMod ''matplotlib.pyplot'') ''subplot'') [VInt 1, VInt 4, VInt 3] [] (GridCell 5 1 4 2),
     Called 304 49 (VAttr (VArr 173 (map (pick palette) (elems_of L (VRef 301)))) ''tolist'') [] [] (GridCell 5 1 4 3),
     Called 305 49 (VAttr (VMod ''matplotlib.pyplot'') ''scatter'') [VItem (VRef 298) (VTuple [VSlice VNone VNone, VInt 0]), VItem (VRef 298) (VTuple [VSlice VNone VNone, VInt 1])] [(''color'', VList (map (pick palette) (elems_of L (VRef 301)))), (''s'', VInt 10)] (GridCell 5 1 4 3),
     Called 306 49 (VAttr (VMod ''matplotlib.pyplot'') ''xticks'') [VTuple []] [] (GridCell 5 1 4 3),
     Called 307 49 (VAttr (VMod ''matplotlib.pyplot'') ''yticks'') [VTuple []] [] (GridCell 5 1 4 3),
     Called 308 49 (VAttr (VMod ''matplotlib.pyplot'') ''ylabel'') [VStr ''$x_1$''] [] (GridCell 5 1 4 3),
     Called 309 49 (VAttr (VMod ''matplotlib.pyplot'') ''xlabel'') [VStr ''$x_0$''] [] (GridCell 5 1 4 3),
     Called 310 49 (VSym ''sklearn.preprocessing'' ''StandardScaler'') [] [] (GridCell 5 1 4 3),
     Called 311 49 (VAttr (VRef 310) ''fit_transform'') [VRef 177] [] (GridCell 5 1 4 3),
     Called 312 49 (VSym ''sklearn.cluster'' ''AffinityPropagation'') [] [(''damping'', VNum (92 / 100)), (''preference'', VInt (- 200))] (GridCell 5 1 4 3),
     Called 313 49 (VAttr (VRef 312) ''fit'') [VRef 311] [] (GridCell 5 1 4 3),
     Called 314 49 (VAttr (VRef 312) ''predict'') [VRef 311] [] (GridCell 5 1 4 3),
     Called 315 49 (VAttr (VMod ''matplotlib.pyplot'') ''scatter'') [VItem (VAttr (VRef 312) ''cluster_centers_'') (VTuple [VSlice VNone VNone, VInt 0]), VItem (VAttr (VRef 312) ''cluster_centers_'') (VTuple [VSlice VNone VNone, VInt 1])] [(''s'', VInt 100), (''c'', VArr 173 (take (length (elems_of L (VAttr (VRef 312) ''cluster_centers_''))) palette))] (GridCell 5 1 4 3),
     Called 316 49 (VAttr (VMod ''matplotlib.pyplot'') ''subplot'') [VInt 1, VInt 4, VInt 4] [] (GridCell 5 1 4 3),
     Called 317 49 (VAttr (VArr 173 (map (pick palette) (elems_of L (VRef 314)))) ''tolist'') [] [] (GridCell 5 1 4 4),
     Called 318 49 (VAttr (VMod ''matplotlib.pyplot'') ''scatter'') [VItem (VRef 311) (VTuple [VSlice VNone VNone, VInt 0]), VItem (VRef 311) (VTuple [VSlice VNone VNone, VInt 1])] [(''color'', VList (map (pick palette) (elems_of L (VRef 314)))), (''s'', VInt 10)] (GridCell 5 1 4 4),
     Called 319 49 (VAttr (VMod ''matplotlib.pyplot'') ''xticks'') [VTuple []] [] (GridCell 5 1 4 4),
     Called 320 49 (VAttr (VMod ''matplotlib.pyplot'') ''yticks'') [VTuple []] [] (GridCell 5 1 4 4),
     Called 321 49 (VAttr (VMod ''matplotlib.pyplot'') ''ylabel'') [VStr ''$x_1$''] [] (GridCell 5 1 4 4),
     Called 322 49 (VAttr (VMod ''matplotlib.pyplot'') ''xlabel'') [VStr ''$x_0$''] [] (GridCell 5 1 4 4),
     Called 323 49 (VAttr (VMod ''matplotlib.pyplot'') ''show'') [] [] (GridCell 5 1 4 4)
   ]"

definition excs49 :: "lib \<Rightarrow> exn list" where
  "excs49 L =
     lib_exn L 269 @ lib_exn L 270 @ lib_exn L 271 @ lib_exn L 272 @ lib_exn L 273 @
     lib_exn L 274 @ lib_exn L 275 @ lib_exn L 276 @ lib_exn L 277 @
     index_errors palette (elems_of L (VRef 275)) @ lib_exn L 278 @ lib_exn L 279 @
     lib_exn L 280 @ lib_exn L 281 @ lib_exn L 282 @ lib_exn L 283 @ lib_exn L 284 @
     lib_exn L 285 @ lib_exn L 286 @ lib_exn L 287 @ lib_exn L 288 @ lib_exn L 289 @
     lib_exn L 290 @ index_errors palette (elems_of L (VRef 288)) @ lib_exn L 291 @
     lib_exn L 292 @ lib_exn L 293 @ lib_exn L 294 @ lib_exn L 295 @ lib_exn L 296 @
     lib_exn L 297 @ lib_exn L 298 @ lib_exn L 299 @ lib_exn L 300 @ lib_exn L 301 @
     lib_exn L 302 @ lib_exn L 303 @ index_errors palette (elems_of L (VRef 301)) @
     lib_exn L 304 @ lib_exn L 305 @ lib_exn L 306 @ lib_exn L 307 @ lib_exn L 308 @
     lib_exn L 309 @ lib_exn L 310 @ lib_exn L 311 @ lib_exn L 312 @ lib_exn L 313 @
     lib_exn L 314 @ lib_exn L 315 @ lib_exn L 316 @
     index_errors palette (elems_of L (VRef 314)) @ lib_exn L 317 @ lib_exn L 318 @
     lib_exn L 319 @ lib_exn L 320 @ lib_exn L 321 @ lib_exn L 322 @ lib_exn L 323"


definition after0 :: "lib \<Rightarrow> nb" where
  "after0 L = init L True"

definition after2 :: "lib \<Rightarrow> nb" where
  "after2 L = cell2 (after0 L)"

definition after4 :: "lib \<Rightarrow> nb" where
  "after4 L = cell4 (after2 L)"

definition after5 :: "lib \<Rightarrow> nb" where
  "after5 L = cell5 (after4 L)"

definition after6 :: "lib \<Rightarrow> nb" where
  "after6 L = cell6 (after5 L)"

definition after7 :: "lib \<Rightarrow> nb" where
  "after7 L = cell7 (after6 L)"

definition after10 :: "lib \<Rightarrow> nb" where
  "after10 L = cell10 (after7 L)"

definition after12 :: "lib \<Rightarrow> nb" where
  "after12 L = cell12 (after10 L)"

definition after14 :: "lib \<Rightarrow> nb" where
  "after14 L = cell14 (after12 L)"

definition after16 :: "lib \<Rightarrow> nb" where
  "after16 L = cell16 (after14 L)"

definition after18 :: "lib \<Rightarrow> nb" where
  "after18 L = cell18 (after16 L)"

definition after20 :: "lib \<Rightarrow> nb" where
  "after20 L = cell20 (after18 L)"

definition after22 :: "lib \<Rightarrow> nb" where
  "after22 L = cell22 (after20 L)"

definition after24 :: "lib \<Rightarrow> nb" where
  "after24 L = cell24 (after22 L)"

definition after26 :: "lib \<Rightarrow> nb" where
  "after26 L = cell26 (after24 L)"

definition after29 :: "lib \<Rightarrow> nb" where
  "after29 L = cell29 (after26 L)"

definition after31 :: "lib \<Rightarrow> nb" where
  "after31 L = cell31 (after29 L)"

definition after33 :: "lib \<Rightarrow> nb" where
  "after33 L = cell33 (after31 L)"

definition after35 :: "lib \<Rightarrow> nb" where
  "after35 L = cell35 (after33 L)"

definition after37 :: "lib \<Rightarrow> nb" where
  "after37 L = cell37 (after35 L)"

definition after39 :: "lib \<Rightarrow> nb" where
  "after39 L = cell39 (after37 L)"

definition after41 :: "lib \<Rightarrow> nb" where
  "after41 L = cell41 (after39 L)"

definition after44 :: "lib \<Rightarrow> nb" where
  "after44 L = cell44 (after41 L)"

definition after46 :: "lib \<Rightarrow> nb" where
  "after46 L = cell46 (after44 L)"

definition after47 :: "lib \<Rightarrow> nb" where
  "after47 L = cell47 (after46 L)"

definition after49 :: "lib \<Rightarrow> nb" where
  "after49 L = cell49 (after47 L)"


section \<open>Runs\<close>

text \<open>
  \<open>run L\<close> is the run of the whole notebook, top to bottom, against the libraries \<open>L\<close>;
  \<open>rehearsal L\<close> is the same with exceptions recorded instead of stopping the run, and
  \<open>sweep\<close> lists the states between the cells.
\<close>

definition run :: "lib \<Rightarrow> nb" where
  "run L = notebook (init L False)"

definition rehearsal :: "lib \<Rightarrow> nb" where
  "rehearsal L = notebook (init L True)"


definition quiet :: lib where
  "quiet = \<lparr>raises = (\<lambda>k. None), elems_of = (\<lambda>v. [])\<rparr>"

fun callee :: "event \<Rightarrow> val option" where
  "callee (Called k c f args kw ax) = Some f"
| "callee e = None"

definition is_filterwarnings :: "event \<Rightarrow> bool" where
  "is_filterwarnings e = (callee e = Some (VAttr (VMod ''warnings'') ''filterwarnings''))"


section \<open>Reading the log\<close>

text \<open>
  The positions of the code cells in the notebook file, and the part of a log that one cell
  wrote.
\<close>

definition code_cells :: "nat list" where
  "code_cells = [2, 4, 5, 6, 7, 10, 12, 14, 16, 18, 20, 22, 24, 26, 29, 31, 33, 35, 37, 39, 41,
                 44, 46, 47, 49]"

definition regression_cells :: "nat list" where
  "regression_cells = [10, 12, 14, 16, 18, 20, 22, 24, 26]"

definition classification_cells :: "nat list" where
  "classification_cells = [29, 31, 33, 35, 37, 39, 41]"

definition clustering_cells :: "nat list" where
  "clustering_cells = [47, 49]"

definition cell_events :: "nat \<Rightarrow> event list \<Rightarrow> event list" where
  "cell_events c es = filter (\<lambda>e. ev_cell e = c) es"

fun args_of :: "event \<Rightarrow> val list" where
  "args_of (Called k c f args kw ax) = args"
| "args_of e = []"

fun kw_of :: "event \<Rightarrow> (string \<times> val) list" where
  "kw_of (Called k c f args kw ax) = kw"
| "kw_of e = []"

fun axes_at :: "event \<Rightarrow> axes" where
  "axes_at (Called k c f args kw ax) = ax"
| "axes_at e = NoFigure"


fun imported_from :: "event \<Rightarrow> string list" where
  "imported_from (Imported k c m ns) = [m]"
| "imported_from e = []"

text \<open>
  \<open>receiver m e\<close> is the object whose method \<open>m\<close> the operation \<open>e\<close> calls, if it is such a call;
  \<open>calls_of m\<close> keeps the calls of the method \<open>m\<close>, and \<open>calls_to fs\<close> the calls of the functions
  \<open>fs\<close>.
\<close>

fun receiver :: "string \<Rightarrow> event \<Rightarrow> val list" where
  "receiver m (Called k c (VAttr r a) args kw ax) = (if a = m then [r] else [])"
| "receiver m e = []"

definition calls_of :: "string \<Rightarrow> event list \<Rightarrow> event list" where
  "calls_of m es = filter (\<lambda>e. receiver m e \<noteq> []) es"

definition calls_to :: "val list \<Rightarrow> event list \<Rightarrow> event list" where
  "calls_to fs es = filter (\<lambda>e. case callee e of None \<Rightarrow> False | Some f \<Rightarrow> f \<in> set fs) es"

text \<open>The value that the operation \<open>e\<close> returned, when that is a library object.\<close>

definition result_of :: "event \<Rightarrow> val" where
  "result_of e = VRef (ev_id e)"

text \<open>
  The object that a value is an attribute or an item of (a formatted value: the object that is
  formatted), and the operation that returned that object.
\<close>

fun root :: "val \<Rightarrow> val" where
  "root (VAttr v a) = root v"
| "root (VItem v i) = root v"
| "root (VFmt f v) = root v"
| "root v = v"


section \<open>Estimators, predictions and metrics\<close>



definition metrics :: "val list" where
  "metrics = [VSym ''sklearn.metrics'' ''mean_squared_error'', VSym ''sklearn.metrics'' ''r2_score'',
              VSym ''sklearn.metrics'' ''classification_report'']"



text \<open>
  \<open>fit_first fs es\<close>: in the log \<open>es\<close>, every \<^verbatim>\<open>predict\<close> is called on an object whose \<^verbatim>\<open>fit\<close> was
  called before (\<open>fs\<close> are the objects fitted so far). \<open>scored_from ps es\<close>: every metric is
  computed from two arguments, the second of which is the result_of of a \<^verbatim>\<open>predict\<close> called
  before (\<open>ps\<close> are the outputs so far).
\<close>

fun fit_first :: "val list \<Rightarrow> event list \<Rightarrow> bool" where
  "fit_first fs [] = True"
| "fit_first fs (e # es) =
     (list_all (\<lambda>r. r \<in> set fs) (receiver ''predict'' e) \<and> fit_first (receiver ''fit'' e @ fs) es)"

fun from_prediction :: "val list \<Rightarrow> val list \<Rightarrow> bool" where
  "from_prediction ps [y, p] = (p \<in> set ps)"
| "from_prediction ps args = False"

definition predicted :: "event \<Rightarrow> val list" where
  "predicted e = map (\<lambda>r. result_of e) (receiver ''predict'' e)"

fun scored_from :: "val list \<Rightarrow> event list \<Rightarrow> bool" where
  "scored_from ps [] = True"
| "scored_from ps (e # es) =
     (list_all (\<lambda>e. from_prediction ps (args_of e)) (calls_to metrics [e])
      \<and> scored_from (predicted e @ ps) es)"

text \<open>The outputs of the \<^verbatim>\<open>predict\<close> calls of a log, and the predictions its metrics score.\<close>

definition predictions :: "event list \<Rightarrow> val list" where
  "predictions es = map result_of (calls_of ''predict'' es)"

definition scored :: "event list \<Rightarrow> val list" where
  "scored es = concat (map (\<lambda>e. drop 1 (args_of e)) (calls_to metrics es))"

section \<open>Training data and test data\<close>

text \<open>
  \<open>trained_and_scored X y Xt yt es\<close>: the log \<open>es\<close> has a \<^verbatim>\<open>fit\<close>, a \<^verbatim>\<open>predict\<close> and a metric; every
  \<^verbatim>\<open>fit\<close> is on \<open>(X, y)\<close>, every \<^verbatim>\<open>predict\<close> on \<open>Xt\<close>, and every metric compares with \<open>yt\<close>.
\<close>

definition trained_and_scored :: "val \<Rightarrow> val \<Rightarrow> val \<Rightarrow> val \<Rightarrow> event list \<Rightarrow> bool" where
  "trained_and_scored X y Xt yt es =
     (calls_of ''fit'' es \<noteq> [] \<and> calls_of ''predict'' es \<noteq> [] \<and> calls_to metrics es \<noteq> []
      \<and> list_all (\<lambda>e. args_of e = [X, y]) (calls_of ''fit'' es)
      \<and> list_all (\<lambda>e. args_of e = [Xt]) (calls_of ''predict'' es)
      \<and> list_all (\<lambda>e. take 1 (args_of e) = [yt]) (calls_to metrics es))"

definition on_training_data :: "val \<Rightarrow> event list \<Rightarrow> bool" where
  "on_training_data D es =
     trained_and_scored (VAttr D ''data'') (VAttr D ''target'') (VAttr D ''data'') (VAttr D ''target'') es"

text \<open>
  \<^verbatim>\<open>X_train, X_test, y_train, y_test = cv.train_test_split(data, target, test_size=0.2)\<close>: the four
  parts are the items 0 to 3 of what the call returns.
\<close>

definition splits :: "event list \<Rightarrow> event list" where
  "splits es = calls_to [VAttr (VSym ''sklearn'' ''cross_validation'') ''train_test_split''] es"

fun on_held_out :: "event list \<Rightarrow> event list \<Rightarrow> bool" where
  "on_held_out [sp] es =
     (kw_of sp = [(''test_size'', VNum (2 / 10))]
      \<and> (case args_of sp of
            [VAttr D a, VAttr D' b] \<Rightarrow> a = ''data'' \<and> b = ''target'' \<and> D' = D
          | _ \<Rightarrow> False)
      \<and> trained_and_scored (VItem (result_of sp) (VInt 0)) (VItem (result_of sp) (VInt 2))
            (VItem (result_of sp) (VInt 1)) (VItem (result_of sp) (VInt 3)) es)"
| "on_held_out sps es = False"

section \<open>Objects that cross cell boundaries\<close>




section \<open>Where the callees come from\<close>

text \<open>
  The package of a module is the part of its name before the first dot. At operation \<open>k\<close>, a
  callee is provided by the libraries when it is a module or a symbol of one of the four
  packages, or an object that an earlier operation returned, or an attribute of these.
\<close>

definition libraries :: "string list" where
  "libraries = [''sklearn'', ''pandas'', ''matplotlib'', ''numpy'']"

definition package :: "string \<Rightarrow> string" where
  "package m = takeWhile (\<lambda>c. c \<noteq> CHR ''.'') m"

fun provided :: "nat \<Rightarrow> val \<Rightarrow> bool" where
  "provided k (VMod m) = (package m \<in> set libraries)"
| "provided k (VSym m n) = (package m \<in> set libraries)"
| "provided k (VRef j) = (j < k)"
| "provided k (VArr j xs) = (j < k)"
| "provided k v = False"

definition delegated :: "event \<Rightarrow> bool" where
  "delegated e = list_all (\<lambda>f. provided (ev_id e) (root f)) (case_option [] (\<lambda>f. [f]) (callee e))"

section \<open>Labels and colours\<close>





section \<open>Plotting steps\<close>

text \<open>
  The steps of a clustering plot: a scatter plot of cluster centres or of points, with the
  axes that are current when it is called, and the selection of a cell of the grid.
\<close>

datatype plot = Centres axes | Points axes | Select "val list"

fun centres :: "val list \<Rightarrow> bool" where
  "centres (VItem (VAttr m a) i # args) = (a = ''cluster_centers_'')"
| "centres args = False"

definition scatter_step :: "val list \<Rightarrow> axes \<Rightarrow> plot" where
  "scatter_step args ax = (if centres args then Centres ax else Points ax)"

fun plot_step :: "event \<Rightarrow> plot list" where
  "plot_step (Called k c (VAttr (VMod m) a) args kw ax) =
     (if m = ''matplotlib.pyplot'' \<and> a = ''scatter'' then [scatter_step args ax]
      else if m = ''matplotlib.pyplot'' \<and> a = ''subplot'' then [Select args]
      else [])"
| "plot_step e = []"

definition plot_steps :: "event list \<Rightarrow> plot list" where
  "plot_steps es = concat (map plot_step es)"


section \<open>Evaluating the cells\<close>

lemmas sem_defs = code_cell_def flush_figures_def enter_def import_as_def from_import_def
  import_op_def imported_def magic_def store_def bind_def assign_def expr_def print_def emit_def
  call_def perform_def returned_def answer_def name_def attr_def fmt_def lit_def raising_def
  halted_def lib_op_def tuple_def list_def add_def mul_def ne_def len_def enumerate_def slice_def
  subscr_def result_def list_comp_def plt_figure_def plt_subplots_def plt_show_def plt_gca_def
  pyplot_effect_def filterwarnings_def module_effect_def unpack_def bind_targets_def spread_def
  set_attr_def set_item_def mutate_def for_in_def if_else_def

lemma raising_nil [simp]: "raising [] s = s"
  by (simp add: raising_def)

lemma raising_raising [simp]: "raising b (raising a s) = raising (a @ b) s"
  by (simp add: raising_def)

lemma raising_fields [simp]:
  "dry (raising es s) = dry s" "env (raising es s) = env s" "library (raising es s) = library s"
  by (simp_all add: raising_def)

lemma subscr_dry:
  assumes "dry s" "env s x = Some c"
  shows "subscr (name x) (lit t) s =
           (fst (getitem (library s) c t), raising (snd (getitem (library s) c t)) s)"
proof -
  obtain v es where g: "getitem (library s) c t = (v, es)"
    by (cases "getitem (library s) c t")
  show ?thesis
    using assms by (simp add: subscr_def name_def lit_def result_def halted_def g)
qed

text \<open>A comprehension over the elements of a library array, element by element.\<close>

lemma comp_dict:
  "dry s \<Longrightarrow> env s x = Some (VDict kvs) \<Longrightarrow>
   eval_all (map (\<lambda>t. subscr (name x) (lit t)) is) s =
     (dict_values kvs is, raising (key_errors kvs is) s)"
proof (induction "is" arbitrary: s)
  case Nil
  then show ?case by (simp add: dict_values_def key_errors_def)
next
  case (Cons i "is")
  then show ?case
    by (simp add: subscr_dry dict_values_def key_errors_def)
qed

lemma subscr_attr_dry:
  assumes "dry s" "env s x = Some c"
  shows "subscr (attr (name x) a) (lit t) s = (VItem (VAttr c a) t, s)"
  using assms by (simp add: subscr_def attr_def name_def lit_def result_def halted_def)

lemma comp_item:
  "dry s \<Longrightarrow> env s x = Some c \<Longrightarrow>
   eval_all (map (\<lambda>t. subscr (attr (name x) a) (lit t)) is) s = (map (VItem (VAttr c a)) is, s)"
  by (induction "is" arbitrary: s) (simp_all add: subscr_attr_dry)

lemma two: "Suc (Suc 0) = 2"
  by simp

lemma hstack_replicate:
  "concat (map arr_elems (concat (replicate n [VArr k xs]))) = concat (replicate n xs)"
  by (induction n) simp_all


subsection \<open>The state after each cell, when nothing stops the run\<close>

lemma after0_sel:
  "nops (after0 L) = 0" "nfigs (after0 L) = 0"
  "cur_axes (after0 L) = NoFigure" "warn_filter (after0 L) = []" "library (after0 L) = L"
  "dry (after0 L)" "trace (after0 L) = []" "raised (after0 L) = []"
  by (simp_all add: after0_def init_def)

lemma after2:
  "after2 L = (after0 L)\<lparr>
     cell := 2,
     env := (env (after0 L))
          (v_time \<mapsto> VMod ''time'', v_np \<mapsto> VMod ''numpy'',
           v_plt \<mapsto> VMod ''matplotlib.pyplot'',
           v_mse \<mapsto> VSym ''sklearn.metrics'' ''mean_squared_error'',
           v_r2_score \<mapsto> VSym ''sklearn.metrics'' ''r2_score'',
           v_classification_report \<mapsto> VSym ''sklearn.metrics'' ''classification_report'',
           v_cv \<mapsto> VSym ''sklearn'' ''cross_validation'',
           v_load_boston \<mapsto> VSym ''sklearn.datasets'' ''load_boston'',
           v_load_iris \<mapsto> VSym ''sklearn.datasets'' ''load_iris'',
           v_load_diabetes \<mapsto> VSym ''sklearn.datasets'' ''load_diabetes'',
           v_load_digits \<mapsto> VSym ''sklearn.datasets'' ''load_digits'',
           v_load_linnerud \<mapsto> VSym ''sklearn.datasets'' ''load_linnerud'',
           v_boston \<mapsto> VRef 13, v_iris \<mapsto> VRef 15, v_diabetes \<mapsto> VRef 17,
           v_digits \<mapsto> VRef 19, v_linnerud \<mapsto> VRef 21),
     nops := 23,
     trace := trace (after0 L) @ seg2 L,
     raised := raised (after0 L) @ excs2 L,
     cur_axes := NoFigure\<rparr>"
  by (simp add: after2_def cell2_def seg2_def excs2_def sem_defs after0_sel
        comp_dict comp_item hstack_replicate two)

lemma after2_sel:
  "nops (after2 L) = 23"
  "nfigs (after2 L) = 0"
  "cur_axes (after2 L) = NoFigure"
  "warn_filter (after2 L) = []"
  "library (after2 L) = L"
  "dry (after2 L)"
  "env (after2 L) v_classification_report = Some (VSym ''sklearn.metrics'' ''classification_report'')"
  "env (after2 L) v_cv = Some (VSym ''sklearn'' ''cross_validation'')"
  "env (after2 L) v_diabetes = Some (VRef 17)"
  "env (after2 L) v_digits = Some (VRef 19)"
  "env (after2 L) v_iris = Some (VRef 15)"
  "env (after2 L) v_mse = Some (VSym ''sklearn.metrics'' ''mean_squared_error'')"
  "env (after2 L) v_np = Some (VMod ''numpy'')"
  "env (after2 L) v_plt = Some (VMod ''matplotlib.pyplot'')"
  "env (after2 L) v_r2_score = Some (VSym ''sklearn.metrics'' ''r2_score'')"
  by (simp_all add: after2 after0_sel)

lemma after2_log:
  "trace (after2 L) = trace (after0 L) @ seg2 L"
  "raised (after2 L) = raised (after0 L) @ excs2 L"
  by (simp_all add: after2)

lemma after4:
  "after4 L = (after2 L)\<lparr>
     cell := 4,
     env := (env (after2 L))
          (v_pd \<mapsto> VMod ''pandas'',
           v_scatter_matrix \<mapsto> VSym ''pandas.tools.plotting'' ''scatter_matrix'',
           v_radviz \<mapsto> VSym ''pandas.tools.plotting'' ''radviz'', v_df \<mapsto> VRef 25,
           v_cmap \<mapsto> VDict [(VInt 0, VStr ''r''), (VInt 1, VStr ''b''), (VInt 2, VStr ''g'')],
           v_colors \<mapsto> VList (dict_values [(VInt 0, VStr ''r''), (VInt 1, VStr ''b''), (VInt 2, VStr ''g'')] (elems_of L (VAttr (VRef 15) ''target''))),
           v_fig \<mapsto> VRef 27),
     nops := 28,
     trace := trace (after2 L) @ seg4 L,
     raised := raised (after2 L) @ excs4 L,
     cur_axes := NoFigure\<rparr>"
  by (simp add: after4_def cell4_def seg4_def excs4_def sem_defs after2_sel
        comp_dict comp_item hstack_replicate two)

lemma after4_sel:
  "nops (after4 L) = 28"
  "nfigs (after4 L) = 0"
  "cur_axes (after4 L) = NoFigure"
  "warn_filter (after4 L) = []"
  "library (after4 L) = L"
  "dry (after4 L)"
  "env (after4 L) v_classification_report = Some (VSym ''sklearn.metrics'' ''classification_report'')"
  "env (after4 L) v_colors = Some (VList (dict_values [(VInt 0, VStr ''r''), (VInt 1, VStr ''b''), (VInt 2, VStr ''g'')] (elems_of L (VAttr (VRef 15) ''target''))))"
  "env (after4 L) v_cv = Some (VSym ''sklearn'' ''cross_validation'')"
  "env (after4 L) v_df = Some (VRef 25)"
  "env (after4 L) v_diabetes = Some (VRef 17)"
  "env (after4 L) v_digits = Some (VRef 19)"
  "env (after4 L) v_iris = Some (VRef 15)"
  "env (after4 L) v_mse = Some (VSym ''sklearn.metrics'' ''mean_squared_error'')"
  "env (after4 L) v_np = Some (VMod ''numpy'')"
  "env (after4 L) v_pd = Some (VMod ''pandas'')"
  "env (after4 L) v_plt = Some (VMod ''matplotlib.pyplot'')"
  "env (after4 L) v_r2_score = Some (VSym ''sklearn.metrics'' ''r2_score'')"
  "env (after4 L) v_radviz = Some (VSym ''pandas.tools.plotting'' ''radviz'')"
  "env (after4 L) v_scatter_matrix = Some (VSym ''pandas.tools.plotting'' ''scatter_matrix'')"
  by (simp_all add: after4 after2_sel)

lemma after4_log:
  "trace (after4 L) = trace (after2 L) @ seg4 L"
  "raised (after4 L) = raised (after2 L) @ excs4 L"
  by (simp_all add: after4)

lemma after5:
  "after5 L = (after4 L)\<lparr>
     cell := 5,
     nops := 31,
     trace := trace (after4 L) @ seg5 L,
     raised := raised (after4 L) @ excs5 L,
     nfigs := 1,
     cur_axes := NoFigure\<rparr>"
  by (simp add: after5_def cell5_def seg5_def excs5_def sem_defs after4_sel
        comp_dict comp_item hstack_replicate two)

lemma after5_sel:
  "nops (after5 L) = 31"
  "nfigs (after5 L) = 1"
  "cur_axes (after5 L) = NoFigure"
  "warn_filter (after5 L) = []"
  "library (after5 L) = L"
  "dry (after5 L)"
  "env (after5 L) v_classification_report = Some (VSym ''sklearn.metrics'' ''classification_report'')"
  "env (after5 L) v_colors = Some (VList (dict_values [(VInt 0, VStr ''r''), (VInt 1, VStr ''b''), (VInt 2, VStr ''g'')] (elems_of L (VAttr (VRef 15) ''target''))))"
  "env (after5 L) v_cv = Some (VSym ''sklearn'' ''cross_validation'')"
  "env (after5 L) v_diabetes = Some (VRef 17)"
  "env (after5 L) v_digits = Some (VRef 19)"
  "env (after5 L) v_iris = Some (VRef 15)"
  "env (after5 L) v_mse = Some (VSym ''sklearn.metrics'' ''mean_squared_error'')"
  "env (after5 L) v_np = Some (VMod ''numpy'')"
  "env (after5 L) v_pd = Some (VMod ''pandas'')"
  "env (after5 L) v_plt = Some (VMod ''matplotlib.pyplot'')"
  "env (after5 L) v_r2_score = Some (VSym ''sklearn.metrics'' ''r2_score'')"
  "env (after5 L) v_scatter_matrix = Some (VSym ''pandas.tools.plotting'' ''scatter_matrix'')"
  by (simp_all add: after5 after4_sel)

lemma after5_log:
  "trace (after5 L) = trace (after4 L) @ seg5 L"
  "raised (after5 L) = raised (after4 L) @ excs5 L"
  by (simp_all add: after5)

lemma after6:
  "after6 L = (after5 L)\<lparr>
     cell := 6,
     env := (env (after5 L))
          (v_df \<mapsto> VRef 31, v_fig \<mapsto> VRef 32),
     nops := 33,
     trace := trace (after5 L) @ seg6 L,
     raised := raised (after5 L) @ excs6 L,
     cur_axes := NoFigure\<rparr>"
  by (simp add: after6_def cell6_def seg6_def excs6_def sem_defs after5_sel
        comp_dict comp_item hstack_replicate two)

lemma after6_sel:
  "nops (after6 L) = 33"
  "nfigs (after6 L) = 1"
  "cur_axes (after6 L) = NoFigure"
  "warn_filter (after6 L) = []"
  "library (after6 L) = L"
  "dry (after6 L)"
  "env (after6 L) v_classification_report = Some (VSym ''sklearn.metrics'' ''classification_report'')"
  "env (after6 L) v_colors = Some (VList (dict_values [(VInt 0, VStr ''r''), (VInt 1, VStr ''b''), (VInt 2, VStr ''g'')] (elems_of L (VAttr (VRef 15) ''target''))))"
  "env (after6 L) v_cv = Some (VSym ''sklearn'' ''cross_validation'')"
  "env (after6 L) v_diabetes = Some (VRef 17)"
  "env (after6 L) v_digits = Some (VRef 19)"
  "env (after6 L) v_iris = Some (VRef 15)"
  "env (after6 L) v_mse = Some (VSym ''sklearn.metrics'' ''mean_squared_error'')"
  "env (after6 L) v_np = Some (VMod ''numpy'')"
  "env (after6 L) v_plt = Some (VMod ''matplotlib.pyplot'')"
  "env (after6 L) v_r2_score = Some (VSym ''sklearn.metrics'' ''r2_score'')"
  by (simp_all add: after6 after5_sel)

lemma after6_log:
  "trace (after6 L) = trace (after5 L) @ seg6 L"
  "raised (after6 L) = raised (after5 L) @ excs6 L"
  by (simp_all add: after6)

lemma after7:
  "after7 L = (after6 L)\<lparr>
     cell := 7,
     env := (env (after6 L))
          (v_random \<mapsto> VMod ''random''),
     nops := 37,
     trace := trace (after6 L) @ seg7 L,
     raised := raised (after6 L) @ excs7 L,
     nfigs := 2,
     cur_axes := NoFigure\<rparr>"
  by (simp add: after7_def cell7_def seg7_def excs7_def sem_defs after6_sel
        comp_dict comp_item hstack_replicate two)

lemma after7_sel:
  "nops (after7 L) = 37"
  "nfigs (after7 L) = 2"
  "cur_axes (after7 L) = NoFigure"
  "warn_filter (after7 L) = []"
  "library (after7 L) = L"
  "dry (after7 L)"
  "env (after7 L) v_classification_report = Some (VSym ''sklearn.metrics'' ''classification_report'')"
  "env (after7 L) v_colors = Some (VList (dict_values [(VInt 0, VStr ''r''), (VInt 1, VStr ''b''), (VInt 2, VStr ''g'')] (elems_of L (VAttr (VRef 15) ''target''))))"
  "env (after7 L) v_cv = Some (VSym ''sklearn'' ''cross_validation'')"
  "env (after7 L) v_diabetes = Some (VRef 17)"
  "env (after7 L) v_digits = Some (VRef 19)"
  "env (after7 L) v_iris = Some (VRef 15)"
  "env (after7 L) v_mse = Some (VSym ''sklearn.metrics'' ''mean_squared_error'')"
  "env (after7 L) v_np = Some (VMod ''numpy'')"
  "env (after7 L) v_plt = Some (VMod ''matplotlib.pyplot'')"
  "env (after7 L) v_r2_score = Some (VSym ''sklearn.metrics'' ''r2_score'')"
  by (simp_all add: after7 after6_sel)

lemma after7_log:
  "trace (after7 L) = trace (after6 L) @ seg7 L"
  "raised (after7 L) = raised (after6 L) @ excs7 L"
  by (simp_all add: after7)

lemma after10:
  "after10 L = (after7 L)\<lparr>
     cell := 10,
     env := (env (after7 L))
          (v_LinearRegression \<mapsto> VSym ''sklearn.linear_model'' ''LinearRegression'',
           v_model \<mapsto> VRef 38, v_expected \<mapsto> VAttr (VRef 17) ''target'',
           v_predicted \<mapsto> VRef 40),
     nops := 45,
     trace := trace (after7 L) @ seg10 L,
     raised := raised (after7 L) @ excs10 L,
     cur_axes := NoFigure\<rparr>"
  by (simp add: after10_def cell10_def seg10_def excs10_def sem_defs after7_sel
        comp_dict comp_item hstack_replicate two)

lemma after10_sel:
  "nops (after10 L) = 45"
  "nfigs (after10 L) = 2"
  "cur_axes (after10 L) = NoFigure"
  "warn_filter (after10 L) = []"
  "library (after10 L) = L"
  "dry (after10 L)"
  "env (after10 L) v_classification_report = Some (VSym ''sklearn.metrics'' ''classification_report'')"
  "env (after10 L) v_colors = Some (VList (dict_values [(VInt 0, VStr ''r''), (VInt 1, VStr ''b''), (VInt 2, VStr ''g'')] (elems_of L (VAttr (VRef 15) ''target''))))"
  "env (after10 L) v_cv = Some (VSym ''sklearn'' ''cross_validation'')"
  "env (after10 L) v_diabetes = Some (VRef 17)"
  "env (after10 L) v_digits = Some (VRef 19)"
  "env (after10 L) v_iris = Some (VRef 15)"
  "env (after10 L) v_mse = Some (VSym ''sklearn.metrics'' ''mean_squared_error'')"
  "env (after10 L) v_np = Some (VMod ''numpy'')"
  "env (after10 L) v_plt = Some (VMod ''matplotlib.pyplot'')"
  "env (after10 L) v_r2_score = Some (VSym ''sklearn.metrics'' ''r2_score'')"
  by (simp_all add: after10 after7_sel)

lemma after10_log:
  "trace (after10 L) = trace (after7 L) @ seg10 L"
  "raised (after10 L) = raised (after7 L) @ excs10 L"
  by (simp_all add: after10)

lemma after12:
  "after12 L = (after10 L)\<lparr>
     cell := 12,
     env := (env (after10 L))
          (v_Perceptron \<mapsto> VSym ''sklearn.linear_model'' ''Perceptron'',
           v_model \<mapsto> VRef 46, v_expected \<mapsto> VAttr (VRef 17) ''target'',
           v_predicted \<mapsto> VRef 48),
     nops := 53,
     trace := trace (after10 L) @ seg12 L,
     raised := raised (after10 L) @ excs12 L,
     cur_axes := NoFigure\<rparr>"
  by (simp add: after12_def cell12_def seg12_def excs12_def sem_defs after10_sel
        comp_dict comp_item hstack_replicate two)

lemma after12_sel:
  "nops (after12 L) = 53"
  "nfigs (after12 L) = 2"
  "cur_axes (after12 L) = NoFigure"
  "warn_filter (after12 L) = []"
  "library (after12 L) = L"
  "dry (after12 L)"
  "env (after12 L) v_classification_report = Some (VSym ''sklearn.metrics'' ''classification_report'')"
  "env (after12 L) v_colors = Some (VList (dict_values [(VInt 0, VStr ''r''), (VInt 1, VStr ''b''), (VInt 2, VStr ''g'')] (elems_of L (VAttr (VRef 15) ''target''))))"
  "env (after12 L) v_cv = Some (VSym ''sklearn'' ''cross_validation'')"
  "env (after12 L) v_diabetes = Some (VRef 17)"
  "env (after12 L) v_digits = Some (VRef 19)"
  "env (after12 L) v_iris = Some (VRef 15)"
  "env (after12 L) v_mse = Some (VSym ''sklearn.metrics'' ''mean_squared_error'')"
  "env (after12 L) v_np = Some (VMod ''numpy'')"
  "env (after12 L) v_plt = Some (VMod ''matplotlib.pyplot'')"
  "env (after12 L) v_r2_score = Some (VSym ''sklearn.metrics'' ''r2_score'')"
  by (simp_all add: after12 after10_sel)

lemma after12_log:
  "trace (after12 L) = trace (after10 L) @ seg12 L"
  "raised (after12 L) = raised (after10 L) @ excs12 L"
  by (simp_all add: after12)

lemma after14:
  "after14 L = (after12 L)\<lparr>
     cell := 14,
     env := (env (after12 L))
          (v_KNeighborsRegressor \<mapsto> VSym ''sklearn.neighbors'' ''KNeighborsRegressor'',
           v_model \<mapsto> VRef 54, v_expected \<mapsto> VAttr (VRef 17) ''target'',
           v_predicted \<mapsto> VRef 56),
     nops := 61,
     trace := trace (after12 L) @ seg14 L,
     raised := raised (after12 L) @ excs14 L,
     cur_axes := NoFigure\<rparr>"
  by (simp add: after14_def cell14_def seg14_def excs14_def sem_defs after12_sel
        comp_dict comp_item hstack_replicate two)

lemma after14_sel:
  "nops (after14 L) = 61"
  "nfigs (after14 L) = 2"
  "cur_axes (after14 L) = NoFigure"
  "warn_filter (after14 L) = []"
  "library (after14 L) = L"
  "dry (after14 L)"
  "env (after14 L) v_classification_report = Some (VSym ''sklearn.metrics'' ''classification_report'')"
  "env (after14 L) v_colors = Some (VList (dict_values [(VInt 0, VStr ''r''), (VInt 1, VStr ''b''), (VInt 2, VStr ''g'')] (elems_of L (VAttr (VRef 15) ''target''))))"
  "env (after14 L) v_cv = Some (VSym ''sklearn'' ''cross_validation'')"
  "env (after14 L) v_diabetes = Some (VRef 17)"
  "env (after14 L) v_digits = Some (VRef 19)"
  "env (after14 L) v_iris = Some (VRef 15)"
  "env (after14 L) v_mse = Some (VSym ''sklearn.metrics'' ''mean_squared_error'')"
  "env (after14 L) v_np = Some (VMod ''numpy'')"
  "env (after14 L) v_plt = Some (VMod ''matplotlib.pyplot'')"
  "env (after14 L) v_r2_score = Some (VSym ''sklearn.metrics'' ''r2_score'')"
  by (simp_all add: after14 after12_sel)

lemma after14_log:
  "trace (after14 L) = trace (after12 L) @ seg14 L"
  "raised (after14 L) = raised (after12 L) @ excs14 L"
  by (simp_all add: after14)

lemma after16:
  "after16 L = (after14 L)\<lparr>
     cell := 16,
     env := (env (after14 L))
          (v_DecisionTreeRegressor \<mapsto> VSym ''sklearn.tree'' ''DecisionTreeRegressor'',
           v_model \<mapsto> VRef 62, v_expected \<mapsto> VAttr (VRef 17) ''target'',
           v_predicted \<mapsto> VRef 64),
     nops := 69,
     trace := trace (after14 L) @ seg16 L,
     raised := raised (after14 L) @ excs16 L,
     cur_axes := NoFigure\<rparr>"
  by (simp add: after16_def cell16_def seg16_def excs16_def sem_defs after14_sel
        comp_dict comp_item hstack_replicate two)

lemma after16_sel:
  "nops (after16 L) = 69"
  "nfigs (after16 L) = 2"
  "cur_axes (after16 L) = NoFigure"
  "warn_filter (after16 L) = []"
  "library (after16 L) = L"
  "dry (after16 L)"
  "env (after16 L) v_classification_report = Some (VSym ''sklearn.metrics'' ''classification_report'')"
  "env (after16 L) v_colors = Some (VList (dict_values [(VInt 0, VStr ''r''), (VInt 1, VStr ''b''), (VInt 2, VStr ''g'')] (elems_of L (VAttr (VRef 15) ''target''))))"
  "env (after16 L) v_cv = Some (VSym ''sklearn'' ''cross_validation'')"
  "env (after16 L) v_diabetes = Some (VRef 17)"
  "env (after16 L) v_digits = Some (VRef 19)"
  "env (after16 L) v_iris = Some (VRef 15)"
  "env (after16 L) v_mse = Some (VSym ''sklearn.metrics'' ''mean_squared_error'')"
  "env (after16 L) v_np = Some (VMod ''numpy'')"
  "env (after16 L) v_plt = Some (VMod ''matplotlib.pyplot'')"
  "env (after16 L) v_r2_score = Some (VSym ''sklearn.metrics'' ''r2_score'')"
  by (simp_all add: after16 after14_sel)

lemma after16_log:
  "trace (after16 L) = trace (after14 L) @ seg16 L"
  "raised (after16 L) = raised (after14 L) @ excs16 L"
  by (simp_all add: after16)

lemma after18:
  "after18 L = (after16 L)\<lparr>
     cell := 18,
     env := (env (after16 L))
          (v_RandomForestRegressor \<mapsto> VSym ''sklearn.ensemble'' ''RandomForestRegressor'',
           v_model \<mapsto> VRef 70, v_expected \<mapsto> VAttr (VRef 17) ''target'',
           v_predicted \<mapsto> VRef 72),
     nops := 77,
     trace := trace (after16 L) @ seg18 L,
     raised := raised (after16 L) @ excs18 L,
     cur_axes := NoFigure\<rparr>"
  by (simp add: after18_def cell18_def seg18_def excs18_def sem_defs after16_sel
        comp_dict comp_item hstack_replicate two)

lemma after18_sel:
  "nops (after18 L) = 77"
  "nfigs (after18 L) = 2"
  "cur_axes (after18 L) = NoFigure"
  "warn_filter (after18 L) = []"
  "library (after18 L) = L"
  "dry (after18 L)"
  "env (after18 L) v_classification_report = Some (VSym ''sklearn.metrics'' ''classification_report'')"
  "env (after18 L) v_colors = Some (VList (dict_values [(VInt 0, VStr ''r''), (VInt 1, VStr ''b''), (VInt 2, VStr ''g'')] (elems_of L (VAttr (VRef 15) ''target''))))"
  "env (after18 L) v_cv = Some (VSym ''sklearn'' ''cross_validation'')"
  "env (after18 L) v_diabetes = Some (VRef 17)"
  "env (after18 L) v_digits = Some (VRef 19)"
  "env (after18 L) v_iris = Some (VRef 15)"
  "env (after18 L) v_mse = Some (VSym ''sklearn.metrics'' ''mean_squared_error'')"
  "env (after18 L) v_np = Some (VMod ''numpy'')"
  "env (after18 L) v_plt = Some (VMod ''matplotlib.pyplot'')"
  "env (after18 L) v_r2_score = Some (VSym ''sklearn.metrics'' ''r2_score'')"
  by (simp_all add: after18 after16_sel)

lemma after18_log:
  "trace (after18 L) = trace (after16 L) @ seg18 L"
  "raised (after18 L) = raised (after16 L) @ excs18 L"
  by (simp_all add: after18)

lemma after20:
  "after20 L = (after18 L)\<lparr>
     cell := 20,
     env := (env (after18 L))
          (v_AdaBoostRegressor \<mapsto> VSym ''sklearn.ensemble'' ''AdaBoostRegressor'',
           v_model \<mapsto> VRef 78, v_expected \<mapsto> VAttr (VRef 17) ''target'',
           v_predicted \<mapsto> VRef 80),
     nops := 85,
     trace := trace (after18 L) @ seg20 L,
     raised := raised (after18 L) @ excs20 L,
     cur_axes := NoFigure\<rparr>"
  by (simp add: after20_def cell20_def seg20_def excs20_def sem_defs after18_sel
        comp_dict comp_item hstack_replicate two)

lemma after20_sel:
  "nops (after20 L) = 85"
  "nfigs (after20 L) = 2"
  "cur_axes (after20 L) = NoFigure"
  "warn_filter (after20 L) = []"
  "library (after20 L) = L"
  "dry (after20 L)"
  "env (after20 L) v_classification_report = Some (VSym ''sklearn.metrics'' ''classification_report'')"
  "env (after20 L) v_colors = Some (VList (dict_values [(VInt 0, VStr ''r''), (VInt 1, VStr ''b''), (VInt 2, VStr ''g'')] (elems_of L (VAttr (VRef 15) ''target''))))"
  "env (after20 L) v_cv = Some (VSym ''sklearn'' ''cross_validation'')"
  "env (after20 L) v_diabetes = Some (VRef 17)"
  "env (after20 L) v_digits = Some (VRef 19)"
  "env (after20 L) v_iris = Some (VRef 15)"
  "env (after20 L) v_mse = Some (VSym ''sklearn.metrics'' ''mean_squared_error'')"
  "env (after20 L) v_np = Some (VMod ''numpy'')"
  "env (after20 L) v_plt = Some (VMod ''matplotlib.pyplot'')"
  "env (after20 L) v_r2_score = Some (VSym ''sklearn.metrics'' ''r2_score'')"
  by (simp_all add: after20 after18_sel)

lemma after20_log:
  "trace (after20 L) = trace (after18 L) @ seg20 L"
  "raised (after20 L) = raised (after18 L) @ excs20 L"
  by (simp_all add: after20)

lemma after22:
  "after22 L = (after20 L)\<lparr>
     cell := 22,
     env := (env (after20 L))
          (v_SVR \<mapsto> VSym ''sklearn.svm'' ''SVR'', v_model \<mapsto> VRef 86,
           v_expected \<mapsto> VAttr (VRef 17) ''target'', v_predicted \<mapsto> VRef 88),
     nops := 93,
     trace := trace (after20 L) @ seg22 L,
     raised := raised (after20 L) @ excs22 L,
     cur_axes := NoFigure\<rparr>"
  by (simp add: after22_def cell22_def seg22_def excs22_def sem_defs after20_sel
        comp_dict comp_item hstack_replicate two)

lemma after22_sel:
  "nops (after22 L) = 93"
  "nfigs (after22 L) = 2"
  "cur_axes (after22 L) = NoFigure"
  "warn_filter (after22 L) = []"
  "library (after22 L) = L"
  "dry (after22 L)"
  "env (after22 L) v_classification_report = Some (VSym ''sklearn.metrics'' ''classification_report'')"
  "env (after22 L) v_colors = Some (VList (dict_values [(VInt 0, VStr ''r''), (VInt 1, VStr ''b''), (VInt 2, VStr ''g'')] (elems_of L (VAttr (VRef 15) ''target''))))"
  "env (after22 L) v_cv = Some (VSym ''sklearn'' ''cross_validation'')"
  "env (after22 L) v_diabetes = Some (VRef 17)"
  "env (after22 L) v_digits = Some (VRef 19)"
  "env (after22 L) v_iris = Some (VRef 15)"
  "env (after22 L) v_mse = Some (VSym ''sklearn.metrics'' ''mean_squared_error'')"
  "env (after22 L) v_np = Some (VMod ''numpy'')"
  "env (after22 L) v_plt = Some (VMod ''matplotlib.pyplot'')"
  "env (after22 L) v_r2_score = Some (VSym ''sklearn.metrics'' ''r2_score'')"
  by (simp_all add: after22 after20_sel)

lemma after22_log:
  "trace (after22 L) = trace (after20 L) @ seg22 L"
  "raised (after22 L) = raised (after20 L) @ excs22 L"
  by (simp_all add: after22)

lemma after24:
  "after24 L = (after22 L)\<lparr>
     cell := 24,
     env := (env (after22 L))
          (v_Ridge \<mapsto> VSym ''sklearn.linear_model'' ''Ridge'', v_model \<mapsto> VRef 94,
           v_expected \<mapsto> VAttr (VRef 17) ''target'', v_predicted \<mapsto> VRef 96),
     nops := 101,
     trace := trace (after22 L) @ seg24 L,
     raised := raised (after22 L) @ excs24 L,
     cur_axes := NoFigure\<rparr>"
  by (simp add: after24_def cell24_def seg24_def excs24_def sem_defs after22_sel
        comp_dict comp_item hstack_replicate two)

lemma after24_sel:
  "nops (after24 L) = 101"
  "nfigs (after24 L) = 2"
  "cur_axes (after24 L) = NoFigure"
  "warn_filter (after24 L) = []"
  "library (after24 L) = L"
  "dry (after24 L)"
  "env (after24 L) v_classification_report = Some (VSym ''sklearn.metrics'' ''classification_report'')"
  "env (after24 L) v_colors = Some (VList (dict_values [(VInt 0, VStr ''r''), (VInt 1, VStr ''b''), (VInt 2, VStr ''g'')] (elems_of L (VAttr (VRef 15) ''target''))))"
  "env (after24 L) v_cv = Some (VSym ''sklearn'' ''cross_validation'')"
  "env (after24 L) v_diabetes = Some (VRef 17)"
  "env (after24 L) v_digits = Some (VRef 19)"
  "env (after24 L) v_iris = Some (VRef 15)"
  "env (after24 L) v_mse = Some (VSym ''sklearn.metrics'' ''mean_squared_error'')"
  "env (after24 L) v_np = Some (VMod ''numpy'')"
  "env (after24 L) v_plt = Some (VMod ''matplotlib.pyplot'')"
  "env (after24 L) v_r2_score = Some (VSym ''sklearn.metrics'' ''r2_score'')"
  by (simp_all add: after24 after22_sel)

lemma after24_log:
  "trace (after24 L) = trace (after22 L) @ seg24 L"
  "raised (after24 L) = raised (after22 L) @ excs24 L"
  by (simp_all add: after24)

lemma after26:
  "after26 L = (after24 L)\<lparr>
     cell := 26,
     env := (env (after24 L))
          (v_Lasso \<mapsto> VSym ''sklearn.linear_model'' ''Lasso'', v_model \<mapsto> VRef 102,
           v_expected \<mapsto> VAttr (VRef 17) ''target'', v_predicted \<mapsto> VRef 104),
     nops := 109,
     trace := trace (after24 L) @ seg26 L,
     raised := raised (after24 L) @ excs26 L,
     cur_axes := NoFigure\<rparr>"
  by (simp add: after26_def cell26_def seg26_def excs26_def sem_defs after24_sel
        comp_dict comp_item hstack_replicate two)

lemma after26_sel:
  "nops (after26 L) = 109"
  "nfigs (after26 L) = 2"
  "cur_axes (after26 L) = NoFigure"
  "warn_filter (after26 L) = []"
  "library (after26 L) = L"
  "dry (after26 L)"
  "env (after26 L) v_classification_report = Some (VSym ''sklearn.metrics'' ''classification_report'')"
  "env (after26 L) v_colors = Some (VList (dict_values [(VInt 0, VStr ''r''), (VInt 1, VStr ''b''), (VInt 2, VStr ''g'')] (elems_of L (VAttr (VRef 15) ''target''))))"
  "env (after26 L) v_cv = Some (VSym ''sklearn'' ''cross_validation'')"
  "env (after26 L) v_digits = Some (VRef 19)"
  "env (after26 L) v_iris = Some (VRef 15)"
  "env (after26 L) v_np = Some (VMod ''numpy'')"
  "env (after26 L) v_plt = Some (VMod ''matplotlib.pyplot'')"
  by (simp_all add: after26 after24_sel)

lemma after26_log:
  "trace (after26 L) = trace (after24 L) @ seg26 L"
  "raised (after26 L) = raised (after24 L) @ excs26 L"
  by (simp_all add: after26)

lemma after29:
  "after29 L = (after26 L)\<lparr>
     cell := 29,
     env := (env (after26 L))
          (v_LogisticRegression \<mapsto> VSym ''sklearn.linear_model'' ''LogisticRegression'',
           v_splits \<mapsto> VRef 110, v_X_train \<mapsto> VItem (VRef 110) (VInt 0),
           v_X_test \<mapsto> VItem (VRef 110) (VInt 1),
           v_y_train \<mapsto> VItem (VRef 110) (VInt 2),
           v_y_test \<mapsto> VItem (VRef 110) (VInt 3), v_model \<mapsto> VRef 111,
           v_expected \<mapsto> VItem (VRef 110) (VInt 3), v_predicted \<mapsto> VRef 113),
     nops := 116,
     trace := trace (after26 L) @ seg29 L,
     raised := raised (after26 L) @ excs29 L,
     cur_axes := NoFigure\<rparr>"
  by (simp add: after29_def cell29_def seg29_def excs29_def sem_defs after26_sel
        comp_dict comp_item hstack_replicate two)

lemma after29_sel:
  "nops (after29 L) = 116"
  "nfigs (after29 L) = 2"
  "cur_axes (after29 L) = NoFigure"
  "warn_filter (after29 L) = []"
  "library (after29 L) = L"
  "dry (after29 L)"
  "env (after29 L) v_classification_report = Some (VSym ''sklearn.metrics'' ''classification_report'')"
  "env (after29 L) v_colors = Some (VList (dict_values [(VInt 0, VStr ''r''), (VInt 1, VStr ''b''), (VInt 2, VStr ''g'')] (elems_of L (VAttr (VRef 15) ''target''))))"
  "env (after29 L) v_cv = Some (VSym ''sklearn'' ''cross_validation'')"
  "env (after29 L) v_digits = Some (VRef 19)"
  "env (after29 L) v_iris = Some (VRef 15)"
  "env (after29 L) v_np = Some (VMod ''numpy'')"
  "env (after29 L) v_plt = Some (VMod ''matplotlib.pyplot'')"
  by (simp_all add: after29 after26_sel)

lemma after29_log:
  "trace (after29 L) = trace (after26 L) @ seg29 L"
  "raised (after29 L) = raised (after26 L) @ excs29 L"
  by (simp_all add: after29)

lemma after31:
  "after31 L = (after29 L)\<lparr>
     cell := 31,
     env := (env (after29 L))
          (v_LDA \<mapsto> VSym ''sklearn.lda'' ''LDA'', v_splits \<mapsto> VRef 117,
           v_X_train \<mapsto> VItem (VRef 117) (VInt 0),
           v_X_test \<mapsto> VItem (VRef 117) (VInt 1),
           v_y_train \<mapsto> VItem (VRef 117) (VInt 2),
           v_y_test \<mapsto> VItem (VRef 117) (VInt 3), v_model \<mapsto> VRef 118,
           v_expected \<mapsto> VItem (VRef 117) (VInt 3), v_predicted \<mapsto> VRef 120),
     nops := 123,
     trace := trace (after29 L) @ seg31 L,
     raised := raised (after29 L) @ excs31 L,
     cur_axes := NoFigure\<rparr>"
  by (simp add: after31_def cell31_def seg31_def excs31_def sem_defs after29_sel
        comp_dict comp_item hstack_replicate two)

lemma after31_sel:
  "nops (after31 L) = 123"
  "nfigs (after31 L) = 2"
  "cur_axes (after31 L) = NoFigure"
  "warn_filter (after31 L) = []"
  "library (after31 L) = L"
  "dry (after31 L)"
  "env (after31 L) v_classification_report = Some (VSym ''sklearn.metrics'' ''classification_report'')"
  "env (after31 L) v_colors = Some (VList (dict_values [(VInt 0, VStr ''r''), (VInt 1, VStr ''b''), (VInt 2, VStr ''g'')] (elems_of L (VAttr (VRef 15) ''target''))))"
  "env (after31 L) v_cv = Some (VSym ''sklearn'' ''cross_validation'')"
  "env (after31 L) v_digits = Some (VRef 19)"
  "env (after31 L) v_iris = Some (VRef 15)"
  "env (after31 L) v_np = Some (VMod ''numpy'')"
  "env (after31 L) v_plt = Some (VMod ''matplotlib.pyplot'')"
  by (simp_all add: after31 after29_sel)

lemma after31_log:
  "trace (after31 L) = trace (after29 L) @ seg31 L"
  "raised (after31 L) = raised (after29 L) @ excs31 L"
  by (simp_all add: after31)

lemma after33:
  "after33 L = (after31 L)\<lparr>
     cell := 33,
     env := (env (after31 L))
          (v_GaussianNB \<mapsto> VSym ''sklearn.naive_bayes'' ''GaussianNB'',
           v_splits \<mapsto> VRef 124, v_X_train \<mapsto> VItem (VRef 124) (VInt 0),
           v_X_test \<mapsto> VItem (VRef 124) (VInt 1),
           v_y_train \<mapsto> VItem (VRef 124) (VInt 2),
           v_y_test \<mapsto> VItem (VRef 124) (VInt 3), v_model \<mapsto> VRef 125,
           v_expected \<mapsto> VItem (VRef 124) (VInt 3), v_predicted \<mapsto> VRef 127),
     nops := 130,
     trace := trace (after31 L) @ seg33 L,
     raised := raised (after31 L) @ excs33 L,
     cur_axes := NoFigure\<rparr>"
  by (simp add: after33_def cell33_def seg33_def excs33_def sem_defs after31_sel
        comp_dict comp_item hstack_replicate two)

lemma after33_sel:
  "nops (after33 L) = 130"
  "nfigs (after33 L) = 2"
  "cur_axes (after33 L) = NoFigure"
  "warn_filter (after33 L) = []"
  "library (after33 L) = L"
  "dry (after33 L)"
  "env (after33 L) v_classification_report = Some (VSym ''sklearn.metrics'' ''classification_report'')"
  "env (after33 L) v_colors = Some (VList (dict_values [(VInt 0, VStr ''r''), (VInt 1, VStr ''b''), (VInt 2, VStr ''g'')] (elems_of L (VAttr (VRef 15) ''target''))))"
  "env (after33 L) v_cv = Some (VSym ''sklearn'' ''cross_validation'')"
  "env (after33 L) v_digits = Some (VRef 19)"
  "env (after33 L) v_iris = Some (VRef 15)"
  "env (after33 L) v_np = Some (VMod ''numpy'')"
  "env (after33 L) v_plt = Some (VMod ''matplotlib.pyplot'')"
  by (simp_all add: after33 after31_sel)

lemma after33_log:
  "trace (after33 L) = trace (after31 L) @ seg33 L"
  "raised (after33 L) = raised (after31 L) @ excs33 L"
  by (simp_all add: after33)

lemma after35:
  "after35 L = (after33 L)\<lparr>
     cell := 35,
     env := (env (after33 L))
          (v_KNeighborsClassifier \<mapsto> VSym ''sklearn.neighbors'' ''KNeighborsClassifier'',
           v_splits \<mapsto> VRef 131, v_X_train \<mapsto> VItem (VRef 131) (VInt 0),
           v_X_test \<mapsto> VItem (VRef 131) (VInt 1),
           v_y_train \<mapsto> VItem (VRef 131) (VInt 2),
           v_y_test \<mapsto> VItem (VRef 131) (VInt 3), v_model \<mapsto> VRef 132,
           v_expected \<mapsto> VItem (VRef 131) (VInt 3), v_predicted \<mapsto> VRef 134),
     nops := 137,
     trace := trace (after33 L) @ seg35 L,
     raised := raised (after33 L) @ excs35 L,
     cur_axes := NoFigure\<rparr>"
  by (simp add: after35_def cell35_def seg35_def excs35_def sem_defs after33_sel
        comp_dict comp_item hstack_replicate two)

lemma after35_sel:
  "nops (after35 L) = 137"
  "nfigs (after35 L) = 2"
  "cur_axes (after35 L) = NoFigure"
  "warn_filter (after35 L) = []"
  "library (after35 L) = L"
  "dry (after35 L)"
  "env (after35 L) v_classification_report = Some (VSym ''sklearn.metrics'' ''classification_report'')"
  "env (after35 L) v_colors = Some (VList (dict_values [(VInt 0, VStr ''r''), (VInt 1, VStr ''b''), (VInt 2, VStr ''g'')] (elems_of L (VAttr (VRef 15) ''target''))))"
  "env (after35 L) v_cv = Some (VSym ''sklearn'' ''cross_validation'')"
  "env (after35 L) v_digits = Some (VRef 19)"
  "env (after35 L) v_iris = Some (VRef 15)"
  "env (after35 L) v_np = Some (VMod ''numpy'')"
  "env (after35 L) v_plt = Some (VMod ''matplotlib.pyplot'')"
  by (simp_all add: after35 after33_sel)

lemma after35_log:
  "trace (after35 L) = trace (after33 L) @ seg35 L"
  "raised (after35 L) = raised (after33 L) @ excs35 L"
  by (simp_all add: after35)

lemma after37:
  "after37 L = (after35 L)\<lparr>
     cell := 37,
     env := (env (after35 L))
          (v_DecisionTreeClassifier \<mapsto> VSym ''sklearn.tree'' ''DecisionTreeClassifier'',
           v_splits \<mapsto> VRef 138, v_X_train \<mapsto> VItem (VRef 138) (VInt 0),
           v_X_test \<mapsto> VItem (VRef 138) (VInt 1),
           v_y_train \<mapsto> VItem (VRef 138) (VInt 2),
           v_y_test \<mapsto> VItem (VRef 138) (VInt 3), v_model \<mapsto> VRef 139,
           v_expected \<mapsto> VItem (VRef 138) (VInt 3), v_predicted \<mapsto> VRef 141),
     nops := 144,
     trace := trace (after35 L) @ seg37 L,
     raised := raised (after35 L) @ excs37 L,
     cur_axes := NoFigure\<rparr>"
  by (simp add: after37_def cell37_def seg37_def excs37_def sem_defs after35_sel
        comp_dict comp_item hstack_replicate two)

lemma after37_sel:
  "nops (after37 L) = 144"
  "nfigs (after37 L) = 2"
  "cur_axes (after37 L) = NoFigure"
  "warn_filter (after37 L) = []"
  "library (after37 L) = L"
  "dry (after37 L)"
  "env (after37 L) v_classification_report = Some (VSym ''sklearn.metrics'' ''classification_report'')"
  "env (after37 L) v_colors = Some (VList (dict_values [(VInt 0, VStr ''r''), (VInt 1, VStr ''b''), (VInt 2, VStr ''g'')] (elems_of L (VAttr (VRef 15) ''target''))))"
  "env (after37 L) v_cv = Some (VSym ''sklearn'' ''cross_validation'')"
  "env (after37 L) v_digits = Some (VRef 19)"
  "env (after37 L) v_np = Some (VMod ''numpy'')"
  "env (after37 L) v_plt = Some (VMod ''matplotlib.pyplot'')"
  by (simp_all add: after37 after35_sel)

lemma after37_log:
  "trace (after37 L) = trace (after35 L) @ seg37 L"
  "raised (after37 L) = raised (after35 L) @ excs37 L"
  by (simp_all add: after37)

lemma after39:
  "after39 L = (after37 L)\<lparr>
     cell := 39,
     env := (env (after37 L))
          (v_SVC \<mapsto> VSym ''sklearn.svm'' ''SVC'',
           v_kernels \<mapsto> VList [VStr ''linear'', VStr ''poly'', VStr ''rbf''],
           v_splits \<mapsto> VRef 145, v_X_train \<mapsto> VItem (VRef 145) (VInt 0),
           v_X_test \<mapsto> VItem (VRef 145) (VInt 1),
           v_y_train \<mapsto> VItem (VRef 145) (VInt 2),
           v_y_test \<mapsto> VItem (VRef 145) (VInt 3), v_kernel \<mapsto> VStr ''linear'',
           v_model \<mapsto> VRef 146, v_expected \<mapsto> VItem (VRef 145) (VInt 3),
           v_predicted \<mapsto> VRef 148, v_kernel \<mapsto> VStr ''poly'',
           v_model \<mapsto> VRef 151, v_expected \<mapsto> VItem (VRef 145) (VInt 3),
           v_predicted \<mapsto> VRef 153, v_kernel \<mapsto> VStr ''rbf'',
           v_model \<mapsto> VRef 156, v_expected \<mapsto> VItem (VRef 145) (VInt 3),
           v_predicted \<mapsto> VRef 158),
     nops := 161,
     trace := trace (after37 L) @ seg39 L,
     raised := raised (after37 L) @ excs39 L,
     cur_axes := NoFigure\<rparr>"
  by (simp add: after39_def cell39_def seg39_def excs39_def sem_defs after37_sel
        comp_dict comp_item hstack_replicate two)

lemma after39_sel:
  "nops (after39 L) = 161"
  "nfigs (after39 L) = 2"
  "cur_axes (after39 L) = NoFigure"
  "warn_filter (after39 L) = []"
  "library (after39 L) = L"
  "dry (after39 L)"
  "env (after39 L) v_classification_report = Some (VSym ''sklearn.metrics'' ''classification_report'')"
  "env (after39 L) v_colors = Some (VList (dict_values [(VInt 0, VStr ''r''), (VInt 1, VStr ''b''), (VInt 2, VStr ''g'')] (elems_of L (VAttr (VRef 15) ''target''))))"
  "env (after39 L) v_cv = Some (VSym ''sklearn'' ''cross_validation'')"
  "env (after39 L) v_digits = Some (VRef 19)"
  "env (after39 L) v_np = Some (VMod ''numpy'')"
  "env (after39 L) v_plt = Some (VMod ''matplotlib.pyplot'')"
  by (simp_all add: after39 after37_sel)

lemma after39_log:
  "trace (after39 L) = trace (after37 L) @ seg39 L"
  "raised (after39 L) = raised (after37 L) @ excs39 L"
  by (simp_all add: after39)

lemma after41:
  "after41 L = (after39 L)\<lparr>
     cell := 41,
     env := (env (after39 L))
          (v_RandomForestClassifier \<mapsto> VSym ''sklearn.ensemble'' ''RandomForestClassifier'',
           v_splits \<mapsto> VRef 162, v_X_train \<mapsto> VItem (VRef 162) (VInt 0),
           v_X_test \<mapsto> VItem (VRef 162) (VInt 1),
           v_y_train \<mapsto> VItem (VRef 162) (VInt 2),
           v_y_test \<mapsto> VItem (VRef 162) (VInt 3), v_model \<mapsto> VRef 163,
           v_expected \<mapsto> VItem (VRef 162) (VInt 3), v_predicted \<mapsto> VRef 165),
     nops := 168,
     trace := trace (after39 L) @ seg41 L,
     raised := raised (after39 L) @ excs41 L,
     cur_axes := NoFigure\<rparr>"
  by (simp add: after41_def cell41_def seg41_def excs41_def sem_defs after39_sel
        comp_dict comp_item hstack_replicate two)

lemma after41_sel:
  "nops (after41 L) = 168"
  "nfigs (after41 L) = 2"
  "cur_axes (after41 L) = NoFigure"
  "warn_filter (after41 L) = []"
  "library (after41 L) = L"
  "dry (after41 L)"
  "env (after41 L) v_colors = Some (VList (dict_values [(VInt 0, VStr ''r''), (VInt 1, VStr ''b''), (VInt 2, VStr ''g'')] (elems_of L (VAttr (VRef 15) ''target''))))"
  "env (after41 L) v_np = Some (VMod ''numpy'')"
  "env (after41 L) v_plt = Some (VMod ''matplotlib.pyplot'')"
  by (simp_all add: after41 after39_sel)

lemma after41_log:
  "trace (after41 L) = trace (after39 L) @ seg41 L"
  "raised (after41 L) = raised (after39 L) @ excs41 L"
  by (simp_all add: after41)

lemma after44:
  "after44 L = (after41 L)\<lparr>
     cell := 44,
     env := (env (after41 L))
          (v_make_circles \<mapsto> VSym ''sklearn.datasets'' ''make_circles'',
           v_make_moons \<mapsto> VSym ''sklearn.datasets'' ''make_moons'',
           v_make_blobs \<mapsto> VSym ''sklearn.datasets'' ''make_blobs'',
           v_StandardScaler \<mapsto> VSym ''sklearn.preprocessing'' ''StandardScaler'',
           v_N \<mapsto> VInt 1000,
           v_colors \<mapsto> VArr 172 ((map (\<lambda>c. VStr [c]) ''bgrcmykbgrcmykbgrcmykbgrcmyk'')),
           v_colors \<mapsto> VArr 173 palette, v_circles \<mapsto> VRef 174,
           v_moons \<mapsto> VRef 175, v_blobs \<mapsto> VRef 176,
           v_noise \<mapsto> VTuple [VRef 177, VNone], v_fig \<mapsto> VItem (VRef 178) (VInt 0),
           v_axe \<mapsto> VItem (VRef 178) (VInt 1), v_idx \<mapsto> VInt 0,
           v_dataset \<mapsto> VRef 174, v_X \<mapsto> VItem (VRef 174) (VInt 0),
           v_y \<mapsto> VItem (VRef 174) (VInt 1), v_X \<mapsto> VRef 180,
           v_idx \<mapsto> VInt 1, v_dataset \<mapsto> VRef 175,
           v_X \<mapsto> VItem (VRef 175) (VInt 0), v_y \<mapsto> VItem (VRef 175) (VInt 1),
           v_X \<mapsto> VRef 188, v_idx \<mapsto> VInt 2, v_dataset \<mapsto> VRef 176,
           v_X \<mapsto> VItem (VRef 176) (VInt 0), v_y \<mapsto> VItem (VRef 176) (VInt 1),
           v_X \<mapsto> VRef 196, v_idx \<mapsto> VInt 3,
           v_dataset \<mapsto> VTuple [VRef 177, VNone], v_X \<mapsto> VRef 177,
           v_y \<mapsto> VNone, v_X \<mapsto> VRef 204),
     nops := 212,
     trace := trace (after41 L) @ seg44 L,
     raised := raised (after41 L) @ excs44 L,
     nfigs := 3,
     cur_axes := NoFigure\<rparr>"
  by (simp add: after44_def cell44_def seg44_def excs44_def sem_defs after41_sel
        comp_dict comp_item hstack_replicate two palette_def)

lemma after44_sel:
  "nops (after44 L) = 212"
  "nfigs (after44 L) = 3"
  "cur_axes (after44 L) = NoFigure"
  "warn_filter (after44 L) = []"
  "library (after44 L) = L"
  "dry (after44 L)"
  "env (after44 L) v_StandardScaler = Some (VSym ''sklearn.preprocessing'' ''StandardScaler'')"
  "env (after44 L) v_blobs = Some (VRef 176)"
  "env (after44 L) v_circles = Some (VRef 174)"
  "env (after44 L) v_colors = Some (VArr 173 palette)"
  "env (after44 L) v_moons = Some (VRef 175)"
  "env (after44 L) v_noise = Some (VTuple [VRef 177, VNone])"
  "env (after44 L) v_plt = Some (VMod ''matplotlib.pyplot'')"
  by (simp_all add: after44 after41_sel palette_def)

lemma after44_log:
  "trace (after44 L) = trace (after41 L) @ seg44 L"
  "raised (after44 L) = raised (after41 L) @ excs44 L"
  by (simp_all add: after44)

lemma after46:
  "after46 L = (after44 L)\<lparr>
     cell := 46,
     env := (env (after44 L))
          (v_warnings \<mapsto> VMod ''warnings''),
     nops := 214,
     trace := trace (after44 L) @ seg46 L,
     raised := raised (after44 L) @ excs46 L,
     warn_filter := [VStr ''ignore''],
     cur_axes := NoFigure\<rparr>"
  by (simp add: after46_def cell46_def seg46_def excs46_def sem_defs after44_sel
        comp_dict comp_item hstack_replicate two)

lemma after46_sel:
  "nops (after46 L) = 214"
  "nfigs (after46 L) = 3"
  "cur_axes (after46 L) = NoFigure"
  "warn_filter (after46 L) = [VStr ''ignore'']"
  "library (after46 L) = L"
  "dry (after46 L)"
  "env (after46 L) v_StandardScaler = Some (VSym ''sklearn.preprocessing'' ''StandardScaler'')"
  "env (after46 L) v_blobs = Some (VRef 176)"
  "env (after46 L) v_circles = Some (VRef 174)"
  "env (after46 L) v_colors = Some (VArr 173 palette)"
  "env (after46 L) v_moons = Some (VRef 175)"
  "env (after46 L) v_noise = Some (VTuple [VRef 177, VNone])"
  "env (after46 L) v_plt = Some (VMod ''matplotlib.pyplot'')"
  by (simp_all add: after46 after44_sel)

lemma after46_log:
  "trace (after46 L) = trace (after44 L) @ seg46 L"
  "raised (after46 L) = raised (after44 L) @ excs46 L"
  by (simp_all add: after46)

lemma after47:
  "after47 L = (after46 L)\<lparr>
     cell := 47,
     env := (env (after46 L))
          (v_MiniBatchKMeans \<mapsto> VSym ''sklearn.cluster'' ''MiniBatchKMeans'',
           v_fig \<mapsto> VItem (VRef 215) (VInt 0), v_axe \<mapsto> VItem (VRef 215) (VInt 1),
           v_idx \<mapsto> VInt 0, v_dataset \<mapsto> VRef 174,
           v_X \<mapsto> VItem (VRef 174) (VInt 0), v_y \<mapsto> VItem (VRef 174) (VInt 1),
           v_X \<mapsto> VRef 217, v_model \<mapsto> VRef 218, v_predictions \<mapsto> VRef 220,
           v_centers \<mapsto> VAttr (VRef 218) ''cluster_centers_'',
           v_center_colors \<mapsto> VArr 173 (take (length (elems_of L (VAttr (VRef 218) ''cluster_centers_''))) palette),
           v_idx \<mapsto> VInt 1, v_dataset \<mapsto> VRef 175,
           v_X \<mapsto> VItem (VRef 175) (VInt 0), v_y \<mapsto> VItem (VRef 175) (VInt 1),
           v_X \<mapsto> VRef 230, v_model \<mapsto> VRef 231, v_predictions \<mapsto> VRef 233,
           v_centers \<mapsto> VAttr (VRef 231) ''cluster_centers_'',
           v_center_colors \<mapsto> VArr 173 (take (length (elems_of L (VAttr (VRef 231) ''cluster_centers_''))) palette),
           v_idx \<mapsto> VInt 2, v_dataset \<mapsto> VRef 176,
           v_X \<mapsto> VItem (VRef 176) (VInt 0), v_y \<mapsto> VItem (VRef 176) (VInt 1),
           v_X \<mapsto> VRef 243, v_model \<mapsto> VRef 244, v_predictions \<mapsto> VRef 246,
           v_centers \<mapsto> VAttr (VRef 244) ''cluster_centers_'',
           v_center_colors \<mapsto> VArr 173 (take (length (elems_of L (VAttr (VRef 244) ''cluster_centers_''))) palette),
           v_idx \<mapsto> VInt 3, v_dataset \<mapsto> VTuple [VRef 177, VNone],
           v_X \<mapsto> VRef 177, v_y \<mapsto> VNone, v_X \<mapsto> VRef 256,
           v_model \<mapsto> VRef 257, v_predictions \<mapsto> VRef 259,
           v_centers \<mapsto> VAttr (VRef 257) ''cluster_centers_'',
           v_center_colors \<mapsto> VArr 173 (take (length (elems_of L (VAttr (VRef 257) ''cluster_centers_''))) palette)),
     nops := 269,
     trace := trace (after46 L) @ seg47 L,
     raised := raised (after46 L) @ excs47 L,
     nfigs := 4,
     cur_axes := NoFigure\<rparr>"
  by (simp add: after47_def cell47_def seg47_def excs47_def sem_defs after46_sel
        comp_dict comp_item hstack_replicate two)

lemma after47_sel:
  "nops (after47 L) = 269"
  "nfigs (after47 L) = 4"
  "cur_axes (after47 L) = NoFigure"
  "warn_filter (after47 L) = [VStr ''ignore'']"
  "library (after47 L) = L"
  "dry (after47 L)"
  "env (after47 L) v_StandardScaler = Some (VSym ''sklearn.preprocessing'' ''StandardScaler'')"
  "env (after47 L) v_blobs = Some (VRef 176)"
  "env (after47 L) v_circles = Some (VRef 174)"
  "env (after47 L) v_colors = Some (VArr 173 palette)"
  "env (after47 L) v_moons = Some (VRef 175)"
  "env (after47 L) v_noise = Some (VTuple [VRef 177, VNone])"
  "env (after47 L) v_plt = Some (VMod ''matplotlib.pyplot'')"
  by (simp_all add: after47 after46_sel)

lemma after47_log:
  "trace (after47 L) = trace (after46 L) @ seg47 L"
  "raised (after47 L) = raised (after46 L) @ excs47 L"
  by (simp_all add: after47)

lemma after49:
  "after49 L = (after47 L)\<lparr>
     cell := 49,
     env := (env (after47 L))
          (v_AffinityPropagation \<mapsto> VSym ''sklearn.cluster'' ''AffinityPropagation'',
           v_fig \<mapsto> VItem (VRef 270) (VInt 0), v_axe \<mapsto> VItem (VRef 270) (VInt 1),
           v_idx \<mapsto> VInt 0, v_dataset \<mapsto> VRef 174,
           v_X \<mapsto> VItem (VRef 174) (VInt 0), v_y \<mapsto> VItem (VRef 174) (VInt 1),
           v_X \<mapsto> VRef 272, v_model \<mapsto> VRef 273, v_predictions \<mapsto> VRef 275,
           v_centers \<mapsto> VAttr (VRef 273) ''cluster_centers_'',
           v_center_colors \<mapsto> VArr 173 (take (length (elems_of L (VAttr (VRef 273) ''cluster_centers_''))) palette),
           v_idx \<mapsto> VInt 1, v_dataset \<mapsto> VRef 175,
           v_X \<mapsto> VItem (VRef 175) (VInt 0), v_y \<mapsto> VItem (VRef 175) (VInt 1),
           v_X \<mapsto> VRef 285, v_model \<mapsto> VRef 286, v_predictions \<mapsto> VRef 288,
           v_centers \<mapsto> VAttr (VRef 286) ''cluster_centers_'',
           v_center_colors \<mapsto> VArr 173 (take (length (elems_of L (VAttr (VRef 286) ''cluster_centers_''))) palette),
           v_idx \<mapsto> VInt 2, v_dataset \<mapsto> VRef 176,
           v_X \<mapsto> VItem (VRef 176) (VInt 0), v_y \<mapsto> VItem (VRef 176) (VInt 1),
           v_X \<mapsto> VRef 298, v_model \<mapsto> VRef 299, v_predictions \<mapsto> VRef 301,
           v_centers \<mapsto> VAttr (VRef 299) ''cluster_centers_'',
           v_center_colors \<mapsto> VArr 173 (take (length (elems_of L (VAttr (VRef 299) ''cluster_centers_''))) palette),
           v_idx \<mapsto> VInt 3, v_dataset \<mapsto> VTuple [VRef 177, VNone],
           v_X \<mapsto> VRef 177, v_y \<mapsto> VNone, v_X \<mapsto> VRef 311,
           v_model \<mapsto> VRef 312, v_predictions \<mapsto> VRef 314,
           v_centers \<mapsto> VAttr (VRef 312) ''cluster_centers_'',
           v_center_colors \<mapsto> VArr 173 (take (length (elems_of L (VAttr (VRef 312) ''cluster_centers_''))) palette)),
     nops := 324,
     trace := trace (after47 L) @ seg49 L,
     raised := raised (after47 L) @ excs49 L,
     nfigs := 5,
     cur_axes := NoFigure\<rparr>"
  by (simp add: after49_def cell49_def seg49_def excs49_def sem_defs after47_sel
        comp_dict comp_item hstack_replicate two)


lemma after49_log:
  "trace (after49 L) = trace (after47 L) @ seg49 L"
  "raised (after49 L) = raised (after47 L) @ excs49 L"
  by (simp_all add: after49)



lemmas seg_defs =
  seg2_def seg4_def seg5_def seg6_def seg7_def seg10_def seg12_def seg14_def seg16_def seg18_def
  seg20_def seg22_def seg24_def seg26_def seg29_def seg31_def seg33_def seg35_def seg37_def
  seg39_def seg41_def seg44_def seg46_def seg47_def seg49_def

lemmas excs_defs =
  excs2_def excs4_def excs5_def excs6_def excs7_def excs10_def excs12_def excs14_def excs16_def
  excs18_def excs20_def excs22_def excs24_def excs26_def excs29_def excs31_def excs33_def
  excs35_def excs37_def excs39_def excs41_def excs44_def excs46_def excs47_def excs49_def

lemmas after_defs =
  after0_def after2_def after4_def after5_def after6_def after7_def after10_def after12_def
  after14_def after16_def after18_def after20_def after22_def after24_def after26_def
  after29_def after31_def after33_def after35_def after37_def after39_def after41_def
  after44_def after46_def after47_def after49_def


lemmas after_logs =
  after2_log after4_log after5_log after6_log after7_log after10_log after12_log after14_log
  after16_log after18_log after20_log after22_log after24_log after26_log after29_log
  after31_log after33_log after35_log after37_log after39_log after41_log after44_log
  after46_log after47_log after49_log

lemma rehearsal_after: "rehearsal L = after49 L"
  by (simp only: rehearsal_def notebook_def cells_def seq.simps after_defs)


lemma rehearsal_trace:
  "trace (rehearsal L) =
     seg2 L @ seg4 L @ seg5 L @ seg6 L @ seg7 L @ seg10 L @ seg12 L @ seg14 L @ seg16 L @
     seg18 L @ seg20 L @ seg22 L @ seg24 L @ seg26 L @ seg29 L @ seg31 L @ seg33 L @
     seg35 L @ seg37 L @ seg39 L @ seg41 L @ seg44 L @ seg46 L @ seg47 L @ seg49 L"
  by (simp add: rehearsal_after after_logs after0_sel)

lemma rehearsal_raised:
  "raised (rehearsal L) =
     excs2 L @ excs4 L @ excs5 L @ excs6 L @ excs7 L @ excs10 L @ excs12 L @ excs14 L @
     excs16 L @ excs18 L @ excs20 L @ excs22 L @ excs24 L @ excs26 L @ excs29 L @
     excs31 L @ excs33 L @ excs35 L @ excs37 L @ excs39 L @ excs41 L @ excs44 L @
     excs46 L @ excs47 L @ excs49 L"
  by (simp add: rehearsal_after after_logs after0_sel)


section \<open>The claims\<close>








section \<open>The log, cell by cell\<close>

lemma cell_events_append: "cell_events c (xs @ ys) = cell_events c xs @ cell_events c ys"
  by (simp add: cell_events_def)

lemma cell_events_own:
  "list_all (\<lambda>e. ev_cell e = n) es \<Longrightarrow> cell_events c es = (if c = n then es else [])"
  by (induction es) (auto simp add: cell_events_def)

lemma calls_to_append: "calls_to fs (xs @ ys) = calls_to fs xs @ calls_to fs ys"
  by (simp add: calls_to_def)

lemma scored_append: "scored (xs @ ys) = scored xs @ scored ys"
  by (simp add: scored_def calls_to_append)

lemma upt_join: "i \<le> j \<Longrightarrow> j \<le> k \<Longrightarrow> [i..<j] @ [j..<k] = [i..<k]"
  by (metis le_Suc_ex upt_add_eq_append)

lemma seg_cells:
  "list_all (\<lambda>e. ev_cell e = 2) (seg2 L)"
  "list_all (\<lambda>e. ev_cell e = 4) (seg4 L)"
  "list_all (\<lambda>e. ev_cell e = 5) (seg5 L)"
  "list_all (\<lambda>e. ev_cell e = 6) (seg6 L)"
  "list_all (\<lambda>e. ev_cell e = 7) (seg7 L)"
  "list_all (\<lambda>e. ev_cell e = 10) (seg10 L)"
  "list_all (\<lambda>e. ev_cell e = 12) (seg12 L)"
  "list_all (\<lambda>e. ev_cell e = 14) (seg14 L)"
  "list_all (\<lambda>e. ev_cell e = 16) (seg16 L)"
  "list_all (\<lambda>e. ev_cell e = 18) (seg18 L)"
  "list_all (\<lambda>e. ev_cell e = 20) (seg20 L)"
  "list_all (\<lambda>e. ev_cell e = 22) (seg22 L)"
  "list_all (\<lambda>e. ev_cell e = 24) (seg24 L)"
  "list_all (\<lambda>e. ev_cell e = 26) (seg26 L)"
  "list_all (\<lambda>e. ev_cell e = 29) (seg29 L)"
  "list_all (\<lambda>e. ev_cell e = 31) (seg31 L)"
  "list_all (\<lambda>e. ev_cell e = 33) (seg33 L)"
  "list_all (\<lambda>e. ev_cell e = 35) (seg35 L)"
  "list_all (\<lambda>e. ev_cell e = 37) (seg37 L)"
  "list_all (\<lambda>e. ev_cell e = 39) (seg39 L)"
  "list_all (\<lambda>e. ev_cell e = 41) (seg41 L)"
  "list_all (\<lambda>e. ev_cell e = 44) (seg44 L)"
  "list_all (\<lambda>e. ev_cell e = 46) (seg46 L)"
  "list_all (\<lambda>e. ev_cell e = 47) (seg47 L)"
  "list_all (\<lambda>e. ev_cell e = 49) (seg49 L)"
  by (simp_all add: seg_defs)

lemma seg_ids:
  "map ev_id (seg2 L) = [0..<23]"
  "map ev_id (seg4 L) = [23..<28]"
  "map ev_id (seg5 L) = [28..<31]"
  "map ev_id (seg6 L) = [31..<33]"
  "map ev_id (seg7 L) = [33..<37]"
  "map ev_id (seg10 L) = [37..<45]"
  "map ev_id (seg12 L) = [45..<53]"
  "map ev_id (seg14 L) = [53..<61]"
  "map ev_id (seg16 L) = [61..<69]"
  "map ev_id (seg18 L) = [69..<77]"
  "map ev_id (seg20 L) = [77..<85]"
  "map ev_id (seg22 L) = [85..<93]"
  "map ev_id (seg24 L) = [93..<101]"
  "map ev_id (seg26 L) = [101..<109]"
  "map ev_id (seg29 L) = [109..<116]"
  "map ev_id (seg31 L) = [116..<123]"
  "map ev_id (seg33 L) = [123..<130]"
  "map ev_id (seg35 L) = [130..<137]"
  "map ev_id (seg37 L) = [137..<144]"
  "map ev_id (seg39 L) = [144..<161]"
  "map ev_id (seg41 L) = [161..<168]"
  "map ev_id (seg44 L) = [168..<212]"
  "map ev_id (seg46 L) = [212..<214]"
  "map ev_id (seg47 L) = [214..<269]"
  "map ev_id (seg49 L) = [269..<324]"
  by (simp_all add: seg_defs upt_rec)

lemma cell_events_seg:
  "cell_events c (seg2 L) = (if c = 2 then seg2 L else [])"
  "cell_events c (seg4 L) = (if c = 4 then seg4 L else [])"
  "cell_events c (seg5 L) = (if c = 5 then seg5 L else [])"
  "cell_events c (seg6 L) = (if c = 6 then seg6 L else [])"
  "cell_events c (seg7 L) = (if c = 7 then seg7 L else [])"
  "cell_events c (seg10 L) = (if c = 10 then seg10 L else [])"
  "cell_events c (seg12 L) = (if c = 12 then seg12 L else [])"
  "cell_events c (seg14 L) = (if c = 14 then seg14 L else [])"
  "cell_events c (seg16 L) = (if c = 16 then seg16 L else [])"
  "cell_events c (seg18 L) = (if c = 18 then seg18 L else [])"
  "cell_events c (seg20 L) = (if c = 20 then seg20 L else [])"
  "cell_events c (seg22 L) = (if c = 22 then seg22 L else [])"
  "cell_events c (seg24 L) = (if c = 24 then seg24 L else [])"
  "cell_events c (seg26 L) = (if c = 26 then seg26 L else [])"
  "cell_events c (seg29 L) = (if c = 29 then seg29 L else [])"
  "cell_events c (seg31 L) = (if c = 31 then seg31 L else [])"
  "cell_events c (seg33 L) = (if c = 33 then seg33 L else [])"
  "cell_events c (seg35 L) = (if c = 35 then seg35 L else [])"
  "cell_events c (seg37 L) = (if c = 37 then seg37 L else [])"
  "cell_events c (seg39 L) = (if c = 39 then seg39 L else [])"
  "cell_events c (seg41 L) = (if c = 41 then seg41 L else [])"
  "cell_events c (seg44 L) = (if c = 44 then seg44 L else [])"
  "cell_events c (seg46 L) = (if c = 46 then seg46 L else [])"
  "cell_events c (seg47 L) = (if c = 47 then seg47 L else [])"
  "cell_events c (seg49 L) = (if c = 49 then seg49 L else [])"
  by (rule cell_events_own, rule seg_cells)+

lemma cell_log:
  "cell_events 2 (trace (rehearsal L)) = seg2 L"
  "cell_events 4 (trace (rehearsal L)) = seg4 L"
  "cell_events 5 (trace (rehearsal L)) = seg5 L"
  "cell_events 6 (trace (rehearsal L)) = seg6 L"
  "cell_events 7 (trace (rehearsal L)) = seg7 L"
  "cell_events 10 (trace (rehearsal L)) = seg10 L"
  "cell_events 12 (trace (rehearsal L)) = seg12 L"
  "cell_events 14 (trace (rehearsal L)) = seg14 L"
  "cell_events 16 (trace (rehearsal L)) = seg16 L"
  "cell_events 18 (trace (rehearsal L)) = seg18 L"
  "cell_events 20 (trace (rehearsal L)) = seg20 L"
  "cell_events 22 (trace (rehearsal L)) = seg22 L"
  "cell_events 24 (trace (rehearsal L)) = seg24 L"
  "cell_events 26 (trace (rehearsal L)) = seg26 L"
  "cell_events 29 (trace (rehearsal L)) = seg29 L"
  "cell_events 31 (trace (rehearsal L)) = seg31 L"
  "cell_events 33 (trace (rehearsal L)) = seg33 L"
  "cell_events 35 (trace (rehearsal L)) = seg35 L"
  "cell_events 37 (trace (rehearsal L)) = seg37 L"
  "cell_events 39 (trace (rehearsal L)) = seg39 L"
  "cell_events 41 (trace (rehearsal L)) = seg41 L"
  "cell_events 44 (trace (rehearsal L)) = seg44 L"
  "cell_events 46 (trace (rehearsal L)) = seg46 L"
  "cell_events 47 (trace (rehearsal L)) = seg47 L"
  "cell_events 49 (trace (rehearsal L)) = seg49 L"
  by (simp_all add: rehearsal_trace cell_events_append cell_events_seg)

lemma rehearsal_ids: "map ev_id (trace (rehearsal L)) = [0..<324]"
  by (simp add: rehearsal_trace seg_ids upt_join del: upt_rec_numeral)

section \<open>C2: what a cell does with its estimators\<close>




section \<open>C3: fit, then predict, then score\<close>

lemma order_segs:
  "fit_first [] (seg2 L) \<and> scored_from [] (seg2 L)"
  "fit_first [] (seg4 L) \<and> scored_from [] (seg4 L)"
  "fit_first [] (seg5 L) \<and> scored_from [] (seg5 L)"
  "fit_first [] (seg6 L) \<and> scored_from [] (seg6 L)"
  "fit_first [] (seg7 L) \<and> scored_from [] (seg7 L)"
  "fit_first [] (seg10 L) \<and> scored_from [] (seg10 L)"
  "fit_first [] (seg12 L) \<and> scored_from [] (seg12 L)"
  "fit_first [] (seg14 L) \<and> scored_from [] (seg14 L)"
  "fit_first [] (seg16 L) \<and> scored_from [] (seg16 L)"
  "fit_first [] (seg18 L) \<and> scored_from [] (seg18 L)"
  "fit_first [] (seg20 L) \<and> scored_from [] (seg20 L)"
  "fit_first [] (seg22 L) \<and> scored_from [] (seg22 L)"
  "fit_first [] (seg24 L) \<and> scored_from [] (seg24 L)"
  "fit_first [] (seg26 L) \<and> scored_from [] (seg26 L)"
  "fit_first [] (seg29 L) \<and> scored_from [] (seg29 L)"
  "fit_first [] (seg31 L) \<and> scored_from [] (seg31 L)"
  "fit_first [] (seg33 L) \<and> scored_from [] (seg33 L)"
  "fit_first [] (seg35 L) \<and> scored_from [] (seg35 L)"
  "fit_first [] (seg37 L) \<and> scored_from [] (seg37 L)"
  "fit_first [] (seg39 L) \<and> scored_from [] (seg39 L)"
  "fit_first [] (seg41 L) \<and> scored_from [] (seg41 L)"
  "fit_first [] (seg44 L) \<and> scored_from [] (seg44 L)"
  "fit_first [] (seg46 L) \<and> scored_from [] (seg46 L)"
  "fit_first [] (seg47 L) \<and> scored_from [] (seg47 L)"
  "fit_first [] (seg49 L) \<and> scored_from [] (seg49 L)"
  by (simp_all add: seg_defs calls_to_def metrics_def predicted_def result_of_def)

lemma predictions_segs:
  "predictions (seg2 L) = []"
  "predictions (seg4 L) = []"
  "predictions (seg5 L) = []"
  "predictions (seg6 L) = []"
  "predictions (seg7 L) = []"
  "predictions (seg10 L) = [VRef 40]"
  "predictions (seg12 L) = [VRef 48]"
  "predictions (seg14 L) = [VRef 56]"
  "predictions (seg16 L) = [VRef 64]"
  "predictions (seg18 L) = [VRef 72]"
  "predictions (seg20 L) = [VRef 80]"
  "predictions (seg22 L) = [VRef 88]"
  "predictions (seg24 L) = [VRef 96]"
  "predictions (seg26 L) = [VRef 104]"
  "predictions (seg29 L) = [VRef 113]"
  "predictions (seg31 L) = [VRef 120]"
  "predictions (seg33 L) = [VRef 127]"
  "predictions (seg35 L) = [VRef 134]"
  "predictions (seg37 L) = [VRef 141]"
  "predictions (seg39 L) = [VRef 148, VRef 153, VRef 158]"
  "predictions (seg41 L) = [VRef 165]"
  "predictions (seg44 L) = []"
  "predictions (seg46 L) = []"
  "predictions (seg47 L) = [VRef 220, VRef 233, VRef 246, VRef 259]"
  "predictions (seg49 L) = [VRef 275, VRef 288, VRef 301, VRef 314]"
  by (simp_all add: seg_defs predictions_def calls_of_def result_of_def)

lemma scored_segs:
  "scored (seg2 L) = []"
  "scored (seg4 L) = []"
  "scored (seg5 L) = []"
  "scored (seg6 L) = []"
  "scored (seg7 L) = []"
  "scored (seg10 L) = [VRef 40, VRef 40]"
  "scored (seg12 L) = [VRef 48, VRef 48]"
  "scored (seg14 L) = [VRef 56, VRef 56]"
  "scored (seg16 L) = [VRef 64, VRef 64]"
  "scored (seg18 L) = [VRef 72, VRef 72]"
  "scored (seg20 L) = [VRef 80, VRef 80]"
  "scored (seg22 L) = [VRef 88, VRef 88]"
  "scored (seg24 L) = [VRef 96, VRef 96]"
  "scored (seg26 L) = [VRef 104, VRef 104]"
  "scored (seg29 L) = [VRef 113]"
  "scored (seg31 L) = [VRef 120]"
  "scored (seg33 L) = [VRef 127]"
  "scored (seg35 L) = [VRef 134]"
  "scored (seg37 L) = [VRef 141]"
  "scored (seg39 L) = [VRef 148, VRef 153, VRef 158]"
  "scored (seg41 L) = [VRef 165]"
  "scored (seg44 L) = []"
  "scored (seg46 L) = []"
  "scored (seg47 L) = []"
  "scored (seg49 L) = []"
  by (simp_all add: seg_defs scored_def calls_to_def metrics_def)

lemma metric_segs:
  "map callee (calls_to metrics (seg2 L)) = []"
  "map callee (calls_to metrics (seg4 L)) = []"
  "map callee (calls_to metrics (seg5 L)) = []"
  "map callee (calls_to metrics (seg6 L)) = []"
  "map callee (calls_to metrics (seg7 L)) = []"
  "map callee (calls_to metrics (seg10 L)) = [Some (VSym ''sklearn.metrics'' ''mean_squared_error''), Some (VSym ''sklearn.metrics'' ''r2_score'')]"
  "map callee (calls_to metrics (seg12 L)) = [Some (VSym ''sklearn.metrics'' ''mean_squared_error''), Some (VSym ''sklearn.metrics'' ''r2_score'')]"
  "map callee (calls_to metrics (seg14 L)) = [Some (VSym ''sklearn.metrics'' ''mean_squared_error''), Some (VSym ''sklearn.metrics'' ''r2_score'')]"
  "map callee (calls_to metrics (seg16 L)) = [Some (VSym ''sklearn.metrics'' ''mean_squared_error''), Some (VSym ''sklearn.metrics'' ''r2_score'')]"
  "map callee (calls_to metrics (seg18 L)) = [Some (VSym ''sklearn.metrics'' ''mean_squared_error''), Some (VSym ''sklearn.metrics'' ''r2_score'')]"
  "map callee (calls_to metrics (seg20 L)) = [Some (VSym ''sklearn.metrics'' ''mean_squared_error''), Some (VSym ''sklearn.metrics'' ''r2_score'')]"
  "map callee (calls_to metrics (seg22 L)) = [Some (VSym ''sklearn.metrics'' ''mean_squared_error''), Some (VSym ''sklearn.metrics'' ''r2_score'')]"
  "map callee (calls_to metrics (seg24 L)) = [Some (VSym ''sklearn.metrics'' ''mean_squared_error''), Some (VSym ''sklearn.metrics'' ''r2_score'')]"
  "map callee (calls_to metrics (seg26 L)) = [Some (VSym ''sklearn.metrics'' ''mean_squared_error''), Some (VSym ''sklearn.metrics'' ''r2_score'')]"
  "map callee (calls_to metrics (seg29 L)) = [Some (VSym ''sklearn.metrics'' ''classification_report'')]"
  "map callee (calls_to metrics (seg31 L)) = [Some (VSym ''sklearn.metrics'' ''classification_report'')]"
  "map callee (calls_to metrics (seg33 L)) = [Some (VSym ''sklearn.metrics'' ''classification_report'')]"
  "map callee (calls_to metrics (seg35 L)) = [Some (VSym ''sklearn.metrics'' ''classification_report'')]"
  "map callee (calls_to metrics (seg37 L)) = [Some (VSym ''sklearn.metrics'' ''classification_report'')]"
  "map callee (calls_to metrics (seg39 L)) = [Some (VSym ''sklearn.metrics'' ''classification_report''), Some (VSym ''sklearn.metrics'' ''classification_report''), Some (VSym ''sklearn.metrics'' ''classification_report'')]"
  "map callee (calls_to metrics (seg41 L)) = [Some (VSym ''sklearn.metrics'' ''classification_report'')]"
  "map callee (calls_to metrics (seg44 L)) = []"
  "map callee (calls_to metrics (seg46 L)) = []"
  "map callee (calls_to metrics (seg47 L)) = []"
  "map callee (calls_to metrics (seg49 L)) = []"
  by (simp_all add: seg_defs calls_to_def metrics_def)

text \<open>
  Claim C3, amended. In every code cell, every \<^verbatim>\<open>predict\<close> is called on an object whose \<^verbatim>\<open>fit\<close> was
  called earlier in the same cell, and every metric is computed from the output of a \<^verbatim>\<open>predict\<close>
  called earlier in the same cell. In the regression and classification cells every output of
  \<^verbatim>\<open>predict\<close> is scored by a metric. The two clustering cells call \<^verbatim>\<open>predict\<close> four times each and
  no metric: no score follows their predictions.
\<close>

theorem C3_fit_predict_score:
  "list_all (\<lambda>c. fit_first [] (cell_events c (trace (rehearsal L)))
                \<and> scored_from [] (cell_events c (trace (rehearsal L)))) code_cells
   \<and> list_all (\<lambda>c. predictions (cell_events c (trace (rehearsal L))) \<noteq> []
                \<and> set (predictions (cell_events c (trace (rehearsal L))))
                    = set (scored (cell_events c (trace (rehearsal L)))))
        (regression_cells @ classification_cells)
   \<and> list_all (\<lambda>c. length (predictions (cell_events c (trace (rehearsal L)))) = 4
                \<and> calls_to metrics (cell_events c (trace (rehearsal L))) = [])
        clustering_cells"
proof -
  have a: "list_all (\<lambda>c. fit_first [] (cell_events c (trace (rehearsal L)))
                \<and> scored_from [] (cell_events c (trace (rehearsal L)))) code_cells"
    by (simp add: code_cells_def cell_log order_segs)
  have b: "list_all (\<lambda>c. predictions (cell_events c (trace (rehearsal L))) \<noteq> []
                \<and> set (predictions (cell_events c (trace (rehearsal L))))
                    = set (scored (cell_events c (trace (rehearsal L)))))
        (regression_cells @ classification_cells)"
    by (simp add: regression_cells_def classification_cells_def cell_log predictions_segs
        scored_segs)
  have c: "list_all (\<lambda>c. length (predictions (cell_events c (trace (rehearsal L)))) = 4
                \<and> calls_to metrics (cell_events c (trace (rehearsal L))) = [])
        clustering_cells"
    using metric_segs [of L]
    by (simp add: clustering_cells_def cell_log predictions_segs)
  from a b c show ?thesis by blast
qed

text \<open>
  The sentence of the spec fails at the first model of the cell at position 47: the output of
  its \<^verbatim>\<open>predict\<close> is the result of operation 220, and no metric of the notebook is computed
  from it.
\<close>

theorem C3_prediction_without_score:
  "VRef 220 \<in> set (predictions (cell_events 47 (trace (rehearsal quiet))))
   \<and> VRef 220 \<notin> set (scored (trace (rehearsal quiet)))"
proof -
  have "VRef 220 \<in> set (predictions (cell_events 47 (trace (rehearsal quiet))))"
    by (simp add: cell_log predictions_segs)
  moreover have "VRef 220 \<notin> set (scored (trace (rehearsal quiet)))"
    by (simp add: rehearsal_trace scored_append scored_segs)
  ultimately show ?thesis by blast
qed

section \<open>C4: training scores and held-out scores\<close>

lemma training_segs:
  "on_training_data (VRef 17) (seg10 L)"
  "on_training_data (VRef 17) (seg12 L)"
  "on_training_data (VRef 17) (seg14 L)"
  "on_training_data (VRef 17) (seg16 L)"
  "on_training_data (VRef 17) (seg18 L)"
  "on_training_data (VRef 17) (seg20 L)"
  "on_training_data (VRef 17) (seg22 L)"
  "on_training_data (VRef 17) (seg24 L)"
  "on_training_data (VRef 17) (seg26 L)"
  by (simp_all add: seg_defs on_training_data_def trained_and_scored_def calls_of_def calls_to_def
      metrics_def)

lemma held_out_segs:
  "on_held_out (splits (seg29 L)) (seg29 L)"
  "on_held_out (splits (seg31 L)) (seg31 L)"
  "on_held_out (splits (seg33 L)) (seg33 L)"
  "on_held_out (splits (seg35 L)) (seg35 L)"
  "on_held_out (splits (seg37 L)) (seg37 L)"
  "on_held_out (splits (seg39 L)) (seg39 L)"
  "on_held_out (splits (seg41 L)) (seg41 L)"
  by (simp_all add: seg_defs splits_def trained_and_scored_def calls_of_def calls_to_def
      metrics_def result_of_def)

lemma diabetes_segs:
  "map callee (filter (\<lambda>e. ev_id e = 17) (seg2 L)) = [Some (VSym ''sklearn.datasets'' ''load_diabetes'')]"
  "map callee (filter (\<lambda>e. ev_id e = 17) (seg4 L)) = []"
  "map callee (filter (\<lambda>e. ev_id e = 17) (seg5 L)) = []"
  "map callee (filter (\<lambda>e. ev_id e = 17) (seg6 L)) = []"
  "map callee (filter (\<lambda>e. ev_id e = 17) (seg7 L)) = []"
  "map callee (filter (\<lambda>e. ev_id e = 17) (seg10 L)) = []"
  "map callee (filter (\<lambda>e. ev_id e = 17) (seg12 L)) = []"
  "map callee (filter (\<lambda>e. ev_id e = 17) (seg14 L)) = []"
  "map callee (filter (\<lambda>e. ev_id e = 17) (seg16 L)) = []"
  "map callee (filter (\<lambda>e. ev_id e = 17) (seg18 L)) = []"
  "map callee (filter (\<lambda>e. ev_id e = 17) (seg20 L)) = []"
  "map callee (filter (\<lambda>e. ev_id e = 17) (seg22 L)) = []"
  "map callee (filter (\<lambda>e. ev_id e = 17) (seg24 L)) = []"
  "map callee (filter (\<lambda>e. ev_id e = 17) (seg26 L)) = []"
  "map callee (filter (\<lambda>e. ev_id e = 17) (seg29 L)) = []"
  "map callee (filter (\<lambda>e. ev_id e = 17) (seg31 L)) = []"
  "map callee (filter (\<lambda>e. ev_id e = 17) (seg33 L)) = []"
  "map callee (filter (\<lambda>e. ev_id e = 17) (seg35 L)) = []"
  "map callee (filter (\<lambda>e. ev_id e = 17) (seg37 L)) = []"
  "map callee (filter (\<lambda>e. ev_id e = 17) (seg39 L)) = []"
  "map callee (filter (\<lambda>e. ev_id e = 17) (seg41 L)) = []"
  "map callee (filter (\<lambda>e. ev_id e = 17) (seg44 L)) = []"
  "map callee (filter (\<lambda>e. ev_id e = 17) (seg46 L)) = []"
  "map callee (filter (\<lambda>e. ev_id e = 17) (seg47 L)) = []"
  "map callee (filter (\<lambda>e. ev_id e = 17) (seg49 L)) = []"
  by (simp_all add: seg_defs)

text \<open>
  Claim C4. The cells that compute a mean squared error or an \<open>R\<^sup>2\<close> are the nine regression
  cells; in each of them \<^verbatim>\<open>fit\<close> is called on the data and the target of the object that
  \<^verbatim>\<open>load_diabetes\<close> returned (operation 17), \<^verbatim>\<open>predict\<close> on the same data, and both metrics
  compare the prediction with the same target. The cells that compute a classification report
  are the seven classification cells; each of them calls \<^verbatim>\<open>train_test_split\<close> once, on the data
  and the target of a dataset and with \<^verbatim>\<open>test_size=0.2\<close>, fits on the first and third part of
  the result, predicts on the second, and compares the prediction with the fourth.
\<close>

theorem C4_training_and_held_out_scores:
  "filter (\<lambda>c. calls_to [VSym ''sklearn.metrics'' ''mean_squared_error'',
                          VSym ''sklearn.metrics'' ''r2_score'']
                  (cell_events c (trace (rehearsal L))) \<noteq> []) code_cells = regression_cells
   \<and> length regression_cells = 9
   \<and> map callee (filter (\<lambda>e. ev_id e = 17) (trace (rehearsal L)))
       = [Some (VSym ''sklearn.datasets'' ''load_diabetes'')]
   \<and> list_all (\<lambda>c. on_training_data (VRef 17) (cell_events c (trace (rehearsal L))))
        regression_cells
   \<and> filter (\<lambda>c. calls_to [VSym ''sklearn.metrics'' ''classification_report'']
                  (cell_events c (trace (rehearsal L))) \<noteq> []) code_cells = classification_cells
   \<and> list_all (\<lambda>c. on_held_out (splits (cell_events c (trace (rehearsal L))))
                                 (cell_events c (trace (rehearsal L))))
        classification_cells"
proof -
  have a: "filter (\<lambda>c. calls_to [VSym ''sklearn.metrics'' ''mean_squared_error'',
                          VSym ''sklearn.metrics'' ''r2_score'']
                  (cell_events c (trace (rehearsal L))) \<noteq> []) code_cells = regression_cells"
    by (simp add: code_cells_def regression_cells_def cell_log seg_defs calls_to_def)
  have b: "map callee (filter (\<lambda>e. ev_id e = 17) (trace (rehearsal L)))
       = [Some (VSym ''sklearn.datasets'' ''load_diabetes'')]"
    by (simp add: rehearsal_trace diabetes_segs)
  have c: "list_all (\<lambda>c. on_training_data (VRef 17) (cell_events c (trace (rehearsal L))))
        regression_cells"
    by (simp add: regression_cells_def cell_log training_segs)
  have d: "filter (\<lambda>c. calls_to [VSym ''sklearn.metrics'' ''classification_report'']
                  (cell_events c (trace (rehearsal L))) \<noteq> []) code_cells = classification_cells"
    by (simp add: code_cells_def classification_cells_def cell_log seg_defs calls_to_def)
  have e: "list_all (\<lambda>c. on_held_out (splits (cell_events c (trace (rehearsal L))))
                                 (cell_events c (trace (rehearsal L))))
        classification_cells"
    by (simp add: classification_cells_def cell_log held_out_segs)
  have f: "length regression_cells = 9"
    by (simp add: regression_cells_def)
  from a b c d e f show ?thesis by blast
qed

section \<open>C5: what the cells share\<close>






section \<open>C7: every call is a call of a library\<close>

lemma delegated_segs:
  "list_all (\<lambda>e. delegated e \<or> is_filterwarnings e) (seg2 L)"
  "list_all (\<lambda>e. delegated e \<or> is_filterwarnings e) (seg4 L)"
  "list_all (\<lambda>e. delegated e \<or> is_filterwarnings e) (seg5 L)"
  "list_all (\<lambda>e. delegated e \<or> is_filterwarnings e) (seg6 L)"
  "list_all (\<lambda>e. delegated e \<or> is_filterwarnings e) (seg7 L)"
  "list_all (\<lambda>e. delegated e \<or> is_filterwarnings e) (seg10 L)"
  "list_all (\<lambda>e. delegated e \<or> is_filterwarnings e) (seg12 L)"
  "list_all (\<lambda>e. delegated e \<or> is_filterwarnings e) (seg14 L)"
  "list_all (\<lambda>e. delegated e \<or> is_filterwarnings e) (seg16 L)"
  "list_all (\<lambda>e. delegated e \<or> is_filterwarnings e) (seg18 L)"
  "list_all (\<lambda>e. delegated e \<or> is_filterwarnings e) (seg20 L)"
  "list_all (\<lambda>e. delegated e \<or> is_filterwarnings e) (seg22 L)"
  "list_all (\<lambda>e. delegated e \<or> is_filterwarnings e) (seg24 L)"
  "list_all (\<lambda>e. delegated e \<or> is_filterwarnings e) (seg26 L)"
  "list_all (\<lambda>e. delegated e \<or> is_filterwarnings e) (seg29 L)"
  "list_all (\<lambda>e. delegated e \<or> is_filterwarnings e) (seg31 L)"
  "list_all (\<lambda>e. delegated e \<or> is_filterwarnings e) (seg33 L)"
  "list_all (\<lambda>e. delegated e \<or> is_filterwarnings e) (seg35 L)"
  "list_all (\<lambda>e. delegated e \<or> is_filterwarnings e) (seg37 L)"
  "list_all (\<lambda>e. delegated e \<or> is_filterwarnings e) (seg39 L)"
  "list_all (\<lambda>e. delegated e \<or> is_filterwarnings e) (seg41 L)"
  "list_all (\<lambda>e. delegated e \<or> is_filterwarnings e) (seg44 L)"
  "list_all (\<lambda>e. delegated e \<or> is_filterwarnings e) (seg46 L)"
  "list_all (\<lambda>e. delegated e \<or> is_filterwarnings e) (seg47 L)"
  "list_all (\<lambda>e. delegated e \<or> is_filterwarnings e) (seg49 L)"
  by (simp_all add: seg_defs delegated_def is_filterwarnings_def package_def libraries_def)

lemma import_segs:
  "map package (concat (map imported_from (seg2 L))) = [''time'', ''numpy'', ''matplotlib'', ''sklearn'', ''sklearn'', ''sklearn'', ''sklearn'',
       ''sklearn'', ''sklearn'', ''sklearn'', ''sklearn'', ''sklearn'']"
  "map package (concat (map imported_from (seg4 L))) = [''pandas'', ''pandas'']"
  "map package (concat (map imported_from (seg5 L))) = []"
  "map package (concat (map imported_from (seg6 L))) = []"
  "map package (concat (map imported_from (seg7 L))) = [''random'']"
  "map package (concat (map imported_from (seg10 L))) = [''sklearn'']"
  "map package (concat (map imported_from (seg12 L))) = [''sklearn'']"
  "map package (concat (map imported_from (seg14 L))) = [''sklearn'']"
  "map package (concat (map imported_from (seg16 L))) = [''sklearn'']"
  "map package (concat (map imported_from (seg18 L))) = [''sklearn'']"
  "map package (concat (map imported_from (seg20 L))) = [''sklearn'']"
  "map package (concat (map imported_from (seg22 L))) = [''sklearn'']"
  "map package (concat (map imported_from (seg24 L))) = [''sklearn'']"
  "map package (concat (map imported_from (seg26 L))) = [''sklearn'']"
  "map package (concat (map imported_from (seg29 L))) = [''sklearn'']"
  "map package (concat (map imported_from (seg31 L))) = [''sklearn'']"
  "map package (concat (map imported_from (seg33 L))) = [''sklearn'']"
  "map package (concat (map imported_from (seg35 L))) = [''sklearn'']"
  "map package (concat (map imported_from (seg37 L))) = [''sklearn'']"
  "map package (concat (map imported_from (seg39 L))) = [''sklearn'']"
  "map package (concat (map imported_from (seg41 L))) = [''sklearn'']"
  "map package (concat (map imported_from (seg44 L))) = [''sklearn'', ''sklearn'', ''sklearn'', ''sklearn'']"
  "map package (concat (map imported_from (seg46 L))) = [''warnings'']"
  "map package (concat (map imported_from (seg47 L))) = [''sklearn'']"
  "map package (concat (map imported_from (seg49 L))) = [''sklearn'']"
  by (simp_all add: seg_defs package_def)

text \<open>
  Claim C7. The operations of the notebook are numbered from 0 in the order in which they
  happen. The callee of every call is a module or a symbol of scikit-learn, pandas, matplotlib
  or numpy, or an object that an earlier operation returned, or an attribute of one of these;
  the one exception is the call of \<^verbatim>\<open>warnings.filterwarnings\<close>, which is a call of the standard
  library. The modules that the notebook imports belong to the four packages and to the
  standard library (\<^verbatim>\<open>time\<close>, \<^verbatim>\<open>random\<close>, \<^verbatim>\<open>warnings\<close>). The cells are built from imports,
  assignments, calls, prints and loops alone: no statement of the notebook defines a function
  or a class.
\<close>

theorem C7_calls_are_library_calls:
  "map ev_id (trace (rehearsal L)) = [0..<324]
   \<and> list_all (\<lambda>e. delegated e \<or> is_filterwarnings e) (trace (rehearsal L))
   \<and> remdups (map package (concat (map imported_from (trace (rehearsal L))))) =
       [''time'', ''numpy'', ''matplotlib'', ''pandas'', ''random'', ''warnings'', ''sklearn'']"
proof -
  have a: "list_all (\<lambda>e. delegated e \<or> is_filterwarnings e) (trace (rehearsal L))"
    by (simp add: rehearsal_trace delegated_segs)
  have b: "remdups (map package (concat (map imported_from (trace (rehearsal L))))) =
       [''time'', ''numpy'', ''matplotlib'', ''pandas'', ''random'', ''warnings'', ''sklearn'']"
    by (simp add: rehearsal_trace import_segs)
  from a b rehearsal_ids [of L] show ?thesis by blast
qed

section \<open>C8: the labels and the colours\<close>







section \<open>C9: where the cluster centres are drawn\<close>

lemma plot_segs:
  "plot_steps (seg47 L) =
     [Centres (WholeFigure 4), Select [VInt 1, VInt 4, VInt 1], Points (GridCell 4 1 4 1),
      Centres (GridCell 4 1 4 1), Select [VInt 1, VInt 4, VInt 2], Points (GridCell 4 1 4 2),
      Centres (GridCell 4 1 4 2), Select [VInt 1, VInt 4, VInt 3], Points (GridCell 4 1 4 3),
      Centres (GridCell 4 1 4 3), Select [VInt 1, VInt 4, VInt 4], Points (GridCell 4 1 4 4)]"
  "plot_steps (seg49 L) =
     [Centres (WholeFigure 5), Select [VInt 1, VInt 4, VInt 1], Points (GridCell 5 1 4 1),
      Centres (GridCell 5 1 4 1), Select [VInt 1, VInt 4, VInt 2], Points (GridCell 5 1 4 2),
      Centres (GridCell 5 1 4 2), Select [VInt 1, VInt 4, VInt 3], Points (GridCell 5 1 4 3),
      Centres (GridCell 5 1 4 3), Select [VInt 1, VInt 4, VInt 4], Points (GridCell 5 1 4 4)]"
  by (simp_all add: seg_defs plot_steps_def scatter_step_def)

text \<open>
  Claim C9. The scatter plots and the selections of a subplot in the two clustering cells, in
  the order in which they happen: for each of the four datasets, the centres are drawn first,
  on the axes that are current then, the subplot of the dataset is selected next, and the
  points are drawn on it last. So the centres of the first dataset are drawn on the axes that
  fill the figure, the centres of every other dataset on the subplot of the dataset before,
  and never on the subplot that shows the points of their own dataset.
\<close>

theorem C9_centres_before_subplot:
  "plot_steps (cell_events 47 (trace (rehearsal L))) =
     [Centres (WholeFigure 4), Select [VInt 1, VInt 4, VInt 1], Points (GridCell 4 1 4 1),
      Centres (GridCell 4 1 4 1), Select [VInt 1, VInt 4, VInt 2], Points (GridCell 4 1 4 2),
      Centres (GridCell 4 1 4 2), Select [VInt 1, VInt 4, VInt 3], Points (GridCell 4 1 4 3),
      Centres (GridCell 4 1 4 3), Select [VInt 1, VInt 4, VInt 4], Points (GridCell 4 1 4 4)]
   \<and> plot_steps (cell_events 49 (trace (rehearsal L))) =
     [Centres (WholeFigure 5), Select [VInt 1, VInt 4, VInt 1], Points (GridCell 5 1 4 1),
      Centres (GridCell 5 1 4 1), Select [VInt 1, VInt 4, VInt 2], Points (GridCell 5 1 4 2),
      Centres (GridCell 5 1 4 2), Select [VInt 1, VInt 4, VInt 3], Points (GridCell 5 1 4 3),
      Centres (GridCell 5 1 4 3), Select [VInt 1, VInt 4, VInt 4], Points (GridCell 5 1 4 4)]"
  by (simp add: cell_log plot_segs)

end
